theory Spec2Isabelle
  imports Main "HOL-Library.Finite_Map" "HOL-Library.Word"
begin

section \<open>Go values on the Terraform side\<close>

text \<open>
  The provider exchanges values with Terraform as Go \<^verbatim>\<open>interface{}\<close> values. A value of
  \<open>tfval\<close> is such an interface value together with its dynamic Go type, because the
  expand functions branch on that type (\<^verbatim>\<open>x.(bool)\<close>, \<^verbatim>\<open>x.(string)\<close>, ...) and the flatten
  functions store values of several Go types under the keys of a map:

  \<^item> \<open>VNil\<close>: the nil interface (what \<^verbatim>\<open>tfMap[key]\<close> gives for an absent key);
  \<^item> \<open>VBool\<close>, \<open>VInt\<close>, \<open>VFloat\<close>, \<open>VString\<close>: \<^verbatim>\<open>bool\<close>, \<^verbatim>\<open>int\<close> (64 bits),
    \<^verbatim>\<open>float64\<close>, \<^verbatim>\<open>string\<close>;
  \<^item> \<open>VBoolPtr\<close>, \<open>VInt32Ptr\<close>, \<open>VInt64Ptr\<close>, \<open>VFloatPtr\<close>, \<open>VStringPtr\<close>: the pointer
    types \<^verbatim>\<open>*bool\<close>, \<^verbatim>\<open>*int32\<close>, \<^verbatim>\<open>*int64\<close>, \<^verbatim>\<open>*float64\<close>, \<^verbatim>\<open>*string\<close>, \<open>None\<close> being the
    nil pointer;
  \<^item> \<open>VEnum\<close>: a value of a named string type of the AWS SDK
    (\<^verbatim>\<open>awstypes.CachePolicyCookieBehavior\<close> and the like); \<^verbatim>\<open>x.(string)\<close> fails on it;
  \<^item> \<open>VStrings\<close>, \<open>VStringPtrs\<close>, \<open>VEnums\<close>: \<^verbatim>\<open>[]string\<close>, \<^verbatim>\<open>[]*string\<close> (no nil element)
    and a slice of a named string type;
  \<^item> \<open>VList\<close>: \<^verbatim>\<open>[]interface{}\<close> (a nil slice and an empty one are both \<open>[]\<close>: the code
    only takes their \<^verbatim>\<open>len\<close>);
  \<^item> \<open>VSet\<close>: \<^verbatim>\<open>*schema.Set\<close>, given by the list of elements that \<^verbatim>\<open>List()\<close> returns;
  \<^item> \<open>VMap\<close>: \<^verbatim>\<open>map[string]interface{}\<close>, \<open>None\<close> being the nil map.
\<close>

datatype float64 = Float64 (bits: "64 word")

datatype tfval =
    VNil
  | VBool bool
  | VBoolPtr "bool option"
  | VInt "64 word"
  | VInt32Ptr "32 word option"
  | VInt64Ptr "64 word option"
  | VFloat float64
  | VFloatPtr "float64 option"
  | VString string
  | VStringPtr "string option"
  | VEnum string
  | VStrings "string list"
  | VStringPtrs "string list"
  | VEnums "string list"
  | VList "tfval list"
  | VSet "tfval list"
  | VMap "(string, tfval) fmap option"

type_synonym tfmap = "(string, tfval) fmap"
type_synonym gomap = "tfmap option"

text \<open>A panic (a failed single-valued type assertion, a nil dereference) is a value.\<close>

datatype 'a go = Panic | Ret 'a

definition go_bind :: "'a go \<Rightarrow> ('a \<Rightarrow> 'b go) \<Rightarrow> 'b go" where
  "go_bind x f = (case x of Panic \<Rightarrow> Panic | Ret a \<Rightarrow> f a)"

text \<open>\<^verbatim>\<open>tfMap[key]\<close>: the nil interface when the key is absent.\<close>

definition tf_index :: "tfmap \<Rightarrow> string \<Rightarrow> tfval" where
  "tf_index m k = (case fmlookup m k of None \<Rightarrow> VNil | Some v \<Rightarrow> v)"

text \<open>The two-valued type assertions \<^verbatim>\<open>v, ok := x.(T)\<close>: \<open>None\<close> when \<open>ok\<close> is false.\<close>

definition as_bool :: "tfval \<Rightarrow> bool option" where
  "as_bool x = (case x of VBool b \<Rightarrow> Some b | _ \<Rightarrow> None)"

definition as_int :: "tfval \<Rightarrow> 64 word option" where
  "as_int x = (case x of VInt i \<Rightarrow> Some i | _ \<Rightarrow> None)"

definition as_float64 :: "tfval \<Rightarrow> float64 option" where
  "as_float64 x = (case x of VFloat f \<Rightarrow> Some f | _ \<Rightarrow> None)"

definition as_string :: "tfval \<Rightarrow> string option" where
  "as_string x = (case x of VString s \<Rightarrow> Some s | _ \<Rightarrow> None)"

definition as_list :: "tfval \<Rightarrow> tfval list option" where
  "as_list x = (case x of VList xs \<Rightarrow> Some xs | _ \<Rightarrow> None)"

definition as_set :: "tfval \<Rightarrow> tfval list option" where
  "as_set x = (case x of VSet xs \<Rightarrow> Some xs | _ \<Rightarrow> None)"

definition as_map :: "tfval \<Rightarrow> gomap option" where
  "as_map x = (case x of VMap m \<Rightarrow> Some m | _ \<Rightarrow> None)"

text \<open>
  The string field idiom \<^verbatim>\<open>if v, ok := tfMap[k].(string); ok && v != "" { field = v }\<close>:
  the value to store, if any.
\<close>

definition nonempty_string :: "tfval \<Rightarrow> string option" where
  "nonempty_string x = (case as_string x of Some v \<Rightarrow> if v \<noteq> [] then Some v else None | None \<Rightarrow> None)"

text \<open>
  The enum field idiom is the same, but the field is a named string and not a pointer:
  left alone, it keeps its zero value, the empty string.
\<close>

definition enum_field :: "tfval \<Rightarrow> string" where
  "enum_field x = (case nonempty_string x of Some v \<Rightarrow> v | None \<Rightarrow> [])"

text \<open>
  \<^verbatim>\<open>if v, ok := tfMap[k].(int); ok && v != 0 { field = aws.Int32(int32(v)) }\<close>: the
  conversion keeps the low 32 bits.
\<close>

definition int32_field :: "tfval \<Rightarrow> 32 word option" where
  "int32_field x = (case as_int x of Some v \<Rightarrow> if v \<noteq> 0 then Some (ucast v) else None | None \<Rightarrow> None)"

text \<open>
  The nested block idiom
  \<^verbatim>\<open>if v, ok := tfMap[k].([]interface{}); ok && len(v) > 0 [&& v[0] != nil] {
       field = expand(v[0].(map[string]interface{})) }\<close>.
  Some call sites test \<^verbatim>\<open>v[0] != nil\<close> and some do not (\<open>nil_checked\<close>). The single-valued
  assertion \<^verbatim>\<open>v[0].(map[string]interface{})\<close> panics when \<^verbatim>\<open>v[0]\<close> is not a map, the nil
  interface included.
\<close>

definition nested_block :: "bool \<Rightarrow> tfval \<Rightarrow> (gomap \<Rightarrow> 'a option go) \<Rightarrow> 'a option go" where
  "nested_block nil_checked x expand =
     (case as_list x of
        None \<Rightarrow> Ret None
      | Some [] \<Rightarrow> Ret None
      | Some (v0 # rest) \<Rightarrow>
          if nil_checked \<and> v0 = VNil then Ret None
          else (case as_map v0 of None \<Rightarrow> Panic | Some tf \<Rightarrow> expand tf))"

text \<open>\<^verbatim>\<open>len(v) > 0\<close> for a map; the length of a nil map is 0.\<close>

definition map_nonempty :: "gomap \<Rightarrow> bool" where
  "map_nonempty v = (case v of None \<Rightarrow> False | Some m \<Rightarrow> m \<noteq> fmempty)"

text \<open>\<^verbatim>\<open>if c { tfMap[k] = x }\<close>.\<close>

definition put_if :: "bool \<Rightarrow> string \<Rightarrow> tfval \<Rightarrow> tfmap \<Rightarrow> tfmap" where
  "put_if c k x m = (if c then fmupd k x m else m)"

text \<open>
  \<^verbatim>\<open>if v := flatten(sub); len(v) > 0 { tfMap[k] = []interface{}{v} }\<close>.
\<close>

definition put_block :: "string \<Rightarrow> gomap \<Rightarrow> tfmap \<Rightarrow> tfmap" where
  "put_block k v m = put_if (map_nonempty v) k (VList [VMap v]) m"

text \<open>\<^verbatim>\<open>if v := ptr; v != nil { tfMap[k] = f(*v) }\<close>.\<close>

definition put_some :: "string \<Rightarrow> 'a option \<Rightarrow> ('a \<Rightarrow> tfval) \<Rightarrow> tfmap \<Rightarrow> tfmap" where
  "put_some k p f m = (case p of None \<Rightarrow> m | Some x \<Rightarrow> fmupd k (f x) m)"

section \<open>Errors and diagnostics\<close>

text \<open>
  The errors that the handlers tell apart: an \<^verbatim>\<open>InvalidInput\<close> error (the type that the
  sources import from the \<^verbatim>\<open>route53domains\<close> package) with its message, the SDK's
  \<^verbatim>\<open>retry.NotFoundError\<close> with its \<^verbatim>\<open>LastError\<close>, the empty-result error of
  \<^verbatim>\<open>tfresource.NewEmptyResultError\<close>, and any other error, given by its text.
\<close>

datatype error =
    InvalidInput string
  | NotFoundError "error option"
  | EmptyResultError
  | OtherError string

text \<open>\<^verbatim>\<open>strings.Contains(s, substr)\<close>.\<close>

fun contains :: "string \<Rightarrow> string \<Rightarrow> bool" where
  "contains [] substr = (substr = [])"
| "contains (c # cs) substr = (take (length substr) (c # cs) = substr \<or> contains cs substr)"

text \<open>
  Modelled from the spec: \<^verbatim>\<open>internal/errs\<close> and \<^verbatim>\<open>internal/tfresource\<close> are not among the
  sources. \<^verbatim>\<open>errs.IsAErrorMessageContains[*types.InvalidInput](err, needle)\<close> holds of an
  \<^verbatim>\<open>InvalidInput\<close> error whose message contains the needle, and of no other error or nil;
  \<^verbatim>\<open>tfresource.NotFound(err)\<close> holds of a \<^verbatim>\<open>retry.NotFoundError\<close> and of the empty-result
  error, and not of nil.
\<close>

definition IsAErrorMessageContains_InvalidInput :: "error option \<Rightarrow> string \<Rightarrow> bool" where
  "IsAErrorMessageContains_InvalidInput err needle =
     (case err of Some (InvalidInput message) \<Rightarrow> contains message needle | _ \<Rightarrow> False)"

definition NotFound :: "error option \<Rightarrow> bool" where
  "NotFound err =
     (case err of Some (NotFoundError lastError) \<Rightarrow> True | Some EmptyResultError \<Rightarrow> True | _ \<Rightarrow> False)"

text \<open>
  \<^verbatim>\<open>sdkdiag.AppendErrorf(diags, format, args..., err)\<close> appends one error diagnostic; it is
  kept as the format, the string arguments and the error.
\<close>

datatype diag = ErrorDiag string "string list" error

definition has_error :: "diag list \<Rightarrow> bool" where
  "has_error diags = (diags \<noteq> [])"

definition ToString :: "string option \<Rightarrow> string" where
  "ToString p = (case p of None \<Rightarrow> [] | Some s \<Rightarrow> s)"

section \<open>Helpers of the repository that are not among the sources\<close>

text \<open>
  \<^verbatim>\<open>internal/flex\<close>, \<^verbatim>\<open>internal/create\<close> and the SDK's \<^verbatim>\<open>id.UniqueId\<close> are not part of the
  sources at hand; the functions below take them as parameters. \<open>ExpandStringSet\<close> stands
  for \<^verbatim>\<open>flex.ExpandStringSet\<close> (applied to the elements of the set; it returns pointers,
  none of them nil, given here by the strings they point to), \<open>ExpandStringValueSet\<close>
  for \<^verbatim>\<open>flex.ExpandStringValueSet\<close>, \<open>GenerateName\<close> for the name generator of
  \<^verbatim>\<open>create.NewNameGenerator\<close> applied to the configured name and prefix, and
  \<open>NamePrefixFromName\<close> for \<^verbatim>\<open>create.NamePrefixFromName\<close>. \<open>SetError\<close> is the check of the
  SDK's \<^verbatim>\<open>d.Set\<close>: the error, if any, that it returns for a key and a value.
\<close>

record env =
  ExpandStringSet :: "tfval list \<Rightarrow> string list"
  ExpandStringValueSet :: "tfval list \<Rightarrow> string list"
  GenerateName :: "string \<Rightarrow> string \<Rightarrow> string"
  NamePrefixFromName :: "string \<Rightarrow> string option"
  UniqueId :: string
  SetError :: "string \<Rightarrow> tfval \<Rightarrow> error option"

section \<open>API objects\<close>

text \<open>
  The structs of the AWS SDK. A pointer field is an \<open>option\<close>; a field of a named string
  type is a \<open>string\<close> whose zero value is empty; a slice is a list \<open>option\<close>, \<open>None\<close>
  being the nil slice. \<^verbatim>\<open>CookieNames\<close>, \<^verbatim>\<open>Headers\<close>, \<^verbatim>\<open>QueryStringNames\<close> and the other
  structs made of an \<^verbatim>\<open>Items\<close> slice and a \<^verbatim>\<open>Quantity *int32\<close> share one record.
\<close>

record 'a ItemsQuantity =
  Items :: "'a list option"
  Quantity :: "32 word option"

type_synonym CookieNames = "string ItemsQuantity"
type_synonym Headers = "string ItemsQuantity"
type_synonym QueryStringNames = "string ItemsQuantity"

definition slice_len :: "'a list option \<Rightarrow> nat" where
  "slice_len s = (case s of None \<Rightarrow> 0 | Some xs \<Rightarrow> length xs)"

definition no_items :: "'a ItemsQuantity" where
  "no_items = \<lparr>Items = None, Quantity = None\<rparr>"

text \<open>
  \<^verbatim>\<open>CachePolicyCookiesConfig\<close> and \<^verbatim>\<open>OriginRequestPolicyCookiesConfig\<close> have the same
  fields, and so have the headers and query strings configurations.
\<close>

record CookiesConfig =
  CookieBehavior :: string
  Cookies :: "CookieNames option"

record HeadersConfig =
  HeaderBehavior :: string
  Headers :: "Headers option"

record QueryStringsConfig =
  QueryStringBehavior :: string
  QueryStrings :: "QueryStringNames option"

record ParametersInCacheKeyAndForwardedToOrigin =
  p_CookiesConfig :: "CookiesConfig option"
  EnableAcceptEncodingBrotli :: "bool option"
  EnableAcceptEncodingGzip :: "bool option"
  p_HeadersConfig :: "HeadersConfig option"
  p_QueryStringsConfig :: "QueryStringsConfig option"

section \<open>Cache policy: expand and flatten\<close>

text \<open>
  \<^verbatim>\<open>expandCookieNames\<close>: the loop copies the strings behind \<^verbatim>\<open>items\<close> one by one into a
  slice made with the same length, so \<^verbatim>\<open>Items\<close> is a non-nil slice of those strings.
\<close>

definition expandCookieNames :: "env \<Rightarrow> gomap \<Rightarrow> CookieNames option" where
  "expandCookieNames e tfMap =
     (case tfMap of
        None \<Rightarrow> None
      | Some m \<Rightarrow>
          (case as_set (tf_index m ''items'') of
             None \<Rightarrow> Some no_items
           | Some v \<Rightarrow>
               if length v > 0
               then (let items = ExpandStringSet e v
                     in Some \<lparr>Items = Some items, Quantity = Some (of_nat (length items))\<rparr>)
               else Some no_items))"

definition expandHeaders :: "env \<Rightarrow> gomap \<Rightarrow> Headers option" where
  "expandHeaders e tfMap =
     (case tfMap of
        None \<Rightarrow> None
      | Some m \<Rightarrow>
          (case as_set (tf_index m ''items'') of
             None \<Rightarrow> Some no_items
           | Some v \<Rightarrow>
               if length v > 0
               then (let items = ExpandStringSet e v
                     in Some \<lparr>Items = Some items, Quantity = Some (of_nat (length items))\<rparr>)
               else Some no_items))"

definition expandQueryStringNames :: "env \<Rightarrow> gomap \<Rightarrow> QueryStringNames option" where
  "expandQueryStringNames e tfMap =
     (case tfMap of
        None \<Rightarrow> None
      | Some m \<Rightarrow>
          (case as_set (tf_index m ''items'') of
             None \<Rightarrow> Some no_items
           | Some v \<Rightarrow>
               if length v > 0
               then (let items = ExpandStringSet e v
                     in Some \<lparr>Items = Some items, Quantity = Some (of_nat (length items))\<rparr>)
               else Some no_items))"

definition expandCachePolicyCookiesConfig :: "env \<Rightarrow> gomap \<Rightarrow> CookiesConfig option go" where
  "expandCachePolicyCookiesConfig e tfMap =
     (case tfMap of
        None \<Rightarrow> Ret None
      | Some m \<Rightarrow>
          go_bind (nested_block True (tf_index m ''cookies'') (\<lambda>tf. Ret (expandCookieNames e tf)))
            (\<lambda>cookies.
          Ret (Some \<lparr>CookieBehavior = enum_field (tf_index m ''cookie_behavior''),
                     Cookies = cookies\<rparr>)))"

definition expandCachePolicyHeadersConfig :: "env \<Rightarrow> gomap \<Rightarrow> HeadersConfig option go" where
  "expandCachePolicyHeadersConfig e tfMap =
     (case tfMap of
        None \<Rightarrow> Ret None
      | Some m \<Rightarrow>
          go_bind (nested_block True (tf_index m ''headers'') (\<lambda>tf. Ret (expandHeaders e tf)))
            (\<lambda>headers.
          Ret (Some \<lparr>HeaderBehavior = enum_field (tf_index m ''header_behavior''),
                     Headers = headers\<rparr>)))"

definition expandCachePolicyQueryStringsConfig :: "env \<Rightarrow> gomap \<Rightarrow> QueryStringsConfig option go" where
  "expandCachePolicyQueryStringsConfig e tfMap =
     (case tfMap of
        None \<Rightarrow> Ret None
      | Some m \<Rightarrow>
          go_bind (nested_block True (tf_index m ''query_strings'')
                     (\<lambda>tf. Ret (expandQueryStringNames e tf)))
            (\<lambda>queryStrings.
          Ret (Some \<lparr>QueryStringBehavior = enum_field (tf_index m ''query_string_behavior''),
                     QueryStrings = queryStrings\<rparr>)))"

definition expandParametersInCacheKeyAndForwardedToOrigin ::
    "env \<Rightarrow> gomap \<Rightarrow> ParametersInCacheKeyAndForwardedToOrigin option go" where
  "expandParametersInCacheKeyAndForwardedToOrigin e tfMap =
     (case tfMap of
        None \<Rightarrow> Ret None
      | Some m \<Rightarrow>
          go_bind (nested_block False (tf_index m ''cookies_config'')
                     (expandCachePolicyCookiesConfig e))
            (\<lambda>cookiesConfig.
          go_bind (nested_block False (tf_index m ''headers_config'')
                     (expandCachePolicyHeadersConfig e))
            (\<lambda>headersConfig.
          go_bind (nested_block False (tf_index m ''query_strings_config'')
                     (expandCachePolicyQueryStringsConfig e))
            (\<lambda>queryStringsConfig.
          Ret (Some \<lparr>p_CookiesConfig = cookiesConfig,
                     EnableAcceptEncodingBrotli = as_bool (tf_index m ''enable_accept_encoding_brotli''),
                     EnableAcceptEncodingGzip = as_bool (tf_index m ''enable_accept_encoding_gzip''),
                     p_HeadersConfig = headersConfig,
                     p_QueryStringsConfig = queryStringsConfig\<rparr>)))))"

definition flattenCookieNames :: "CookieNames option \<Rightarrow> gomap" where
  "flattenCookieNames apiObject =
     (case apiObject of
        None \<Rightarrow> None
      | Some a \<Rightarrow>
          Some (put_if (slice_len (Items a) > 0) ''items'' (VStrings (the (Items a))) fmempty))"

definition flattenHeaders :: "Headers option \<Rightarrow> gomap" where
  "flattenHeaders apiObject =
     (case apiObject of
        None \<Rightarrow> None
      | Some a \<Rightarrow>
          Some (put_if (slice_len (Items a) > 0) ''items'' (VStrings (the (Items a))) fmempty))"

definition flattenQueryStringNames :: "QueryStringNames option \<Rightarrow> gomap" where
  "flattenQueryStringNames apiObject =
     (case apiObject of
        None \<Rightarrow> None
      | Some a \<Rightarrow>
          Some (put_if (slice_len (Items a) > 0) ''items'' (VStrings (the (Items a))) fmempty))"

definition flattenCachePolicyCookiesConfig :: "CookiesConfig option \<Rightarrow> gomap" where
  "flattenCachePolicyCookiesConfig apiObject =
     (case apiObject of
        None \<Rightarrow> None
      | Some a \<Rightarrow>
          Some (put_block ''cookies'' (flattenCookieNames (Cookies a))
               (put_if (CookieBehavior a \<noteq> []) ''cookie_behavior'' (VEnum (CookieBehavior a))
                fmempty)))"

definition flattenCachePolicyHeadersConfig :: "HeadersConfig option \<Rightarrow> gomap" where
  "flattenCachePolicyHeadersConfig apiObject =
     (case apiObject of
        None \<Rightarrow> None
      | Some a \<Rightarrow>
          Some (put_block ''headers'' (flattenHeaders (Headers a))
               (put_if (HeaderBehavior a \<noteq> []) ''header_behavior'' (VEnum (HeaderBehavior a))
                fmempty)))"

definition flattenCachePolicyQueryStringsConfig :: "QueryStringsConfig option \<Rightarrow> gomap" where
  "flattenCachePolicyQueryStringsConfig apiObject =
     (case apiObject of
        None \<Rightarrow> None
      | Some a \<Rightarrow>
          Some (put_block ''query_strings'' (flattenQueryStringNames (QueryStrings a))
               (put_if (QueryStringBehavior a \<noteq> []) ''query_string_behavior''
                  (VEnum (QueryStringBehavior a))
                fmempty)))"

definition flattenParametersInCacheKeyAndForwardedToOrigin ::
    "ParametersInCacheKeyAndForwardedToOrigin option \<Rightarrow> gomap" where
  "flattenParametersInCacheKeyAndForwardedToOrigin apiObject =
     (case apiObject of
        None \<Rightarrow> None
      | Some a \<Rightarrow>
          Some (put_block ''query_strings_config''
                  (flattenCachePolicyQueryStringsConfig (p_QueryStringsConfig a))
               (put_block ''headers_config'' (flattenCachePolicyHeadersConfig (p_HeadersConfig a))
               (put_some ''enable_accept_encoding_gzip'' (EnableAcceptEncodingGzip a)
                  (\<lambda>v. VBoolPtr (Some v))
               (put_some ''enable_accept_encoding_brotli'' (EnableAcceptEncodingBrotli a)
                  (\<lambda>v. VBoolPtr (Some v))
               (put_block ''cookies_config'' (flattenCachePolicyCookiesConfig (p_CookiesConfig a))
                fmempty))))))"

section \<open>Origin request policy: expand and flatten\<close>

definition expandOriginRequestPolicyCookiesConfig :: "env \<Rightarrow> gomap \<Rightarrow> CookiesConfig option go" where
  "expandOriginRequestPolicyCookiesConfig e tfMap =
     (case tfMap of
        None \<Rightarrow> Ret None
      | Some m \<Rightarrow>
          go_bind (nested_block True (tf_index m ''cookies'') (\<lambda>tf. Ret (expandCookieNames e tf)))
            (\<lambda>cookies.
          Ret (Some \<lparr>CookieBehavior = enum_field (tf_index m ''cookie_behavior''),
                     Cookies = cookies\<rparr>)))"

definition expandOriginRequestPolicyHeadersConfig :: "env \<Rightarrow> gomap \<Rightarrow> HeadersConfig option go" where
  "expandOriginRequestPolicyHeadersConfig e tfMap =
     (case tfMap of
        None \<Rightarrow> Ret None
      | Some m \<Rightarrow>
          go_bind (nested_block True (tf_index m ''headers'') (\<lambda>tf. Ret (expandHeaders e tf)))
            (\<lambda>headers.
          Ret (Some \<lparr>HeaderBehavior = enum_field (tf_index m ''header_behavior''),
                     Headers = headers\<rparr>)))"

definition expandOriginRequestPolicyQueryStringsConfig ::
    "env \<Rightarrow> gomap \<Rightarrow> QueryStringsConfig option go" where
  "expandOriginRequestPolicyQueryStringsConfig e tfMap =
     (case tfMap of
        None \<Rightarrow> Ret None
      | Some m \<Rightarrow>
          go_bind (nested_block True (tf_index m ''query_strings'')
                     (\<lambda>tf. Ret (expandQueryStringNames e tf)))
            (\<lambda>queryStrings.
          Ret (Some \<lparr>QueryStringBehavior = enum_field (tf_index m ''query_string_behavior''),
                     QueryStrings = queryStrings\<rparr>)))"

definition flattenOriginRequestPolicyCookiesConfig :: "CookiesConfig option \<Rightarrow> gomap" where
  "flattenOriginRequestPolicyCookiesConfig apiObject =
     (case apiObject of
        None \<Rightarrow> None
      | Some a \<Rightarrow>
          Some (put_block ''cookies'' (flattenCookieNames (Cookies a))
               (put_if (CookieBehavior a \<noteq> []) ''cookie_behavior'' (VEnum (CookieBehavior a))
                fmempty)))"

definition flattenOriginRequestPolicyHeadersConfig :: "HeadersConfig option \<Rightarrow> gomap" where
  "flattenOriginRequestPolicyHeadersConfig apiObject =
     (case apiObject of
        None \<Rightarrow> None
      | Some a \<Rightarrow>
          Some (put_block ''headers'' (flattenHeaders (Headers a))
               (put_if (HeaderBehavior a \<noteq> []) ''header_behavior'' (VEnum (HeaderBehavior a))
                fmempty)))"

definition flattenOriginRequestPolicyQueryStringsConfig :: "QueryStringsConfig option \<Rightarrow> gomap" where
  "flattenOriginRequestPolicyQueryStringsConfig apiObject =
     (case apiObject of
        None \<Rightarrow> None
      | Some a \<Rightarrow>
          Some (put_block ''query_strings'' (flattenQueryStringNames (QueryStrings a))
               (put_if (QueryStringBehavior a \<noteq> []) ''query_string_behavior''
                  (VEnum (QueryStringBehavior a))
                fmempty)))"

section \<open>Monitoring subscription: expand and flatten\<close>

record RealtimeMetricsSubscriptionConfig =
  RealtimeMetricsSubscriptionStatus :: string

record MonitoringSubscription =
  ms_RealtimeMetricsSubscriptionConfig :: "RealtimeMetricsSubscriptionConfig option"

definition expandRealtimeMetricsSubscriptionConfig ::
    "gomap \<Rightarrow> RealtimeMetricsSubscriptionConfig option" where
  "expandRealtimeMetricsSubscriptionConfig tfMap =
     (case tfMap of
        None \<Rightarrow> None
      | Some m \<Rightarrow>
          Some \<lparr>RealtimeMetricsSubscriptionStatus =
                  enum_field (tf_index m ''realtime_metrics_subscription_status'')\<rparr>)"

definition expandMonitoringSubscription :: "gomap \<Rightarrow> MonitoringSubscription option go" where
  "expandMonitoringSubscription tfMap =
     (case tfMap of
        None \<Rightarrow> Ret None
      | Some m \<Rightarrow>
          go_bind (nested_block False (tf_index m ''realtime_metrics_subscription_config'')
                     (\<lambda>tf. Ret (expandRealtimeMetricsSubscriptionConfig tf)))
            (\<lambda>config.
          Ret (Some \<lparr>ms_RealtimeMetricsSubscriptionConfig = config\<rparr>)))"

text \<open>
  In \<^verbatim>\<open>flattenRealtimeMetricsSubscriptionConfig\<close> the test \<^verbatim>\<open>&v != nil\<close> takes the address
  of a local variable and is always true: the key is always written.
\<close>

definition flattenRealtimeMetricsSubscriptionConfig ::
    "RealtimeMetricsSubscriptionConfig option \<Rightarrow> gomap" where
  "flattenRealtimeMetricsSubscriptionConfig apiObject =
     (case apiObject of
        None \<Rightarrow> None
      | Some a \<Rightarrow>
          Some (fmupd ''realtime_metrics_subscription_status''
                  (VEnum (RealtimeMetricsSubscriptionStatus a)) fmempty))"

definition flattenMonitoringSubscription :: "MonitoringSubscription option \<Rightarrow> gomap" where
  "flattenMonitoringSubscription apiObject =
     (case apiObject of
        None \<Rightarrow> None
      | Some a \<Rightarrow>
          Some (put_block ''realtime_metrics_subscription_config''
                  (flattenRealtimeMetricsSubscriptionConfig (ms_RealtimeMetricsSubscriptionConfig a))
                fmempty))"

section \<open>Response headers policy: expand and flatten\<close>

subsection \<open>cors_config\<close>

type_synonym ResponseHeadersPolicyAccessControlAllowHeaders = "string ItemsQuantity"
type_synonym ResponseHeadersPolicyAccessControlAllowMethods = "string ItemsQuantity"
type_synonym ResponseHeadersPolicyAccessControlAllowOrigins = "string ItemsQuantity"
type_synonym ResponseHeadersPolicyAccessControlExposeHeaders = "string ItemsQuantity"

record ResponseHeadersPolicyCorsConfig =
  AccessControlAllowCredentials :: "bool option"
  AccessControlAllowHeaders :: "ResponseHeadersPolicyAccessControlAllowHeaders option"
  AccessControlAllowMethods :: "ResponseHeadersPolicyAccessControlAllowMethods option"
  AccessControlAllowOrigins :: "ResponseHeadersPolicyAccessControlAllowOrigins option"
  AccessControlExposeHeaders :: "ResponseHeadersPolicyAccessControlExposeHeaders option"
  cors_AccessControlMaxAgeSec :: "32 word option"
  OriginOverride :: "bool option"

definition expandResponseHeadersPolicyAccessControlAllowHeaders ::
    "env \<Rightarrow> gomap \<Rightarrow> ResponseHeadersPolicyAccessControlAllowHeaders option" where
  "expandResponseHeadersPolicyAccessControlAllowHeaders e tfMap =
     (case tfMap of
        None \<Rightarrow> None
      | Some m \<Rightarrow>
          (case as_set (tf_index m ''items'') of
             None \<Rightarrow> Some no_items
           | Some v \<Rightarrow>
               if length v > 0
               then (let items = ExpandStringValueSet e v
                     in Some \<lparr>Items = Some items, Quantity = Some (of_nat (length items))\<rparr>)
               else Some no_items))"

text \<open>
  \<^verbatim>\<open>expandResponseHeadersPolicyAccessControlAllowMethods\<close> appends each string, converted
  to the named string type, to an empty non-nil slice.
\<close>

definition expandResponseHeadersPolicyAccessControlAllowMethods ::
    "env \<Rightarrow> gomap \<Rightarrow> ResponseHeadersPolicyAccessControlAllowMethods option" where
  "expandResponseHeadersPolicyAccessControlAllowMethods e tfMap =
     (case tfMap of
        None \<Rightarrow> None
      | Some m \<Rightarrow>
          (case as_set (tf_index m ''items'') of
             None \<Rightarrow> Some no_items
           | Some v \<Rightarrow>
               if length v > 0
               then (let items = ExpandStringValueSet e v;
                         apiItems = foldl (\<lambda>acc item. acc @ [item]) [] items
                     in Some \<lparr>Items = Some apiItems, Quantity = Some (of_nat (length items))\<rparr>)
               else Some no_items))"

definition expandResponseHeadersPolicyAccessControlAllowOrigins ::
    "env \<Rightarrow> gomap \<Rightarrow> ResponseHeadersPolicyAccessControlAllowOrigins option" where
  "expandResponseHeadersPolicyAccessControlAllowOrigins e tfMap =
     (case tfMap of
        None \<Rightarrow> None
      | Some m \<Rightarrow>
          (case as_set (tf_index m ''items'') of
             None \<Rightarrow> Some no_items
           | Some v \<Rightarrow>
               if length v > 0
               then (let items = ExpandStringValueSet e v
                     in Some \<lparr>Items = Some items, Quantity = Some (of_nat (length items))\<rparr>)
               else Some no_items))"

definition expandResponseHeadersPolicyAccessControlExposeHeaders ::
    "env \<Rightarrow> gomap \<Rightarrow> ResponseHeadersPolicyAccessControlExposeHeaders option" where
  "expandResponseHeadersPolicyAccessControlExposeHeaders e tfMap =
     (case tfMap of
        None \<Rightarrow> None
      | Some m \<Rightarrow>
          (case as_set (tf_index m ''items'') of
             None \<Rightarrow> Some no_items
           | Some v \<Rightarrow>
               if length v > 0
               then (let items = ExpandStringValueSet e v
                     in Some \<lparr>Items = Some items, Quantity = Some (of_nat (length items))\<rparr>)
               else Some no_items))"

definition expandResponseHeadersPolicyCorsConfig ::
    "env \<Rightarrow> gomap \<Rightarrow> ResponseHeadersPolicyCorsConfig option go" where
  "expandResponseHeadersPolicyCorsConfig e tfMap =
     (case tfMap of
        None \<Rightarrow> Ret None
      | Some m \<Rightarrow>
          go_bind (nested_block True (tf_index m ''access_control_allow_headers'')
                     (\<lambda>tf. Ret (expandResponseHeadersPolicyAccessControlAllowHeaders e tf)))
            (\<lambda>allowHeaders.
          go_bind (nested_block True (tf_index m ''access_control_allow_methods'')
                     (\<lambda>tf. Ret (expandResponseHeadersPolicyAccessControlAllowMethods e tf)))
            (\<lambda>allowMethods.
          go_bind (nested_block True (tf_index m ''access_control_allow_origins'')
                     (\<lambda>tf. Ret (expandResponseHeadersPolicyAccessControlAllowOrigins e tf)))
            (\<lambda>allowOrigins.
          go_bind (nested_block True (tf_index m ''access_control_expose_headers'')
                     (\<lambda>tf. Ret (expandResponseHeadersPolicyAccessControlExposeHeaders e tf)))
            (\<lambda>exposeHeaders.
          Ret (Some \<lparr>AccessControlAllowCredentials =
                       as_bool (tf_index m ''access_control_allow_credentials''),
                     AccessControlAllowHeaders = allowHeaders,
                     AccessControlAllowMethods = allowMethods,
                     AccessControlAllowOrigins = allowOrigins,
                     AccessControlExposeHeaders = exposeHeaders,
                     cors_AccessControlMaxAgeSec =
                       int32_field (tf_index m ''access_control_max_age_sec''),
                     OriginOverride = as_bool (tf_index m ''origin_override'')\<rparr>))))))"

definition flattenResponseHeadersPolicyAccessControlAllowHeaders ::
    "ResponseHeadersPolicyAccessControlAllowHeaders option \<Rightarrow> gomap" where
  "flattenResponseHeadersPolicyAccessControlAllowHeaders apiObject =
     (case apiObject of
        None \<Rightarrow> None
      | Some a \<Rightarrow>
          Some (put_if (slice_len (Items a) > 0) ''items'' (VStringPtrs (the (Items a))) fmempty))"

definition flattenResponseHeadersPolicyAccessControlAllowMethods ::
    "ResponseHeadersPolicyAccessControlAllowMethods option \<Rightarrow> gomap" where
  "flattenResponseHeadersPolicyAccessControlAllowMethods apiObject =
     (case apiObject of
        None \<Rightarrow> None
      | Some a \<Rightarrow>
          Some (put_if (slice_len (Items a) > 0) ''items'' (VEnums (the (Items a))) fmempty))"

definition flattenResponseHeadersPolicyAccessControlAllowOrigins ::
    "ResponseHeadersPolicyAccessControlAllowOrigins option \<Rightarrow> gomap" where
  "flattenResponseHeadersPolicyAccessControlAllowOrigins apiObject =
     (case apiObject of
        None \<Rightarrow> None
      | Some a \<Rightarrow>
          Some (put_if (slice_len (Items a) > 0) ''items'' (VStringPtrs (the (Items a))) fmempty))"

definition flattenResponseHeadersPolicyAccessControlExposeHeaders ::
    "ResponseHeadersPolicyAccessControlExposeHeaders option \<Rightarrow> gomap" where
  "flattenResponseHeadersPolicyAccessControlExposeHeaders apiObject =
     (case apiObject of
        None \<Rightarrow> None
      | Some a \<Rightarrow>
          Some (put_if (slice_len (Items a) > 0) ''items'' (VStringPtrs (the (Items a))) fmempty))"

definition flattenResponseHeadersPolicyCorsConfig ::
    "ResponseHeadersPolicyCorsConfig option \<Rightarrow> gomap" where
  "flattenResponseHeadersPolicyCorsConfig apiObject =
     (case apiObject of
        None \<Rightarrow> None
      | Some a \<Rightarrow>
          Some (put_some ''origin_override'' (OriginOverride a) VBool
               (put_some ''access_control_max_age_sec'' (cors_AccessControlMaxAgeSec a)
                  (\<lambda>v. VInt32Ptr (Some v))
               (put_block ''access_control_expose_headers''
                  (flattenResponseHeadersPolicyAccessControlExposeHeaders
                     (AccessControlExposeHeaders a))
               (put_block ''access_control_allow_origins''
                  (flattenResponseHeadersPolicyAccessControlAllowOrigins
                     (AccessControlAllowOrigins a))
               (put_block ''access_control_allow_methods''
                  (flattenResponseHeadersPolicyAccessControlAllowMethods
                     (AccessControlAllowMethods a))
               (put_block ''access_control_allow_headers''
                  (flattenResponseHeadersPolicyAccessControlAllowHeaders
                     (AccessControlAllowHeaders a))
               (put_some ''access_control_allow_credentials'' (AccessControlAllowCredentials a)
                  VBool
                fmempty))))))))"

subsection \<open>custom_headers_config and remove_headers_config\<close>

record ResponseHeadersPolicyCustomHeader =
  ch_Header :: "string option"
  ch_Override :: "bool option"
  ch_Value :: "string option"

type_synonym ResponseHeadersPolicyCustomHeadersConfig =
  "ResponseHeadersPolicyCustomHeader ItemsQuantity"

record ResponseHeadersPolicyRemoveHeader =
  rh_Header :: "string option"

type_synonym ResponseHeadersPolicyRemoveHeadersConfig =
  "ResponseHeadersPolicyRemoveHeader ItemsQuantity"

text \<open>\<^verbatim>\<open>append(s, x)\<close> on a slice that may be nil.\<close>

definition slice_append :: "'a list option \<Rightarrow> 'a \<Rightarrow> 'a list option" where
  "slice_append s x = (case s of None \<Rightarrow> Some [x] | Some xs \<Rightarrow> Some (xs @ [x]))"

definition expandResponseHeadersPolicyCustomHeader ::
    "gomap \<Rightarrow> ResponseHeadersPolicyCustomHeader option" where
  "expandResponseHeadersPolicyCustomHeader tfMap =
     (case tfMap of
        None \<Rightarrow> None
      | Some m \<Rightarrow>
          Some \<lparr>ch_Header = nonempty_string (tf_index m ''header''),
                ch_Override = as_bool (tf_index m ''override''),
                ch_Value = nonempty_string (tf_index m ''value'')\<rparr>)"

text \<open>
  The loop of \<^verbatim>\<open>expandResponseHeadersPolicyCustomHeaders\<close>, with the slice built so far:
  an element that is not a map, or that expands to nil, is skipped.
\<close>

fun expandResponseHeadersPolicyCustomHeaders_loop ::
    "tfval list \<Rightarrow> ResponseHeadersPolicyCustomHeader list option
       \<Rightarrow> ResponseHeadersPolicyCustomHeader list option" where
  "expandResponseHeadersPolicyCustomHeaders_loop [] apiObjects = apiObjects"
| "expandResponseHeadersPolicyCustomHeaders_loop (tfMapRaw # rest) apiObjects =
     (case as_map tfMapRaw of
        None \<Rightarrow> expandResponseHeadersPolicyCustomHeaders_loop rest apiObjects
      | Some tfMap \<Rightarrow>
          (case expandResponseHeadersPolicyCustomHeader tfMap of
             None \<Rightarrow> expandResponseHeadersPolicyCustomHeaders_loop rest apiObjects
           | Some apiObject \<Rightarrow>
               expandResponseHeadersPolicyCustomHeaders_loop rest
                 (slice_append apiObjects apiObject)))"

definition expandResponseHeadersPolicyCustomHeaders ::
    "tfval list \<Rightarrow> ResponseHeadersPolicyCustomHeader list option" where
  "expandResponseHeadersPolicyCustomHeaders tfList =
     (if length tfList = 0 then None
      else expandResponseHeadersPolicyCustomHeaders_loop tfList None)"

definition expandResponseHeadersPolicyCustomHeadersConfig ::
    "gomap \<Rightarrow> ResponseHeadersPolicyCustomHeadersConfig option" where
  "expandResponseHeadersPolicyCustomHeadersConfig tfMap =
     (case tfMap of
        None \<Rightarrow> None
      | Some m \<Rightarrow>
          (case as_set (tf_index m ''items'') of
             None \<Rightarrow> Some no_items
           | Some v \<Rightarrow>
               if length v > 0
               then (let items = expandResponseHeadersPolicyCustomHeaders v
                     in Some \<lparr>Items = items, Quantity = Some (of_nat (slice_len items))\<rparr>)
               else Some no_items))"

definition flattenResponseHeadersPolicyCustomHeader ::
    "ResponseHeadersPolicyCustomHeader option \<Rightarrow> gomap" where
  "flattenResponseHeadersPolicyCustomHeader apiObject =
     (case apiObject of
        None \<Rightarrow> None
      | Some a \<Rightarrow>
          Some (put_some ''value'' (ch_Value a) VString
               (put_some ''override'' (ch_Override a) VBool
               (put_some ''header'' (ch_Header a) VString
                fmempty))))"

text \<open>
  The loop of \<^verbatim>\<open>flattenResponseHeadersPolicyCustomHeaders\<close>; \<^verbatim>\<open>&apiObject == nil\<close> is never
  true. The result is a \<^verbatim>\<open>[]interface{}\<close>.
\<close>

fun flattenResponseHeadersPolicyCustomHeaders_loop ::
    "ResponseHeadersPolicyCustomHeader list \<Rightarrow> tfval list \<Rightarrow> tfval list" where
  "flattenResponseHeadersPolicyCustomHeaders_loop [] tfList = tfList"
| "flattenResponseHeadersPolicyCustomHeaders_loop (apiObject # rest) tfList =
     (let v = flattenResponseHeadersPolicyCustomHeader (Some apiObject)
      in if map_nonempty v
         then flattenResponseHeadersPolicyCustomHeaders_loop rest (tfList @ [VMap v])
         else flattenResponseHeadersPolicyCustomHeaders_loop rest tfList)"

definition flattenResponseHeadersPolicyCustomHeaders ::
    "ResponseHeadersPolicyCustomHeader list option \<Rightarrow> tfval list" where
  "flattenResponseHeadersPolicyCustomHeaders apiObjects =
     (if slice_len apiObjects = 0 then []
      else flattenResponseHeadersPolicyCustomHeaders_loop (the apiObjects) [])"

text \<open>
  \<^verbatim>\<open>flattenResponseHeadersPolicyCustomHeadersConfig\<close> takes the struct by value, so its
  nil test never holds.
\<close>

definition flattenResponseHeadersPolicyCustomHeadersConfig ::
    "ResponseHeadersPolicyCustomHeadersConfig \<Rightarrow> gomap" where
  "flattenResponseHeadersPolicyCustomHeadersConfig a =
     Some (put_if (slice_len (Items a) > 0) ''items''
             (VList (flattenResponseHeadersPolicyCustomHeaders (Items a))) fmempty)"

definition expandResponseHeadersPolicyRemoveHeader ::
    "gomap \<Rightarrow> ResponseHeadersPolicyRemoveHeader option" where
  "expandResponseHeadersPolicyRemoveHeader tfMap =
     (case tfMap of
        None \<Rightarrow> None
      | Some m \<Rightarrow> Some \<lparr>rh_Header = nonempty_string (tf_index m ''header'')\<rparr>)"

fun expandResponseHeadersPolicyRemoveHeaders_loop ::
    "tfval list \<Rightarrow> ResponseHeadersPolicyRemoveHeader list option
       \<Rightarrow> ResponseHeadersPolicyRemoveHeader list option" where
  "expandResponseHeadersPolicyRemoveHeaders_loop [] apiObjects = apiObjects"
| "expandResponseHeadersPolicyRemoveHeaders_loop (tfMapRaw # rest) apiObjects =
     (case as_map tfMapRaw of
        None \<Rightarrow> expandResponseHeadersPolicyRemoveHeaders_loop rest apiObjects
      | Some tfMap \<Rightarrow>
          (case expandResponseHeadersPolicyRemoveHeader tfMap of
             None \<Rightarrow> expandResponseHeadersPolicyRemoveHeaders_loop rest apiObjects
           | Some apiObject \<Rightarrow>
               expandResponseHeadersPolicyRemoveHeaders_loop rest
                 (slice_append apiObjects apiObject)))"

definition expandResponseHeadersPolicyRemoveHeaders ::
    "tfval list \<Rightarrow> ResponseHeadersPolicyRemoveHeader list option" where
  "expandResponseHeadersPolicyRemoveHeaders tfList =
     (if length tfList = 0 then None
      else expandResponseHeadersPolicyRemoveHeaders_loop tfList None)"

definition expandResponseHeadersPolicyRemoveHeadersConfig ::
    "gomap \<Rightarrow> ResponseHeadersPolicyRemoveHeadersConfig option" where
  "expandResponseHeadersPolicyRemoveHeadersConfig tfMap =
     (case tfMap of
        None \<Rightarrow> None
      | Some m \<Rightarrow>
          (case as_set (tf_index m ''items'') of
             None \<Rightarrow> Some no_items
           | Some v \<Rightarrow>
               if length v > 0
               then (let items = expandResponseHeadersPolicyRemoveHeaders v
                     in Some \<lparr>Items = items, Quantity = Some (of_nat (slice_len items))\<rparr>)
               else Some no_items))"

definition flattenResponseHeadersPolicyRemoveHeader ::
    "ResponseHeadersPolicyRemoveHeader option \<Rightarrow> gomap" where
  "flattenResponseHeadersPolicyRemoveHeader apiObject =
     (case apiObject of
        None \<Rightarrow> None
      | Some a \<Rightarrow> Some (put_some ''header'' (rh_Header a) VString fmempty))"

fun flattenResponseHeadersPolicyRemoveHeaders_loop ::
    "ResponseHeadersPolicyRemoveHeader list \<Rightarrow> tfval list \<Rightarrow> tfval list" where
  "flattenResponseHeadersPolicyRemoveHeaders_loop [] tfList = tfList"
| "flattenResponseHeadersPolicyRemoveHeaders_loop (apiObject # rest) tfList =
     (let v = flattenResponseHeadersPolicyRemoveHeader (Some apiObject)
      in if map_nonempty v
         then flattenResponseHeadersPolicyRemoveHeaders_loop rest (tfList @ [VMap v])
         else flattenResponseHeadersPolicyRemoveHeaders_loop rest tfList)"

definition flattenResponseHeadersPolicyRemoveHeaders ::
    "ResponseHeadersPolicyRemoveHeader list option \<Rightarrow> tfval list" where
  "flattenResponseHeadersPolicyRemoveHeaders apiObjects =
     (if slice_len apiObjects = 0 then []
      else flattenResponseHeadersPolicyRemoveHeaders_loop (the apiObjects) [])"

definition flattenResponseHeadersPolicyRemoveHeadersConfig ::
    "ResponseHeadersPolicyRemoveHeadersConfig option \<Rightarrow> gomap" where
  "flattenResponseHeadersPolicyRemoveHeadersConfig apiObject =
     (case apiObject of
        None \<Rightarrow> None
      | Some a \<Rightarrow>
          Some (put_if (slice_len (Items a) > 0) ''items''
                  (VList (flattenResponseHeadersPolicyRemoveHeaders (Items a))) fmempty))"

subsection \<open>security_headers_config\<close>

record ResponseHeadersPolicyContentSecurityPolicy =
  csp_ContentSecurityPolicy :: "string option"
  csp_Override :: "bool option"

record ResponseHeadersPolicyContentTypeOptions =
  cto_Override :: "bool option"

record ResponseHeadersPolicyFrameOptions =
  FrameOption :: string
  fo_Override :: "bool option"

record ResponseHeadersPolicyReferrerPolicy =
  rp_Override :: "bool option"
  rp_ReferrerPolicy :: string

record ResponseHeadersPolicyStrictTransportSecurity =
  sts_AccessControlMaxAgeSec :: "32 word option"
  IncludeSubdomains :: "bool option"
  sts_Override :: "bool option"
  Preload :: "bool option"

record ResponseHeadersPolicyXSSProtection =
  ModeBlock :: "bool option"
  xss_Override :: "bool option"
  Protection :: "bool option"
  ReportUri :: "string option"

record ResponseHeadersPolicySecurityHeadersConfig =
  ContentSecurityPolicy :: "ResponseHeadersPolicyContentSecurityPolicy option"
  ContentTypeOptions :: "ResponseHeadersPolicyContentTypeOptions option"
  FrameOptions :: "ResponseHeadersPolicyFrameOptions option"
  ReferrerPolicy :: "ResponseHeadersPolicyReferrerPolicy option"
  StrictTransportSecurity :: "ResponseHeadersPolicyStrictTransportSecurity option"
  XSSProtection :: "ResponseHeadersPolicyXSSProtection option"

definition expandResponseHeadersPolicyContentSecurityPolicy ::
    "gomap \<Rightarrow> ResponseHeadersPolicyContentSecurityPolicy option" where
  "expandResponseHeadersPolicyContentSecurityPolicy tfMap =
     (case tfMap of
        None \<Rightarrow> None
      | Some m \<Rightarrow>
          Some \<lparr>csp_ContentSecurityPolicy = nonempty_string (tf_index m ''content_security_policy''),
                csp_Override = as_bool (tf_index m ''override'')\<rparr>)"

definition expandResponseHeadersPolicyContentTypeOptions ::
    "gomap \<Rightarrow> ResponseHeadersPolicyContentTypeOptions option" where
  "expandResponseHeadersPolicyContentTypeOptions tfMap =
     (case tfMap of
        None \<Rightarrow> None
      | Some m \<Rightarrow> Some \<lparr>cto_Override = as_bool (tf_index m ''override'')\<rparr>)"

definition expandResponseHeadersPolicyFrameOptions ::
    "gomap \<Rightarrow> ResponseHeadersPolicyFrameOptions option" where
  "expandResponseHeadersPolicyFrameOptions tfMap =
     (case tfMap of
        None \<Rightarrow> None
      | Some m \<Rightarrow>
          Some \<lparr>FrameOption = enum_field (tf_index m ''frame_option''),
                fo_Override = as_bool (tf_index m ''override'')\<rparr>)"

definition expandResponseHeadersPolicyReferrerPolicy ::
    "gomap \<Rightarrow> ResponseHeadersPolicyReferrerPolicy option" where
  "expandResponseHeadersPolicyReferrerPolicy tfMap =
     (case tfMap of
        None \<Rightarrow> None
      | Some m \<Rightarrow>
          Some \<lparr>rp_Override = as_bool (tf_index m ''override''),
                rp_ReferrerPolicy = enum_field (tf_index m ''referrer_policy'')\<rparr>)"

definition expandResponseHeadersPolicyStrictTransportSecurity ::
    "gomap \<Rightarrow> ResponseHeadersPolicyStrictTransportSecurity option" where
  "expandResponseHeadersPolicyStrictTransportSecurity tfMap =
     (case tfMap of
        None \<Rightarrow> None
      | Some m \<Rightarrow>
          Some \<lparr>sts_AccessControlMaxAgeSec = int32_field (tf_index m ''access_control_max_age_sec''),
                IncludeSubdomains = as_bool (tf_index m ''include_subdomains''),
                sts_Override = as_bool (tf_index m ''override''),
                Preload = as_bool (tf_index m ''preload'')\<rparr>)"

definition expandResponseHeadersPolicyXSSProtection ::
    "gomap \<Rightarrow> ResponseHeadersPolicyXSSProtection option" where
  "expandResponseHeadersPolicyXSSProtection tfMap =
     (case tfMap of
        None \<Rightarrow> None
      | Some m \<Rightarrow>
          Some \<lparr>ModeBlock = as_bool (tf_index m ''mode_block''),
                xss_Override = as_bool (tf_index m ''override''),
                Protection = as_bool (tf_index m ''protection''),
                ReportUri = nonempty_string (tf_index m ''report_uri'')\<rparr>)"

definition expandResponseHeadersPolicySecurityHeadersConfig ::
    "gomap \<Rightarrow> ResponseHeadersPolicySecurityHeadersConfig option go" where
  "expandResponseHeadersPolicySecurityHeadersConfig tfMap =
     (case tfMap of
        None \<Rightarrow> Ret None
      | Some m \<Rightarrow>
          go_bind (nested_block False (tf_index m ''content_security_policy'')
                     (\<lambda>tf. Ret (expandResponseHeadersPolicyContentSecurityPolicy tf)))
            (\<lambda>contentSecurityPolicy.
          go_bind (nested_block False (tf_index m ''content_type_options'')
                     (\<lambda>tf. Ret (expandResponseHeadersPolicyContentTypeOptions tf)))
            (\<lambda>contentTypeOptions.
          go_bind (nested_block False (tf_index m ''frame_options'')
                     (\<lambda>tf. Ret (expandResponseHeadersPolicyFrameOptions tf)))
            (\<lambda>frameOptions.
          go_bind (nested_block False (tf_index m ''referrer_policy'')
                     (\<lambda>tf. Ret (expandResponseHeadersPolicyReferrerPolicy tf)))
            (\<lambda>referrerPolicy.
          go_bind (nested_block False (tf_index m ''strict_transport_security'')
                     (\<lambda>tf. Ret (expandResponseHeadersPolicyStrictTransportSecurity tf)))
            (\<lambda>strictTransportSecurity.
          go_bind (nested_block False (tf_index m ''xss_protection'')
                     (\<lambda>tf. Ret (expandResponseHeadersPolicyXSSProtection tf)))
            (\<lambda>xssProtection.
          Ret (Some \<lparr>ContentSecurityPolicy = contentSecurityPolicy,
                     ContentTypeOptions = contentTypeOptions,
                     FrameOptions = frameOptions,
                     ReferrerPolicy = referrerPolicy,
                     StrictTransportSecurity = strictTransportSecurity,
                     XSSProtection = xssProtection\<rparr>))))))))"

definition flattenResponseHeadersPolicyContentSecurityPolicy ::
    "ResponseHeadersPolicyContentSecurityPolicy option \<Rightarrow> gomap" where
  "flattenResponseHeadersPolicyContentSecurityPolicy apiObject =
     (case apiObject of
        None \<Rightarrow> None
      | Some a \<Rightarrow>
          Some (put_some ''override'' (csp_Override a) VBool
               (put_some ''content_security_policy'' (csp_ContentSecurityPolicy a) VString
                fmempty)))"

definition flattenResponseHeadersPolicyContentTypeOptions ::
    "ResponseHeadersPolicyContentTypeOptions option \<Rightarrow> gomap" where
  "flattenResponseHeadersPolicyContentTypeOptions apiObject =
     (case apiObject of
        None \<Rightarrow> None
      | Some a \<Rightarrow> Some (put_some ''override'' (cto_Override a) VBool fmempty))"

text \<open>
  In \<^verbatim>\<open>flattenResponseHeadersPolicyFrameOptions\<close> and
  \<^verbatim>\<open>flattenResponseHeadersPolicyReferrerPolicy\<close> the test \<^verbatim>\<open>&v != nil\<close> on a local
  variable is always true: \<^verbatim>\<open>frame_option\<close> and \<^verbatim>\<open>referrer_policy\<close> are always written.
\<close>

definition flattenResponseHeadersPolicyFrameOptions ::
    "ResponseHeadersPolicyFrameOptions option \<Rightarrow> gomap" where
  "flattenResponseHeadersPolicyFrameOptions apiObject =
     (case apiObject of
        None \<Rightarrow> None
      | Some a \<Rightarrow>
          Some (put_some ''override'' (fo_Override a) VBool
               (fmupd ''frame_option'' (VString (FrameOption a))
                fmempty)))"

definition flattenResponseHeadersPolicyReferrerPolicy ::
    "ResponseHeadersPolicyReferrerPolicy option \<Rightarrow> gomap" where
  "flattenResponseHeadersPolicyReferrerPolicy apiObject =
     (case apiObject of
        None \<Rightarrow> None
      | Some a \<Rightarrow>
          Some (fmupd ''referrer_policy'' (VEnum (rp_ReferrerPolicy a))
               (put_some ''override'' (rp_Override a) (\<lambda>v. VBoolPtr (Some v))
                fmempty)))"

definition flattenResponseHeadersPolicyStrictTransportSecurity ::
    "ResponseHeadersPolicyStrictTransportSecurity option \<Rightarrow> gomap" where
  "flattenResponseHeadersPolicyStrictTransportSecurity apiObject =
     (case apiObject of
        None \<Rightarrow> None
      | Some a \<Rightarrow>
          Some (put_some ''preload'' (Preload a) (\<lambda>v. VBoolPtr (Some v))
               (put_some ''override'' (sts_Override a) (\<lambda>v. VBoolPtr (Some v))
               (put_some ''include_subdomains'' (IncludeSubdomains a) (\<lambda>v. VBoolPtr (Some v))
               (put_some ''access_control_max_age_sec'' (sts_AccessControlMaxAgeSec a)
                  (\<lambda>v. VInt32Ptr (Some v))
                fmempty)))))"

definition flattenResponseHeadersPolicyXSSProtection ::
    "ResponseHeadersPolicyXSSProtection option \<Rightarrow> gomap" where
  "flattenResponseHeadersPolicyXSSProtection apiObject =
     (case apiObject of
        None \<Rightarrow> None
      | Some a \<Rightarrow>
          Some (put_some ''report_uri'' (ReportUri a) VString
               (put_some ''protection'' (Protection a) (\<lambda>v. VBoolPtr (Some v))
               (put_some ''override'' (xss_Override a) (\<lambda>v. VBoolPtr (Some v))
               (put_some ''mode_block'' (ModeBlock a) (\<lambda>v. VBoolPtr (Some v))
                fmempty)))))"

definition flattenResponseHeadersPolicySecurityHeadersConfig ::
    "ResponseHeadersPolicySecurityHeadersConfig option \<Rightarrow> gomap" where
  "flattenResponseHeadersPolicySecurityHeadersConfig apiObject =
     (case apiObject of
        None \<Rightarrow> None
      | Some a \<Rightarrow>
          Some (put_block ''xss_protection''
                  (flattenResponseHeadersPolicyXSSProtection (XSSProtection a))
               (put_block ''strict_transport_security''
                  (flattenResponseHeadersPolicyStrictTransportSecurity (StrictTransportSecurity a))
               (put_block ''referrer_policy''
                  (flattenResponseHeadersPolicyReferrerPolicy (ReferrerPolicy a))
               (put_block ''frame_options''
                  (flattenResponseHeadersPolicyFrameOptions (FrameOptions a))
               (put_block ''content_type_options''
                  (flattenResponseHeadersPolicyContentTypeOptions (ContentTypeOptions a))
               (put_block ''content_security_policy''
                  (flattenResponseHeadersPolicyContentSecurityPolicy (ContentSecurityPolicy a))
                fmempty)))))))"

subsection \<open>server_timing_headers_config\<close>

record ResponseHeadersPolicyServerTimingHeadersConfig =
  Enabled :: "bool option"
  SamplingRate :: "float64 option"

definition expandResponseHeadersPolicyServerTimingHeadersConfig ::
    "gomap \<Rightarrow> ResponseHeadersPolicyServerTimingHeadersConfig option" where
  "expandResponseHeadersPolicyServerTimingHeadersConfig tfMap =
     (case tfMap of
        None \<Rightarrow> None
      | Some m \<Rightarrow>
          Some \<lparr>Enabled = as_bool (tf_index m ''enabled''),
                SamplingRate = as_float64 (tf_index m ''sampling_rate'')\<rparr>)"

definition flattenResponseHeadersPolicyServerTimingHeadersConfig ::
    "ResponseHeadersPolicyServerTimingHeadersConfig option \<Rightarrow> gomap" where
  "flattenResponseHeadersPolicyServerTimingHeadersConfig apiObject =
     (case apiObject of
        None \<Rightarrow> None
      | Some a \<Rightarrow>
          Some (put_some ''sampling_rate'' (SamplingRate a) (\<lambda>v. VFloatPtr (Some v))
               (put_some ''enabled'' (Enabled a) (\<lambda>v. VBoolPtr (Some v))
                fmempty)))"

section \<open>The remote API\<close>

record CachePolicyConfig =
  cp_Comment :: "string option"
  DefaultTTL :: "64 word option"
  MaxTTL :: "64 word option"
  MinTTL :: "64 word option"
  cp_Name :: "string option"
  cp_ParametersInCacheKeyAndForwardedToOrigin :: "ParametersInCacheKeyAndForwardedToOrigin option"

record OriginRequestPolicyConfig =
  orp_Comment :: "string option"
  orp_CookiesConfig :: "CookiesConfig option"
  orp_HeadersConfig :: "HeadersConfig option"
  orp_Name :: "string option"
  orp_QueryStringsConfig :: "QueryStringsConfig option"

record PublicKeyConfig =
  CallerReference :: "string option"
  pk_Comment :: "string option"
  EncodedKey :: "string option"
  pk_Name :: "string option"

record FunctionConfig =
  fn_Comment :: "string option"
  Runtime :: string

record ResponseHeadersPolicyConfig =
  rhp_Comment :: "string option"
  rhp_CorsConfig :: "ResponseHeadersPolicyCorsConfig option"
  rhp_CustomHeadersConfig :: "ResponseHeadersPolicyCustomHeadersConfig option"
  rhp_Name :: "string option"
  rhp_RemoveHeadersConfig :: "ResponseHeadersPolicyRemoveHeadersConfig option"
  rhp_SecurityHeadersConfig :: "ResponseHeadersPolicySecurityHeadersConfig option"
  rhp_ServerTimingHeadersConfig :: "ResponseHeadersPolicyServerTimingHeadersConfig option"

text \<open>
  Of the output of a create call the handlers read \<^verbatim>\<open>output.CachePolicy.Id\<close>,
  \<^verbatim>\<open>output.PublicKey.Id\<close> and so on: the created object (a pointer) and its \<^verbatim>\<open>Id\<close>.
\<close>

record Created =
  Id :: "string option"

record FunctionSummary =
  fs_Name :: "string option"

record CreateFunctionOutput =
  cf_ETag :: "string option"
  cf_FunctionSummary :: "FunctionSummary option"

record UpdateFunctionOutput =
  uf_ETag :: "string option"

record GetFunctionOutput =
  FunctionCode :: string

record PublicKey =
  PublicKeyConfig :: "PublicKeyConfig option"

record GetPublicKeyOutput =
  gpk_ETag :: "string option"
  gpk_PublicKey :: "PublicKey option"

text \<open>
  The finder functions \<^verbatim>\<open>FindCachePolicyByID\<close>, \<^verbatim>\<open>FindOriginRequestPolicyByID\<close>,
  \<^verbatim>\<open>FindResponseHeadersPolicyByID\<close>, \<^verbatim>\<open>FindMonitoringSubscriptionByDistributionID\<close> and
  \<^verbatim>\<open>FindFunctionByNameAndStage\<close> are not among the sources: they are taken with the
  remote API, as functions that return an error or an output. Their outputs are given by
  the parts that the read handlers dereference without a test, so that a successful find
  carries its configuration.
\<close>

record GetCachePolicyOutput =
  gcp_CachePolicyConfig :: CachePolicyConfig
  gcp_ETag :: "string option"

record GetOriginRequestPolicyOutput =
  gorp_OriginRequestPolicyConfig :: OriginRequestPolicyConfig
  gorp_ETag :: "string option"

record GetResponseHeadersPolicyOutput =
  grhp_ResponseHeadersPolicyConfig :: ResponseHeadersPolicyConfig
  grhp_ETag :: "string option"

record GetMonitoringSubscriptionOutput =
  gms_MonitoringSubscription :: "MonitoringSubscription option"

record DescribeFunctionOutput =
  df_FunctionARN :: "string option"
  df_Comment :: "string option"
  df_ETag :: "string option"
  df_Name :: "string option"
  df_Runtime :: string
  df_Status :: "string option"

datatype FunctionStage = FunctionStageDevelopment | FunctionStageLive

text \<open>
  The CloudFront client: every remote call that a handler makes, as a function from the
  call's input to an error or an output. Outputs that no handler reads are left out.
\<close>

record conn =
  CreateCachePolicy :: "CachePolicyConfig \<Rightarrow> error + Created option"
  FindCachePolicyByID :: "string \<Rightarrow> error + GetCachePolicyOutput"
  UpdateCachePolicy :: "CachePolicyConfig \<Rightarrow> string \<Rightarrow> string \<Rightarrow> error option"
  DeleteCachePolicy :: "string \<Rightarrow> string \<Rightarrow> error option"
  CreatePublicKey :: "PublicKeyConfig \<Rightarrow> error + Created option"
  GetPublicKey :: "string \<Rightarrow> error + GetPublicKeyOutput option"
  UpdatePublicKey :: "PublicKeyConfig \<Rightarrow> string \<Rightarrow> string \<Rightarrow> error option"
  DeletePublicKey :: "string \<Rightarrow> string \<Rightarrow> error option"
  CreateMonitoringSubscription :: "string \<Rightarrow> MonitoringSubscription option \<Rightarrow> error option"
  FindMonitoringSubscriptionByDistributionID :: "string \<Rightarrow> error + GetMonitoringSubscriptionOutput"
  DeleteMonitoringSubscription :: "string \<Rightarrow> error option"
  CreateOriginRequestPolicy :: "OriginRequestPolicyConfig \<Rightarrow> error + Created option"
  FindOriginRequestPolicyByID :: "string \<Rightarrow> error + GetOriginRequestPolicyOutput"
  UpdateOriginRequestPolicy :: "OriginRequestPolicyConfig \<Rightarrow> string \<Rightarrow> string \<Rightarrow> error option"
  DeleteOriginRequestPolicy :: "string \<Rightarrow> string \<Rightarrow> error option"
  CreateFunction :: "string \<Rightarrow> FunctionConfig \<Rightarrow> string \<Rightarrow> error + CreateFunctionOutput"
  PublishFunction :: "string \<Rightarrow> string option \<Rightarrow> error option"
  FindFunctionByNameAndStage :: "string \<Rightarrow> FunctionStage \<Rightarrow> error + DescribeFunctionOutput"
  GetFunction :: "string \<Rightarrow> FunctionStage \<Rightarrow> error + GetFunctionOutput"
  UpdateFunction :: "string \<Rightarrow> FunctionConfig \<Rightarrow> string \<Rightarrow> string \<Rightarrow> error + UpdateFunctionOutput"
  DeleteFunction :: "string \<Rightarrow> string \<Rightarrow> error option"
  CreateResponseHeadersPolicy :: "ResponseHeadersPolicyConfig \<Rightarrow> error + Created option"
  FindResponseHeadersPolicyByID :: "string \<Rightarrow> error + GetResponseHeadersPolicyOutput"
  UpdateResponseHeadersPolicy :: "ResponseHeadersPolicyConfig \<Rightarrow> string \<Rightarrow> string \<Rightarrow> error option"
  DeleteResponseHeadersPolicy :: "string \<Rightarrow> string \<Rightarrow> error option"

text \<open>The remote calls of one invocation are logged, each with the error it returned.\<close>

datatype call =
    CallCreateCachePolicy CachePolicyConfig
  | CallFindCachePolicyByID string
  | CallUpdateCachePolicy CachePolicyConfig string string
  | CallDeleteCachePolicy string string
  | CallCreatePublicKey PublicKeyConfig
  | CallGetPublicKey string
  | CallUpdatePublicKey PublicKeyConfig string string
  | CallDeletePublicKey string string
  | CallCreateMonitoringSubscription string "MonitoringSubscription option"
  | CallFindMonitoringSubscriptionByDistributionID string
  | CallDeleteMonitoringSubscription string
  | CallCreateOriginRequestPolicy OriginRequestPolicyConfig
  | CallFindOriginRequestPolicyByID string
  | CallUpdateOriginRequestPolicy OriginRequestPolicyConfig string string
  | CallDeleteOriginRequestPolicy string string
  | CallCreateFunction string FunctionConfig string
  | CallPublishFunction string "string option"
  | CallFindFunctionByNameAndStage string FunctionStage
  | CallGetFunction string FunctionStage
  | CallUpdateFunction string FunctionConfig string string
  | CallDeleteFunction string string
  | CallCreateResponseHeadersPolicy ResponseHeadersPolicyConfig
  | CallFindResponseHeadersPolicyByID string
  | CallUpdateResponseHeadersPolicy ResponseHeadersPolicyConfig string string
  | CallDeleteResponseHeadersPolicy string string

type_synonym trace = "(call \<times> error option) list"

definition failure :: "error + 'a \<Rightarrow> error option" where
  "failure r = (case r of Inl err \<Rightarrow> Some err | Inr output \<Rightarrow> None)"

text \<open>
  The \<^verbatim>\<open>meta\<close> argument of a handler is an \<^verbatim>\<open>interface{}\<close>: the provider passes its
  \<^verbatim>\<open>*conns.AWSClient\<close>, from which \<^verbatim>\<open>meta.(*conns.AWSClient).CloudFrontClient(ctx)\<close> takes
  the CloudFront client; the assertion panics on a value of another type, such as the
  CloudFront client itself.
\<close>

datatype meta = AWSClient conn | CloudFrontClient conn

section \<open>The SDK's resource data\<close>

text \<open>
  \<^verbatim>\<open>schema.ResourceData\<close>, as far as the handlers use it: the identifier, the new-resource
  flag, the values that \<^verbatim>\<open>d.Get\<close> and \<^verbatim>\<open>d.GetOk\<close> read, the keys that \<^verbatim>\<open>d.HasChanges\<close>
  reports, and the values that \<^verbatim>\<open>d.Set\<close> has written. No handler reads a key after
  writing it, so what is read and what is written are kept apart, and a written value is
  kept as the Go value that was passed to \<^verbatim>\<open>d.Set\<close>.
\<close>

record ResourceData =
  rd_Id :: string
  rd_IsNewResource :: bool
  rd_config :: tfmap
  rd_changed :: "string list"
  rd_state :: tfmap

text \<open>
  \<^verbatim>\<open>d.Get(key).(T)\<close>: the SDK returns a value of the field's schema type, the zero value
  when the field is unset, so the assertion does not fail.
\<close>

definition GetString :: "ResourceData \<Rightarrow> string \<Rightarrow> string" where
  "GetString d key = (case as_string (tf_index (rd_config d) key) of Some s \<Rightarrow> s | None \<Rightarrow> [])"

definition GetInt :: "ResourceData \<Rightarrow> string \<Rightarrow> 64 word" where
  "GetInt d key = (case as_int (tf_index (rd_config d) key) of Some i \<Rightarrow> i | None \<Rightarrow> 0)"

definition GetBool :: "ResourceData \<Rightarrow> string \<Rightarrow> bool" where
  "GetBool d key = (case as_bool (tf_index (rd_config d) key) of Some b \<Rightarrow> b | None \<Rightarrow> False)"

text \<open>\<^verbatim>\<open>d.GetOk(key)\<close>: the value, if it is set to something other than the zero value.\<close>

definition is_zero_value :: "tfval \<Rightarrow> bool" where
  "is_zero_value x =
     (x = VNil \<or> x = VBool False \<or> x = VInt 0 \<or> x = VString [] \<or> x = VList [] \<or> x = VSet [])"

definition GetOk :: "ResourceData \<Rightarrow> string \<Rightarrow> tfval option" where
  "GetOk d key =
     (case fmlookup (rd_config d) key of
        None \<Rightarrow> None
      | Some v \<Rightarrow> if is_zero_value v then None else Some v)"

text \<open>\<^verbatim>\<open>if v, ok := d.GetOk(key); ok { field = aws.String(v.(string)) }\<close>.\<close>

definition GetOkString :: "ResourceData \<Rightarrow> string \<Rightarrow> string option" where
  "GetOkString d key = (case GetOk d key of None \<Rightarrow> None | Some v \<Rightarrow> as_string v)"

text \<open>
  \<^verbatim>\<open>if v, ok := d.GetOk(key); ok && len(v.([]interface{})) > 0 && v.([]interface{})[0] != nil {
       field = expand(v.([]interface{})[0].(map[string]interface{})) }\<close>.
\<close>

definition top_block :: "ResourceData \<Rightarrow> string \<Rightarrow> (gomap \<Rightarrow> 'a option go) \<Rightarrow> 'a option go" where
  "top_block d key expand =
     (case GetOk d key of None \<Rightarrow> Ret None | Some v \<Rightarrow> nested_block True v expand)"

definition HasChanges :: "ResourceData \<Rightarrow> string list \<Rightarrow> bool" where
  "HasChanges d keys = list_ex (\<lambda>key. key \<in> set (rd_changed d)) keys"

definition SetId :: "string \<Rightarrow> ResourceData \<Rightarrow> ResourceData" where
  "SetId v d = d\<lparr>rd_Id := v\<rparr>"

text \<open>
  \<^verbatim>\<open>d.Set(key, value)\<close> checks the value against the schema and may return an error; the
  check belongs to the SDK and is a parameter, \<open>SetError\<close>. A rejected value is not
  written.
\<close>

definition Set :: "env \<Rightarrow> string \<Rightarrow> tfval \<Rightarrow> ResourceData \<Rightarrow> ResourceData \<times> error option" where
  "Set e key v d =
     (case SetError e key v of
        None \<Rightarrow> (d\<lparr>rd_state := fmupd key v (rd_state d)\<rparr>, None)
      | Some err \<Rightarrow> (d, Some err))"

text \<open>
  The steps of a read handler's body. \<open>set_field\<close> is \<^verbatim>\<open>d.Set(key, value)\<close> with the
  result dropped; \<open>set_checked\<close> is
  \<^verbatim>\<open>if err := d.Set(key, value); err != nil { return sdkdiag.AppendErrorf(diags, "setting key: %s", err) }\<close>;
  \<open>set_block\<close> is the choice between the flattened block and nil; \<open>run_steps\<close> runs the
  steps in order up to the first one that returns diagnostics.
\<close>

type_synonym step = "ResourceData \<Rightarrow> ResourceData \<times> diag list"

definition set_field :: "env \<Rightarrow> string \<Rightarrow> tfval \<Rightarrow> step" where
  "set_field e key v d = (fst (Set e key v d), [])"

definition set_checked :: "env \<Rightarrow> string \<Rightarrow> tfval \<Rightarrow> step" where
  "set_checked e key v d =
     (case Set e key v d of
        (d', None) \<Rightarrow> (d', [])
      | (d', Some err) \<Rightarrow> (d', [ErrorDiag (''setting '' @ key @ '': %s'') [] err]))"

definition set_block :: "env \<Rightarrow> string \<Rightarrow> 'a option \<Rightarrow> ('a option \<Rightarrow> gomap) \<Rightarrow> step" where
  "set_block e key sub flatten =
     (case sub of
        Some a \<Rightarrow> set_checked e key (VList [VMap (flatten sub)])
      | None \<Rightarrow> set_field e key VNil)"

fun run_steps :: "step list \<Rightarrow> step" where
  "run_steps [] d = (d, [])"
| "run_steps (s # ss) d = (case s d of (d', []) \<Rightarrow> run_steps ss d' | (d', diags) \<Rightarrow> (d', diags))"

text \<open>
  What an invocation of a handler leaves behind: the resource data, the remote calls it
  made, and the diagnostics it returned, unless it panicked.
\<close>

datatype outcome = Returned "diag list" | Panicked

record run =
  final :: ResourceData
  calls :: trace
  outcome :: outcome

definition returned :: "ResourceData \<Rightarrow> trace \<Rightarrow> diag list \<Rightarrow> run" where
  "returned d cs diags = \<lparr>final = d, calls = cs, outcome = Returned diags\<rparr>"

definition panicked :: "ResourceData \<Rightarrow> trace \<Rightarrow> run" where
  "panicked d cs = \<lparr>final = d, calls = cs, outcome = Panicked\<rparr>"

definition after_calls :: "trace \<Rightarrow> run \<Rightarrow> run" where
  "after_calls cs r = r\<lparr>calls := cs @ calls r\<rparr>"

definition finish :: "trace \<Rightarrow> ResourceData \<times> diag list \<Rightarrow> run" where
  "finish cs r = returned (fst r) cs (snd r)"

text \<open>\<^verbatim>\<open>conn := meta.(*conns.AWSClient).CloudFrontClient(ctx)\<close>, the first step of every handler.\<close>

definition with_client :: "meta \<Rightarrow> ResourceData \<Rightarrow> (conn \<Rightarrow> run) \<Rightarrow> run" where
  "with_client m d body = (case m of AWSClient c \<Rightarrow> body c | CloudFrontClient c \<Rightarrow> panicked d [])"

section \<open>Cache policy: the handlers\<close>

definition resourceCachePolicyRead :: "meta \<Rightarrow> env \<Rightarrow> ResourceData \<Rightarrow> run" where
  "resourceCachePolicyRead m e d =
     with_client m d (\<lambda>conn.
       let c = CallFindCachePolicyByID (rd_Id d) in
       (case FindCachePolicyByID conn (rd_Id d) of
          Inl err \<Rightarrow>
            if \<not> rd_IsNewResource d \<and> NotFound (Some err)
            then returned (SetId [] d) [(c, Some err)] []
            else returned d [(c, Some err)]
                   [ErrorDiag ''reading CloudFront Cache Policy (%s): %s'' [rd_Id d] err]
        | Inr output \<Rightarrow>
            (let apiObject = gcp_CachePolicyConfig output in
             finish [(c, None)]
               (run_steps
                  [set_field e ''comment'' (VStringPtr (cp_Comment apiObject)),
                   set_field e ''default_ttl'' (VInt64Ptr (DefaultTTL apiObject)),
                   set_field e ''etag'' (VStringPtr (gcp_ETag output)),
                   set_field e ''max_ttl'' (VInt64Ptr (MaxTTL apiObject)),
                   set_field e ''min_ttl'' (VInt64Ptr (MinTTL apiObject)),
                   set_field e ''name'' (VStringPtr (cp_Name apiObject)),
                   set_block e ''parameters_in_cache_key_and_forwarded_to_origin''
                     (cp_ParametersInCacheKeyAndForwardedToOrigin apiObject)
                     flattenParametersInCacheKeyAndForwardedToOrigin]
                  d))))"

definition resourceCachePolicyCreate :: "meta \<Rightarrow> env \<Rightarrow> ResourceData \<Rightarrow> run" where
  "resourceCachePolicyCreate m e d =
     with_client m d (\<lambda>conn.
       let name = GetString d ''name'' in
       (case top_block d ''parameters_in_cache_key_and_forwarded_to_origin''
               (expandParametersInCacheKeyAndForwardedToOrigin e) of
          Panic \<Rightarrow> panicked d []
        | Ret parameters \<Rightarrow>
            (let apiObject =
                   \<lparr>cp_Comment = GetOkString d ''comment'',
                    DefaultTTL = Some (GetInt d ''default_ttl''),
                    MaxTTL = Some (GetInt d ''max_ttl''),
                    MinTTL = Some (GetInt d ''min_ttl''),
                    cp_Name = Some name,
                    cp_ParametersInCacheKeyAndForwardedToOrigin = parameters\<rparr>;
                 c = CallCreateCachePolicy apiObject in
             (case CreateCachePolicy conn apiObject of
                Inl err \<Rightarrow>
                  returned d [(c, Some err)]
                    [ErrorDiag ''creating CloudFront Cache Policy (%s): %s'' [name] err]
              | Inr output \<Rightarrow>
                  (case output of
                     None \<Rightarrow> panicked d [(c, None)]
                   | Some cachePolicy \<Rightarrow>
                       after_calls [(c, None)]
                         (resourceCachePolicyRead m e (SetId (ToString (Id cachePolicy)) d)))))))"

definition resourceCachePolicyUpdate :: "meta \<Rightarrow> env \<Rightarrow> ResourceData \<Rightarrow> run" where
  "resourceCachePolicyUpdate m e d =
     with_client m d (\<lambda>conn.
       (case top_block d ''parameters_in_cache_key_and_forwarded_to_origin''
               (expandParametersInCacheKeyAndForwardedToOrigin e) of
          Panic \<Rightarrow> panicked d []
        | Ret parameters \<Rightarrow>
            (let apiObject =
                   \<lparr>cp_Comment = GetOkString d ''comment'',
                    DefaultTTL = Some (GetInt d ''default_ttl''),
                    MaxTTL = Some (GetInt d ''max_ttl''),
                    MinTTL = Some (GetInt d ''min_ttl''),
                    cp_Name = Some (GetString d ''name''),
                    cp_ParametersInCacheKeyAndForwardedToOrigin = parameters\<rparr>;
                 c = CallUpdateCachePolicy apiObject (rd_Id d) (GetString d ''etag'') in
             (case UpdateCachePolicy conn apiObject (rd_Id d) (GetString d ''etag'') of
                Some err \<Rightarrow>
                  returned d [(c, Some err)]
                    [ErrorDiag ''updating CloudFront Cache Policy (%s): %s'' [rd_Id d] err]
              | None \<Rightarrow> after_calls [(c, None)] (resourceCachePolicyRead m e d)))))"

definition resourceCachePolicyDelete :: "meta \<Rightarrow> env \<Rightarrow> ResourceData \<Rightarrow> run" where
  "resourceCachePolicyDelete m e d =
     with_client m d (\<lambda>conn.
       let c = CallDeleteCachePolicy (rd_Id d) (GetString d ''etag'');
           err = DeleteCachePolicy conn (rd_Id d) (GetString d ''etag'') in
       if IsAErrorMessageContains_InvalidInput err ''not found''
       then returned d [(c, err)] []
       else (case err of
               Some e \<Rightarrow> returned d [(c, err)] [ErrorDiag ''deleting CloudFront Cache Policy (%s): %s'' [rd_Id d] e]
             | None \<Rightarrow> returned d [(c, err)] []))"

section \<open>Public key: the handlers\<close>

text \<open>
  \<^verbatim>\<open>findPublicKeyByID(ctx, meta, id)\<close> takes \<^verbatim>\<open>meta\<close> as an \<^verbatim>\<open>interface{}\<close> and asserts it to
  be the \<^verbatim>\<open>*conns.AWSClient\<close>. It returns the result of the fetch and the remote call it
  made.
\<close>

definition findPublicKeyByID :: "meta \<Rightarrow> string \<Rightarrow> ((error + GetPublicKeyOutput) \<times> trace) go" where
  "findPublicKeyByID m ident =
     (case m of
        CloudFrontClient c \<Rightarrow> Panic
      | AWSClient conn \<Rightarrow>
          (let c = CallGetPublicKey ident in
           (case GetPublicKey conn ident of
              Inl err \<Rightarrow>
                if IsAErrorMessageContains_InvalidInput (Some err) ''not found''
                then Ret (Inl (NotFoundError (Some err)), [(c, Some err)])
                else Ret (Inl err, [(c, Some err)])
            | Inr output \<Rightarrow>
                (case output of
                   None \<Rightarrow> Ret (Inl EmptyResultError, [(c, None)])
                 | Some out \<Rightarrow>
                     (case gpk_PublicKey out of
                        None \<Rightarrow> Ret (Inl EmptyResultError, [(c, None)])
                      | Some publicKey \<Rightarrow>
                          (case PublicKeyConfig publicKey of
                             None \<Rightarrow> Ret (Inl EmptyResultError, [(c, None)])
                           | Some config \<Rightarrow> Ret (Inr out, [(c, None)])))))))"

text \<open>
  \<^verbatim>\<open>resourcePublicKeyRead\<close> takes the CloudFront client out of \<^verbatim>\<open>meta\<close> and passes that
  client, not \<^verbatim>\<open>meta\<close>, to \<^verbatim>\<open>findPublicKeyByID\<close>.
\<close>

definition resourcePublicKeyRead :: "meta \<Rightarrow> env \<Rightarrow> ResourceData \<Rightarrow> run" where
  "resourcePublicKeyRead m e d =
     with_client m d (\<lambda>conn.
       (case findPublicKeyByID (CloudFrontClient conn) (rd_Id d) of
          Panic \<Rightarrow> panicked d []
        | Ret (result, cs) \<Rightarrow>
            (case result of
               Inl err \<Rightarrow>
                 if \<not> rd_IsNewResource d \<and> NotFound (Some err)
                 then returned (SetId [] d) cs []
                 else returned d cs
                        [ErrorDiag ''reading CloudFront Public Key (%s): %s'' [rd_Id d] err]
             | Inr output \<Rightarrow>
                 (case gpk_PublicKey output of
                    None \<Rightarrow> panicked d cs
                  | Some publicKey \<Rightarrow>
                      (case PublicKeyConfig publicKey of
                         None \<Rightarrow> panicked d cs
                       | Some publicKeyConfig \<Rightarrow>
                           finish cs
                             (run_steps
                                [set_field e ''caller_reference''
                                   (VStringPtr (CallerReference publicKeyConfig)),
                                 set_field e ''comment'' (VStringPtr (pk_Comment publicKeyConfig)),
                                 set_field e ''encoded_key''
                                   (VStringPtr (EncodedKey publicKeyConfig)),
                                 set_field e ''etag'' (VStringPtr (gpk_ETag output)),
                                 set_field e ''name'' (VStringPtr (pk_Name publicKeyConfig)),
                                 set_field e ''name_prefix''
                                   (VStringPtr
                                      (NamePrefixFromName e (ToString (pk_Name publicKeyConfig))))]
                                d))))))"

definition resourcePublicKeyCreate :: "meta \<Rightarrow> env \<Rightarrow> ResourceData \<Rightarrow> run" where
  "resourcePublicKeyCreate m e d =
     with_client m d (\<lambda>conn.
       let name = GenerateName e (GetString d ''name'') (GetString d ''name_prefix'');
           config =
             \<lparr>CallerReference =
                (case GetOkString d ''caller_reference'' of
                   Some v \<Rightarrow> Some v
                 | None \<Rightarrow> Some (UniqueId e)),
              pk_Comment = GetOkString d ''comment'',
              EncodedKey = Some (GetString d ''encoded_key''),
              pk_Name = Some name\<rparr>;
           c = CallCreatePublicKey config in
       (case CreatePublicKey conn config of
          Inl err \<Rightarrow>
            returned d [(c, Some err)]
              [ErrorDiag ''creating CloudFront Public Key (%s): %s'' [name] err]
        | Inr output \<Rightarrow>
            (case output of
               None \<Rightarrow> panicked d [(c, None)]
             | Some publicKey \<Rightarrow>
                 after_calls [(c, None)]
                   (resourcePublicKeyRead m e (SetId (ToString (Id publicKey)) d)))))"

definition resourcePublicKeyUpdate :: "meta \<Rightarrow> env \<Rightarrow> ResourceData \<Rightarrow> run" where
  "resourcePublicKeyUpdate m e d =
     with_client m d (\<lambda>conn.
       let config =
             \<lparr>CallerReference =
                (case GetOkString d ''caller_reference'' of
                   Some v \<Rightarrow> Some v
                 | None \<Rightarrow> Some (UniqueId e)),
              pk_Comment = GetOkString d ''comment'',
              EncodedKey = Some (GetString d ''encoded_key''),
              pk_Name = Some (GetString d ''name'')\<rparr>;
           c = CallUpdatePublicKey config (rd_Id d) (GetString d ''etag'') in
       (case UpdatePublicKey conn config (rd_Id d) (GetString d ''etag'') of
          Some err \<Rightarrow>
            returned d [(c, Some err)]
              [ErrorDiag ''updating CloudFront Public Key (%s): %s'' [rd_Id d] err]
        | None \<Rightarrow> after_calls [(c, None)] (resourcePublicKeyRead m e d)))"

definition resourcePublicKeyDelete :: "meta \<Rightarrow> env \<Rightarrow> ResourceData \<Rightarrow> run" where
  "resourcePublicKeyDelete m e d =
     with_client m d (\<lambda>conn.
       let c = CallDeletePublicKey (rd_Id d) (GetString d ''etag'');
           err = DeletePublicKey conn (rd_Id d) (GetString d ''etag'') in
       if IsAErrorMessageContains_InvalidInput err ''not found''
       then returned d [(c, err)] []
       else (case err of
               Some e \<Rightarrow> returned d [(c, err)] [ErrorDiag ''deleting CloudFront Public Key (%s): %s'' [rd_Id d] e]
             | None \<Rightarrow> returned d [(c, err)] []))"

section \<open>Monitoring subscription: the handlers\<close>

definition resourceMonitoringSubscriptionRead :: "meta \<Rightarrow> env \<Rightarrow> ResourceData \<Rightarrow> run" where
  "resourceMonitoringSubscriptionRead m e d =
     with_client m d (\<lambda>conn.
       let c = CallFindMonitoringSubscriptionByDistributionID (rd_Id d) in
       (case FindMonitoringSubscriptionByDistributionID conn (rd_Id d) of
          Inl err \<Rightarrow>
            if \<not> rd_IsNewResource d \<and> NotFound (Some err)
            then returned (SetId [] d) [(c, Some err)] []
            else returned d [(c, Some err)]
                   [ErrorDiag ''reading CloudFront Monitoring Subscription (%s): %s'' [rd_Id d] err]
        | Inr output \<Rightarrow>
            finish [(c, None)]
              (run_steps
                 [set_block e ''monitoring_subscription'' (gms_MonitoringSubscription output)
                    flattenMonitoringSubscription]
                 d)))"

text \<open>The resource's update handler is \<^verbatim>\<open>resourceMonitoringSubscriptionCreate\<close> too.\<close>

definition resourceMonitoringSubscriptionCreate :: "meta \<Rightarrow> env \<Rightarrow> ResourceData \<Rightarrow> run" where
  "resourceMonitoringSubscriptionCreate m e d =
     with_client m d (\<lambda>conn.
       let ident = GetString d ''distribution_id'' in
       (case top_block d ''monitoring_subscription'' expandMonitoringSubscription of
          Panic \<Rightarrow> panicked d []
        | Ret monitoringSubscription \<Rightarrow>
            (let c = CallCreateMonitoringSubscription ident monitoringSubscription in
             (case CreateMonitoringSubscription conn ident monitoringSubscription of
                Some err \<Rightarrow>
                  returned d [(c, Some err)]
                    [ErrorDiag ''creating CloudFront Monitoring Subscription (%s): %s'' [ident] err]
              | None \<Rightarrow>
                  after_calls [(c, None)]
                    (resourceMonitoringSubscriptionRead m e (SetId ident d))))))"

definition resourceMonitoringSubscriptionDelete :: "meta \<Rightarrow> env \<Rightarrow> ResourceData \<Rightarrow> run" where
  "resourceMonitoringSubscriptionDelete m e d =
     with_client m d (\<lambda>conn.
       let c = CallDeleteMonitoringSubscription (rd_Id d);
           err = DeleteMonitoringSubscription conn (rd_Id d) in
       if IsAErrorMessageContains_InvalidInput err ''not found''
       then returned d [(c, err)] []
       else (case err of
               Some e \<Rightarrow>
                 returned d [(c, err)]
                   [ErrorDiag ''deleting CloudFront Monitoring Subscription (%s): %s'' [rd_Id d] e]
             | None \<Rightarrow> returned d [(c, err)] []))"

section \<open>Origin request policy: the handlers\<close>

definition resourceOriginRequestPolicyRead :: "meta \<Rightarrow> env \<Rightarrow> ResourceData \<Rightarrow> run" where
  "resourceOriginRequestPolicyRead m e d =
     with_client m d (\<lambda>conn.
       let c = CallFindOriginRequestPolicyByID (rd_Id d) in
       (case FindOriginRequestPolicyByID conn (rd_Id d) of
          Inl err \<Rightarrow>
            if \<not> rd_IsNewResource d \<and> NotFound (Some err)
            then returned (SetId [] d) [(c, Some err)] []
            else returned d [(c, Some err)]
                   [ErrorDiag ''reading CloudFront Origin Request Policy (%s): %s'' [rd_Id d] err]
        | Inr output \<Rightarrow>
            (let apiObject = gorp_OriginRequestPolicyConfig output in
             finish [(c, None)]
               (run_steps
                  [set_field e ''comment'' (VStringPtr (orp_Comment apiObject)),
                   set_block e ''cookies_config'' (orp_CookiesConfig apiObject)
                     flattenOriginRequestPolicyCookiesConfig,
                   set_field e ''etag'' (VStringPtr (gorp_ETag output)),
                   set_block e ''headers_config'' (orp_HeadersConfig apiObject)
                     flattenOriginRequestPolicyHeadersConfig,
                   set_field e ''name'' (VStringPtr (orp_Name apiObject)),
                   set_block e ''query_strings_config'' (orp_QueryStringsConfig apiObject)
                     flattenOriginRequestPolicyQueryStringsConfig]
                  d))))"

definition resourceOriginRequestPolicyCreate :: "meta \<Rightarrow> env \<Rightarrow> ResourceData \<Rightarrow> run" where
  "resourceOriginRequestPolicyCreate m e d =
     with_client m d (\<lambda>conn.
       let name = GetString d ''name'' in
       (case go_bind (top_block d ''cookies_config'' (expandOriginRequestPolicyCookiesConfig e))
               (\<lambda>cookiesConfig.
             go_bind (top_block d ''headers_config'' (expandOriginRequestPolicyHeadersConfig e))
               (\<lambda>headersConfig.
             go_bind (top_block d ''query_strings_config''
                        (expandOriginRequestPolicyQueryStringsConfig e))
               (\<lambda>queryStringsConfig.
             Ret \<lparr>orp_Comment = GetOkString d ''comment'',
                  orp_CookiesConfig = cookiesConfig,
                  orp_HeadersConfig = headersConfig,
                  orp_Name = Some name,
                  orp_QueryStringsConfig = queryStringsConfig\<rparr>))) of
          Panic \<Rightarrow> panicked d []
        | Ret apiObject \<Rightarrow>
            (let c = CallCreateOriginRequestPolicy apiObject in
             (case CreateOriginRequestPolicy conn apiObject of
                Inl err \<Rightarrow>
                  returned d [(c, Some err)]
                    [ErrorDiag ''creating CloudFront Origin Request Policy (%s): %s'' [name] err]
              | Inr output \<Rightarrow>
                  (case output of
                     None \<Rightarrow> panicked d [(c, None)]
                   | Some originRequestPolicy \<Rightarrow>
                       after_calls [(c, None)]
                         (resourceOriginRequestPolicyRead m e
                            (SetId (ToString (Id originRequestPolicy)) d)))))))"

definition resourceOriginRequestPolicyUpdate :: "meta \<Rightarrow> env \<Rightarrow> ResourceData \<Rightarrow> run" where
  "resourceOriginRequestPolicyUpdate m e d =
     with_client m d (\<lambda>conn.
       (case go_bind (top_block d ''cookies_config'' (expandOriginRequestPolicyCookiesConfig e))
               (\<lambda>cookiesConfig.
             go_bind (top_block d ''headers_config'' (expandOriginRequestPolicyHeadersConfig e))
               (\<lambda>headersConfig.
             go_bind (top_block d ''query_strings_config''
                        (expandOriginRequestPolicyQueryStringsConfig e))
               (\<lambda>queryStringsConfig.
             Ret \<lparr>orp_Comment = GetOkString d ''comment'',
                  orp_CookiesConfig = cookiesConfig,
                  orp_HeadersConfig = headersConfig,
                  orp_Name = Some (GetString d ''name''),
                  orp_QueryStringsConfig = queryStringsConfig\<rparr>))) of
          Panic \<Rightarrow> panicked d []
        | Ret apiObject \<Rightarrow>
            (let c = CallUpdateOriginRequestPolicy apiObject (rd_Id d) (GetString d ''etag'') in
             (case UpdateOriginRequestPolicy conn apiObject (rd_Id d) (GetString d ''etag'') of
                Some err \<Rightarrow>
                  returned d [(c, Some err)]
                    [ErrorDiag ''updating CloudFront Origin Request Policy (%s): %s'' [rd_Id d] err]
              | None \<Rightarrow> after_calls [(c, None)] (resourceOriginRequestPolicyRead m e d)))))"

definition resourceOriginRequestPolicyDelete :: "meta \<Rightarrow> env \<Rightarrow> ResourceData \<Rightarrow> run" where
  "resourceOriginRequestPolicyDelete m e d =
     with_client m d (\<lambda>conn.
       let c = CallDeleteOriginRequestPolicy (rd_Id d) (GetString d ''etag'');
           err = DeleteOriginRequestPolicy conn (rd_Id d) (GetString d ''etag'') in
       if IsAErrorMessageContains_InvalidInput err ''not found''
       then returned d [(c, err)] []
       else (case err of
               Some e \<Rightarrow> returned d [(c, err)] [ErrorDiag ''deleting CloudFront Origin Request Policy (%s): %s'' [rd_Id d] e]
             | None \<Rightarrow> returned d [(c, err)] []))"

section \<open>Function: the handlers\<close>

definition resourceFunctionRead :: "meta \<Rightarrow> env \<Rightarrow> ResourceData \<Rightarrow> run" where
  "resourceFunctionRead m e d =
     with_client m d (\<lambda>conn.
       let c1 = CallFindFunctionByNameAndStage (rd_Id d) FunctionStageDevelopment in
       (case FindFunctionByNameAndStage conn (rd_Id d) FunctionStageDevelopment of
          Inl err \<Rightarrow>
            if \<not> rd_IsNewResource d \<and> NotFound (Some err)
            then returned (SetId [] d) [(c1, Some err)] []
            else returned d [(c1, Some err)]
                   [ErrorDiag ''reading CloudFront Function (%s) DEVELOPMENT stage: %s''
                      [rd_Id d] err]
        | Inr describeFunctionOutput \<Rightarrow>
            (let d1 = fst (run_steps
                        [set_field e ''arn'' (VStringPtr (df_FunctionARN describeFunctionOutput)),
                         set_field e ''comment'' (VStringPtr (df_Comment describeFunctionOutput)),
                         set_field e ''etag'' (VStringPtr (df_ETag describeFunctionOutput)),
                         set_field e ''name'' (VStringPtr (df_Name describeFunctionOutput)),
                         set_field e ''runtime'' (VEnum (df_Runtime describeFunctionOutput)),
                         set_field e ''status'' (VStringPtr (df_Status describeFunctionOutput))]
                        d);
                 c2 = CallGetFunction (rd_Id d1) FunctionStageDevelopment in
             (case GetFunction conn (rd_Id d1) FunctionStageDevelopment of
                Inl err \<Rightarrow>
                  returned d1 [(c1, None), (c2, Some err)]
                    [ErrorDiag ''reading CloudFront Function (%s) DEVELOPMENT stage code: %s''
                       [rd_Id d1] err]
              | Inr getFunctionOutput \<Rightarrow>
                  (let d2 = fst (set_field e ''code'' (VString (FunctionCode getFunctionOutput)) d1);
                       c3 = CallFindFunctionByNameAndStage (rd_Id d2) FunctionStageLive in
                   (case FindFunctionByNameAndStage conn (rd_Id d2) FunctionStageLive of
                      Inl err \<Rightarrow>
                        if NotFound (Some err)
                        then returned (fst (set_field e ''live_stage_etag'' (VString []) d2))
                               [(c1, None), (c2, None), (c3, Some err)] []
                        else returned d2 [(c1, None), (c2, None), (c3, Some err)]
                               [ErrorDiag ''reading CloudFront Function (%s) LIVE stage: %s''
                                  [rd_Id d2] err]
                    | Inr liveOutput \<Rightarrow>
                        returned
                          (fst (set_field e ''live_stage_etag'' (VStringPtr (df_ETag liveOutput)) d2))
                          [(c1, None), (c2, None), (c3, None)] []))))))"

definition resourceFunctionCreate :: "meta \<Rightarrow> env \<Rightarrow> ResourceData \<Rightarrow> run" where
  "resourceFunctionCreate m e d =
     with_client m d (\<lambda>conn.
       let functionName = GetString d ''name'';
           code = GetString d ''code'';
           config = \<lparr>fn_Comment = Some (GetString d ''comment''),
                     Runtime = GetString d ''runtime''\<rparr>;
           c = CallCreateFunction code config functionName in
       (case CreateFunction conn code config functionName of
          Inl err \<Rightarrow>
            returned d [(c, Some err)]
              [ErrorDiag ''creating CloudFront Function (%s): %s'' [functionName] err]
        | Inr output \<Rightarrow>
            (case cf_FunctionSummary output of
               None \<Rightarrow> panicked d [(c, None)]
             | Some summary \<Rightarrow>
                 (let d1 = SetId (ToString (fs_Name summary)) d in
                  if GetBool d1 ''publish''
                  then (let p = CallPublishFunction (rd_Id d1) (cf_ETag output) in
                        (case PublishFunction conn (rd_Id d1) (cf_ETag output) of
                           Some err \<Rightarrow>
                             returned d1 [(c, None), (p, Some err)]
                               [ErrorDiag ''publishing CloudFront Function (%s): %s'' [rd_Id d1] err]
                         | None \<Rightarrow>
                             after_calls [(c, None), (p, None)] (resourceFunctionRead m e d1)))
                  else after_calls [(c, None)] (resourceFunctionRead m e d1)))))"

text \<open>
  The second half of \<^verbatim>\<open>resourceFunctionUpdate\<close>, after the optional
  \<^verbatim>\<open>UpdateFunction\<close> call: publish with the current \<^verbatim>\<open>etag\<close> (if asked to) and read.
\<close>

definition publishAndRead :: "meta \<Rightarrow> conn \<Rightarrow> env \<Rightarrow> ResourceData \<Rightarrow> string \<Rightarrow> run" where
  "publishAndRead m conn e d etag =
     (if GetBool d ''publish''
      then (let p = CallPublishFunction (rd_Id d) (Some etag) in
            (case PublishFunction conn (rd_Id d) (Some etag) of
               Some err \<Rightarrow>
                 returned d [(p, Some err)]
                   [ErrorDiag ''publishing CloudFront Function (%s): %s'' [rd_Id d] err]
             | None \<Rightarrow> after_calls [(p, None)] (resourceFunctionRead m e d)))
      else resourceFunctionRead m e d)"

definition resourceFunctionUpdate :: "meta \<Rightarrow> env \<Rightarrow> ResourceData \<Rightarrow> run" where
  "resourceFunctionUpdate m e d =
     with_client m d (\<lambda>conn.
       let etag = GetString d ''etag'' in
       if HasChanges d [''code'', ''comment'', ''runtime'']
       then (let code = GetString d ''code'';
                 config = \<lparr>fn_Comment = Some (GetString d ''comment''),
                           Runtime = GetString d ''runtime''\<rparr>;
                 c = CallUpdateFunction code config (rd_Id d) etag in
             (case UpdateFunction conn code config (rd_Id d) etag of
                Inl err \<Rightarrow>
                  returned d [(c, Some err)]
                    [ErrorDiag ''updating CloudFront Function (%s): %s'' [rd_Id d] err]
              | Inr output \<Rightarrow>
                  after_calls [(c, None)] (publishAndRead m conn e d (ToString (uf_ETag output)))))
       else publishAndRead m conn e d etag)"

definition resourceFunctionDelete :: "meta \<Rightarrow> env \<Rightarrow> ResourceData \<Rightarrow> run" where
  "resourceFunctionDelete m e d =
     with_client m d (\<lambda>conn.
       let c = CallDeleteFunction (rd_Id d) (GetString d ''etag'');
           err = DeleteFunction conn (rd_Id d) (GetString d ''etag'') in
       if IsAErrorMessageContains_InvalidInput err ''not found''
       then returned d [(c, err)] []
       else (case err of
               Some e \<Rightarrow> returned d [(c, err)] [ErrorDiag ''deleting CloudFront Function (%s): %s'' [rd_Id d] e]
             | None \<Rightarrow> returned d [(c, err)] []))"

section \<open>Response headers policy: the handlers\<close>

text \<open>
  The read handler passes \<^verbatim>\<open>*apiObject.CustomHeadersConfig\<close>, the struct itself, to
  \<^verbatim>\<open>flattenResponseHeadersPolicyCustomHeadersConfig\<close>, inside the test that the pointer is
  not nil.
\<close>

definition flattenCustomHeadersConfigDeref ::
    "ResponseHeadersPolicyCustomHeadersConfig option \<Rightarrow> gomap" where
  "flattenCustomHeadersConfigDeref p =
     (case p of None \<Rightarrow> None | Some a \<Rightarrow> flattenResponseHeadersPolicyCustomHeadersConfig a)"

definition resourceResponseHeadersPolicyRead :: "meta \<Rightarrow> env \<Rightarrow> ResourceData \<Rightarrow> run" where
  "resourceResponseHeadersPolicyRead m e d =
     with_client m d (\<lambda>conn.
       let c = CallFindResponseHeadersPolicyByID (rd_Id d) in
       (case FindResponseHeadersPolicyByID conn (rd_Id d) of
          Inl err \<Rightarrow>
            if \<not> rd_IsNewResource d \<and> NotFound (Some err)
            then returned (SetId [] d) [(c, Some err)] []
            else returned d [(c, Some err)]
                   [ErrorDiag ''reading CloudFront Response Headers Policy (%s): %s'' [rd_Id d] err]
        | Inr output \<Rightarrow>
            (let apiObject = grhp_ResponseHeadersPolicyConfig output in
             finish [(c, None)]
               (run_steps
                  [set_field e ''comment'' (VStringPtr (rhp_Comment apiObject)),
                   set_block e ''cors_config'' (rhp_CorsConfig apiObject)
                     flattenResponseHeadersPolicyCorsConfig,
                   set_block e ''custom_headers_config'' (rhp_CustomHeadersConfig apiObject)
                     flattenCustomHeadersConfigDeref,
                   set_field e ''etag'' (VStringPtr (grhp_ETag output)),
                   set_field e ''name'' (VStringPtr (rhp_Name apiObject)),
                   set_block e ''remove_headers_config'' (rhp_RemoveHeadersConfig apiObject)
                     flattenResponseHeadersPolicyRemoveHeadersConfig,
                   set_block e ''security_headers_config'' (rhp_SecurityHeadersConfig apiObject)
                     flattenResponseHeadersPolicySecurityHeadersConfig,
                   set_block e ''server_timing_headers_config''
                     (rhp_ServerTimingHeadersConfig apiObject)
                     flattenResponseHeadersPolicyServerTimingHeadersConfig]
                  d))))"

text \<open>
  The configuration object that the create and the update handler build, each in its own
  copy of the same statements; the name is read by the caller.
\<close>

definition responseHeadersPolicyConfig ::
    "env \<Rightarrow> ResourceData \<Rightarrow> string \<Rightarrow> ResponseHeadersPolicyConfig go" where
  "responseHeadersPolicyConfig e d name =
     go_bind (top_block d ''cors_config'' (expandResponseHeadersPolicyCorsConfig e))
       (\<lambda>corsConfig.
     go_bind (top_block d ''custom_headers_config''
                (\<lambda>tf. Ret (expandResponseHeadersPolicyCustomHeadersConfig tf)))
       (\<lambda>customHeadersConfig.
     go_bind (top_block d ''remove_headers_config''
                (\<lambda>tf. Ret (expandResponseHeadersPolicyRemoveHeadersConfig tf)))
       (\<lambda>removeHeadersConfig.
     go_bind (top_block d ''security_headers_config''
                expandResponseHeadersPolicySecurityHeadersConfig)
       (\<lambda>securityHeadersConfig.
     go_bind (top_block d ''server_timing_headers_config''
                (\<lambda>tf. Ret (expandResponseHeadersPolicyServerTimingHeadersConfig tf)))
       (\<lambda>serverTimingHeadersConfig.
     Ret \<lparr>rhp_Comment = GetOkString d ''comment'',
          rhp_CorsConfig = corsConfig,
          rhp_CustomHeadersConfig = customHeadersConfig,
          rhp_Name = Some name,
          rhp_RemoveHeadersConfig = removeHeadersConfig,
          rhp_SecurityHeadersConfig = securityHeadersConfig,
          rhp_ServerTimingHeadersConfig = serverTimingHeadersConfig\<rparr>)))))"

definition resourceResponseHeadersPolicyCreate :: "meta \<Rightarrow> env \<Rightarrow> ResourceData \<Rightarrow> run" where
  "resourceResponseHeadersPolicyCreate m e d =
     with_client m d (\<lambda>conn.
       let name = GetString d ''name'' in
       (case responseHeadersPolicyConfig e d name of
          Panic \<Rightarrow> panicked d []
        | Ret apiObject \<Rightarrow>
            (let c = CallCreateResponseHeadersPolicy apiObject in
             (case CreateResponseHeadersPolicy conn apiObject of
                Inl err \<Rightarrow>
                  returned d [(c, Some err)]
                    [ErrorDiag ''creating CloudFront Response Headers Policy (%s): %s'' [name] err]
              | Inr output \<Rightarrow>
                  (case output of
                     None \<Rightarrow> panicked d [(c, None)]
                   | Some responseHeadersPolicy \<Rightarrow>
                       after_calls [(c, None)]
                         (resourceResponseHeadersPolicyRead m e
                            (SetId (ToString (Id responseHeadersPolicy)) d)))))))"

definition resourceResponseHeadersPolicyUpdate :: "meta \<Rightarrow> env \<Rightarrow> ResourceData \<Rightarrow> run" where
  "resourceResponseHeadersPolicyUpdate m e d =
     with_client m d (\<lambda>conn.
       (case responseHeadersPolicyConfig e d (GetString d ''name'') of
          Panic \<Rightarrow> panicked d []
        | Ret apiObject \<Rightarrow>
            (let c = CallUpdateResponseHeadersPolicy apiObject (rd_Id d) (GetString d ''etag'') in
             (case UpdateResponseHeadersPolicy conn apiObject (rd_Id d) (GetString d ''etag'') of
                Some err \<Rightarrow>
                  returned d [(c, Some err)]
                    [ErrorDiag ''updating CloudFront Response Headers Policy (%s): %s''
                       [rd_Id d] err]
              | None \<Rightarrow> after_calls [(c, None)] (resourceResponseHeadersPolicyRead m e d)))))"

definition resourceResponseHeadersPolicyDelete :: "meta \<Rightarrow> env \<Rightarrow> ResourceData \<Rightarrow> run" where
  "resourceResponseHeadersPolicyDelete m e d =
     with_client m d (\<lambda>conn.
       let c = CallDeleteResponseHeadersPolicy (rd_Id d) (GetString d ''etag'');
           err = DeleteResponseHeadersPolicy conn (rd_Id d) (GetString d ''etag'') in
       if IsAErrorMessageContains_InvalidInput err ''not found''
       then returned d [(c, err)] []
       else (case err of
               Some e \<Rightarrow> returned d [(c, err)] [ErrorDiag ''deleting CloudFront Response Headers Policy (%s): %s'' [rd_Id d] e]
             | None \<Rightarrow> returned d [(c, err)] []))"

section \<open>Specification predicates and sample inputs\<close>

text \<open>
  A sample environment for evaluating the functions on concrete inputs: both flex helpers
  return the non-empty strings of the list, in order. The theorems below hold for every
  environment unless they say otherwise.
\<close>

fun nonempty_strings :: "tfval list \<Rightarrow> string list" where
  "nonempty_strings [] = []"
| "nonempty_strings (VString s # xs) = (if s \<noteq> [] then s # nonempty_strings xs else nonempty_strings xs)"
| "nonempty_strings (x # xs) = nonempty_strings xs"

definition sample_env :: env where
  "sample_env =
     \<lparr>ExpandStringSet = nonempty_strings,
      ExpandStringValueSet = nonempty_strings,
      GenerateName = (\<lambda>name namePrefix. if name \<noteq> [] then name else namePrefix @ ''0001''),
      NamePrefixFromName = (\<lambda>name. None),
      UniqueId = ''terraform-0001'',
      SetError = (\<lambda>key v. None)\<rparr>"


text \<open>
  The specification of an object with \<^verbatim>\<open>Items\<close> and \<^verbatim>\<open>Quantity\<close>, in terms of the map it is
  built from. \<open>input_set\<close> is the set under \<^verbatim>\<open>items\<close>, empty when the key is missing or is
  not a set; \<open>blocks\<close> are the elements of a set of nested blocks that are non-nil maps, in
  order; \<open>counted\<close> is the object with the given \<^verbatim>\<open>Items\<close> and their number as \<^verbatim>\<open>Quantity\<close>,
  converted to the counter's type \<^verbatim>\<open>int32\<close> as the code converts it.
\<close>

definition input_set :: "tfmap \<Rightarrow> tfval list" where
  "input_set m = (case fmlookup m ''items'' of Some (VSet xs) \<Rightarrow> xs | _ \<Rightarrow> [])"

fun blocks :: "tfval list \<Rightarrow> tfmap list" where
  "blocks [] = []"
| "blocks (VMap (Some tf) # xs) = tf # blocks xs"
| "blocks (x # xs) = blocks xs"

definition counted :: "'a list option \<Rightarrow> 'a ItemsQuantity" where
  "counted items = \<lparr>Items = items, Quantity = Some (of_nat (slice_len items))\<rparr>"

definition sample_custom_header :: tfmap where
  "sample_custom_header =
     fmupd ''header'' (VString ''X-Frame'')
    (fmupd ''override'' (VBool True)
    (fmupd ''value'' (VString ''deny'') fmempty))"

definition sample_string_items :: tfmap where
  "sample_string_items = fmupd ''items'' (VSet [VString ''a'', VString ''b'']) fmempty"

definition sample_block_items :: tfmap where
  "sample_block_items = fmupd ''items'' (VSet [VMap (Some sample_custom_header)]) fmempty"

text \<open>A set of nested blocks whose only element is nil.\<close>

definition sample_nil_items :: tfmap where
  "sample_nil_items = fmupd ''items'' (VSet [VNil]) fmempty"

text \<open>What the handlers return: no diagnostics at all, or at least one error diagnostic.\<close>

definition returns_success :: "run \<Rightarrow> bool" where
  "returns_success r = (outcome r = Returned [])"

definition returns_error :: "run \<Rightarrow> bool" where
  "returns_error r = (case outcome r of Returned diags \<Rightarrow> has_error diags | Panicked \<Rightarrow> False)"

text \<open>
  The delete handlers in the specification's words: an \<^verbatim>\<open>InvalidInput\<close> error whose message
  contains "not found" is success, every other error is an error diagnostic, no error is
  success.
\<close>

definition is_invalid_input_not_found :: "error \<Rightarrow> bool" where
  "is_invalid_input_not_found err =
     (case err of InvalidInput message \<Rightarrow> contains message ''not found'' | _ \<Rightarrow> False)"

definition delete_spec :: "error option \<Rightarrow> run \<Rightarrow> bool" where
  "delete_spec err r =
     (case err of
        None \<Rightarrow> returns_success r
      | Some e \<Rightarrow> if is_invalid_input_not_found e then returns_success r else returns_error r)"

text \<open>A client whose calls all succeed, for evaluating the handlers.\<close>

definition sample_cache_policy_config :: CachePolicyConfig where
  "sample_cache_policy_config =
     \<lparr>cp_Comment = Some ''cached'', DefaultTTL = Some 86400, MaxTTL = Some 31536000,
      MinTTL = Some 0, cp_Name = Some ''policy'',
      cp_ParametersInCacheKeyAndForwardedToOrigin = None\<rparr>"

definition sample_origin_request_policy_config :: OriginRequestPolicyConfig where
  "sample_origin_request_policy_config =
     \<lparr>orp_Comment = None, orp_CookiesConfig = None, orp_HeadersConfig = None,
      orp_Name = Some ''policy'', orp_QueryStringsConfig = None\<rparr>"

definition sample_response_headers_policy_config :: ResponseHeadersPolicyConfig where
  "sample_response_headers_policy_config =
     \<lparr>rhp_Comment = None, rhp_CorsConfig = None, rhp_CustomHeadersConfig = None,
      rhp_Name = Some ''policy'', rhp_RemoveHeadersConfig = None,
      rhp_SecurityHeadersConfig = None, rhp_ServerTimingHeadersConfig = None\<rparr>"

definition sample_public_key_output :: GetPublicKeyOutput where
  "sample_public_key_output =
     \<lparr>gpk_ETag = Some ''E1'',
      gpk_PublicKey = Some \<lparr>PublicKeyConfig =
        Some \<lparr>CallerReference = Some ''ref'', pk_Comment = None, EncodedKey = Some ''key'',
              pk_Name = Some ''name''\<rparr>\<rparr>\<rparr>"

definition sample_function_output :: DescribeFunctionOutput where
  "sample_function_output =
     \<lparr>df_FunctionARN = Some ''arn:aws:cloudfront::1:function/f'', df_Comment = Some ''c'',
      df_ETag = Some ''E1'', df_Name = Some ''f'', df_Runtime = ''cloudfront-js-2.0'',
      df_Status = Some ''UNPUBLISHED''\<rparr>"

definition sample_conn :: conn where
  "sample_conn =
     \<lparr>CreateCachePolicy = (\<lambda>config. Inr (Some \<lparr>Id = Some ''id-1''\<rparr>)),
      FindCachePolicyByID =
        (\<lambda>ident. Inr \<lparr>gcp_CachePolicyConfig = sample_cache_policy_config, gcp_ETag = Some ''E1''\<rparr>),
      UpdateCachePolicy = (\<lambda>config ident ifMatch. None),
      DeleteCachePolicy = (\<lambda>ident ifMatch. None),
      CreatePublicKey = (\<lambda>config. Inr (Some \<lparr>Id = Some ''id-1''\<rparr>)),
      GetPublicKey = (\<lambda>ident. Inr (Some sample_public_key_output)),
      UpdatePublicKey = (\<lambda>config ident ifMatch. None),
      DeletePublicKey = (\<lambda>ident ifMatch. None),
      CreateMonitoringSubscription = (\<lambda>ident subscription. None),
      FindMonitoringSubscriptionByDistributionID =
        (\<lambda>ident. Inr \<lparr>gms_MonitoringSubscription = None\<rparr>),
      DeleteMonitoringSubscription = (\<lambda>ident. None),
      CreateOriginRequestPolicy = (\<lambda>config. Inr (Some \<lparr>Id = Some ''id-1''\<rparr>)),
      FindOriginRequestPolicyByID =
        (\<lambda>ident. Inr \<lparr>gorp_OriginRequestPolicyConfig = sample_origin_request_policy_config,
                       gorp_ETag = Some ''E1''\<rparr>),
      UpdateOriginRequestPolicy = (\<lambda>config ident ifMatch. None),
      DeleteOriginRequestPolicy = (\<lambda>ident ifMatch. None),
      CreateFunction =
        (\<lambda>code config name.
           Inr \<lparr>cf_ETag = Some ''E1'', cf_FunctionSummary = Some \<lparr>fs_Name = Some ''f''\<rparr>\<rparr>),
      PublishFunction = (\<lambda>name ifMatch. None),
      FindFunctionByNameAndStage = (\<lambda>name stage. Inr sample_function_output),
      GetFunction = (\<lambda>name stage. Inr \<lparr>FunctionCode = ''function handler(event) {}''\<rparr>),
      UpdateFunction = (\<lambda>code config name ifMatch. Inr \<lparr>uf_ETag = Some ''E2''\<rparr>),
      DeleteFunction = (\<lambda>name ifMatch. None),
      CreateResponseHeadersPolicy = (\<lambda>config. Inr (Some \<lparr>Id = Some ''id-1''\<rparr>)),
      FindResponseHeadersPolicyByID =
        (\<lambda>ident. Inr \<lparr>grhp_ResponseHeadersPolicyConfig = sample_response_headers_policy_config,
                       grhp_ETag = Some ''E1''\<rparr>),
      UpdateResponseHeadersPolicy = (\<lambda>config ident ifMatch. None),
      DeleteResponseHeadersPolicy = (\<lambda>ident ifMatch. None)\<rparr>"

text \<open>The same client, with every delete call answered by the given error.\<close>

definition delete_fails :: "error \<Rightarrow> conn" where
  "delete_fails err =
     sample_conn
       \<lparr>DeleteCachePolicy := (\<lambda>ident ifMatch. Some err),
        DeletePublicKey := (\<lambda>ident ifMatch. Some err),
        DeleteMonitoringSubscription := (\<lambda>ident. Some err),
        DeleteOriginRequestPolicy := (\<lambda>ident ifMatch. Some err),
        DeleteFunction := (\<lambda>name ifMatch. Some err),
        DeleteResponseHeadersPolicy := (\<lambda>ident ifMatch. Some err)\<rparr>"

definition sample_data :: ResourceData where
  "sample_data =
     \<lparr>rd_Id = ''id-1'', rd_IsNewResource = False,
      rd_config =
        fmupd ''etag'' (VString ''E1'')
       (fmupd ''name'' (VString ''policy'')
       (fmupd ''distribution_id'' (VString ''EDFDVBD6EXAMPLE'')
       (fmupd ''publish'' (VBool True) fmempty))),
      rd_changed = [], rd_state = fmempty\<rparr>"

text \<open>
  The specification's reading of "no retry" on the log of an invocation: every call but
  the last one succeeded, so no call follows a failed one; and when the last call failed
  the handler returns an error diagnostic, unless the failure is one of the tolerated
  not-found cases: a delete call answered by an \<^verbatim>\<open>InvalidInput\<close> "not found" error, the
  fetch of a read handler reporting not-found for a resource that is not new, and the
  fetch of a function's LIVE stage reporting not-found.
\<close>

definition tolerated :: "bool \<Rightarrow> call \<times> error option \<Rightarrow> bool" where
  "tolerated new ce =
     (case fst ce of
        CallDeleteCachePolicy ident ifMatch \<Rightarrow>
          IsAErrorMessageContains_InvalidInput (snd ce) ''not found''
      | CallDeletePublicKey ident ifMatch \<Rightarrow>
          IsAErrorMessageContains_InvalidInput (snd ce) ''not found''
      | CallDeleteMonitoringSubscription ident \<Rightarrow>
          IsAErrorMessageContains_InvalidInput (snd ce) ''not found''
      | CallDeleteOriginRequestPolicy ident ifMatch \<Rightarrow>
          IsAErrorMessageContains_InvalidInput (snd ce) ''not found''
      | CallDeleteFunction name ifMatch \<Rightarrow>
          IsAErrorMessageContains_InvalidInput (snd ce) ''not found''
      | CallDeleteResponseHeadersPolicy ident ifMatch \<Rightarrow>
          IsAErrorMessageContains_InvalidInput (snd ce) ''not found''
      | CallFindCachePolicyByID ident \<Rightarrow> \<not> new \<and> NotFound (snd ce)
      | CallFindMonitoringSubscriptionByDistributionID ident \<Rightarrow> \<not> new \<and> NotFound (snd ce)
      | CallFindOriginRequestPolicyByID ident \<Rightarrow> \<not> new \<and> NotFound (snd ce)
      | CallFindResponseHeadersPolicyByID ident \<Rightarrow> \<not> new \<and> NotFound (snd ce)
      | CallFindFunctionByNameAndStage name stage \<Rightarrow>
          (case stage of
             FunctionStageDevelopment \<Rightarrow> \<not> new \<and> NotFound (snd ce)
           | FunctionStageLive \<Rightarrow> NotFound (snd ce))
      | _ \<Rightarrow> False)"

definition no_retry_spec :: "bool \<Rightarrow> run \<Rightarrow> bool" where
  "no_retry_spec new r =
     (list_all (\<lambda>ce. snd ce = None) (butlast (calls r)) \<and>
      (calls r \<noteq> [] \<and> snd (last (calls r)) \<noteq> None \<and> \<not> tolerated new (last (calls r))
         \<longrightarrow> returns_error r))"

text \<open>
  The create, read, update and delete handlers of the six resources, as the resource
  declarations list them; the monitoring subscription's update handler is its create
  handler.
\<close>

definition lifecycle_handlers :: "(meta \<Rightarrow> env \<Rightarrow> ResourceData \<Rightarrow> run) list" where
  "lifecycle_handlers =
     [resourceCachePolicyCreate, resourceCachePolicyRead,
      resourceCachePolicyUpdate, resourceCachePolicyDelete,
      resourcePublicKeyCreate, resourcePublicKeyRead,
      resourcePublicKeyUpdate, resourcePublicKeyDelete,
      resourceMonitoringSubscriptionCreate, resourceMonitoringSubscriptionRead,
      resourceMonitoringSubscriptionCreate, resourceMonitoringSubscriptionDelete,
      resourceOriginRequestPolicyCreate, resourceOriginRequestPolicyRead,
      resourceOriginRequestPolicyUpdate, resourceOriginRequestPolicyDelete,
      resourceFunctionCreate, resourceFunctionRead,
      resourceFunctionUpdate, resourceFunctionDelete,
      resourceResponseHeadersPolicyCreate, resourceResponseHeadersPolicyRead,
      resourceResponseHeadersPolicyUpdate, resourceResponseHeadersPolicyDelete]"

text \<open>The sample client with a failing update call, and with a failing code fetch.\<close>

definition update_fails :: "error \<Rightarrow> conn" where
  "update_fails err = sample_conn\<lparr>UpdateCachePolicy := (\<lambda>config ident ifMatch. Some err)\<rparr>"

definition get_function_fails :: "error \<Rightarrow> conn" where
  "get_function_fails err = sample_conn\<lparr>GetFunction := (\<lambda>name stage. Inl err)\<rparr>"

text \<open>The sample client with failing create calls.\<close>

definition create_fails :: "error \<Rightarrow> conn" where
  "create_fails err =
     sample_conn
       \<lparr>CreateCachePolicy := (\<lambda>config. Inl err),
        CreateMonitoringSubscription := (\<lambda>ident subscription. Some err),
        CreateFunction := (\<lambda>code config name. Inl err)\<rparr>"

definition other_distribution :: ResourceData where
  "other_distribution =
     sample_data\<lparr>rd_config := fmupd ''distribution_id'' (VString ''E2QWRUHAPOMQZL'') fmempty\<rparr>"

definition sample_create_config :: CachePolicyConfig where
  "sample_create_config =
     \<lparr>cp_Comment = None, DefaultTTL = Some 0, MaxTTL = Some 0, MinTTL = Some 0,
      cp_Name = Some ''policy'', cp_ParametersInCacheKeyAndForwardedToOrigin = None\<rparr>"

text \<open>
  The calls of an invocation to an update endpoint (\<^verbatim>\<open>UpdateCachePolicy\<close>,
  \<^verbatim>\<open>UpdatePublicKey\<close>, \<^verbatim>\<open>UpdateOriginRequestPolicy\<close>, \<^verbatim>\<open>UpdateFunction\<close>,
  \<^verbatim>\<open>UpdateResponseHeadersPolicy\<close>), in order.
\<close>

definition is_update_call :: "call \<Rightarrow> bool" where
  "is_update_call c =
     (case c of
        CallUpdateCachePolicy config ident ifMatch \<Rightarrow> True
      | CallUpdatePublicKey config ident ifMatch \<Rightarrow> True
      | CallUpdateOriginRequestPolicy config ident ifMatch \<Rightarrow> True
      | CallUpdateFunction code config name ifMatch \<Rightarrow> True
      | CallUpdateResponseHeadersPolicy config ident ifMatch \<Rightarrow> True
      | _ \<Rightarrow> False)"

definition update_calls :: "run \<Rightarrow> call list" where
  "update_calls r = filter is_update_call (map fst (calls r))"



text \<open>
  What a read handler writes for a nested block: nil when the API object has no such
  sub-object, and otherwise the list of the one flattened map.
\<close>

definition block_value :: "'a option \<Rightarrow> ('a option \<Rightarrow> gomap) \<Rightarrow> tfval" where
  "block_value sub flatten = (case sub of None \<Rightarrow> VNil | Some a \<Rightarrow> VList [VMap (flatten sub)])"

text \<open>The resource data after \<^verbatim>\<open>d.Set\<close> has written the given keys, the last one first.\<close>

definition written :: "(string \<times> tfval) list \<Rightarrow> ResourceData \<Rightarrow> ResourceData" where
  "written kvs d = d\<lparr>rd_state := foldr (\<lambda>kv m. fmupd (fst kv) (snd kv) m) kvs (rd_state d)\<rparr>"

definition cache_policy_fields :: "GetCachePolicyOutput \<Rightarrow> (string \<times> tfval) list" where
  "cache_policy_fields out =
     [(''parameters_in_cache_key_and_forwarded_to_origin'',
        block_value
          (cp_ParametersInCacheKeyAndForwardedToOrigin (gcp_CachePolicyConfig out))
          flattenParametersInCacheKeyAndForwardedToOrigin),
      (''name'', VStringPtr (cp_Name (gcp_CachePolicyConfig out))),
      (''min_ttl'', VInt64Ptr (MinTTL (gcp_CachePolicyConfig out))),
      (''max_ttl'', VInt64Ptr (MaxTTL (gcp_CachePolicyConfig out))),
      (''etag'', VStringPtr (gcp_ETag out)),
      (''default_ttl'', VInt64Ptr (DefaultTTL (gcp_CachePolicyConfig out))),
      (''comment'', VStringPtr (cp_Comment (gcp_CachePolicyConfig out)))]"

definition origin_request_policy_fields :: "GetOriginRequestPolicyOutput \<Rightarrow> (string \<times> tfval) list" where
  "origin_request_policy_fields out =
     [(''query_strings_config'',
        block_value (orp_QueryStringsConfig (gorp_OriginRequestPolicyConfig out))
          flattenOriginRequestPolicyQueryStringsConfig),
      (''name'', VStringPtr (orp_Name (gorp_OriginRequestPolicyConfig out))),
      (''headers_config'',
        block_value (orp_HeadersConfig (gorp_OriginRequestPolicyConfig out))
          flattenOriginRequestPolicyHeadersConfig),
      (''etag'', VStringPtr (gorp_ETag out)),
      (''cookies_config'',
        block_value (orp_CookiesConfig (gorp_OriginRequestPolicyConfig out))
          flattenOriginRequestPolicyCookiesConfig),
      (''comment'', VStringPtr (orp_Comment (gorp_OriginRequestPolicyConfig out)))]"

definition response_headers_policy_fields :: "GetResponseHeadersPolicyOutput \<Rightarrow> (string \<times> tfval) list" where
  "response_headers_policy_fields out =
     [(''server_timing_headers_config'',
        block_value (rhp_ServerTimingHeadersConfig (grhp_ResponseHeadersPolicyConfig out))
          flattenResponseHeadersPolicyServerTimingHeadersConfig),
      (''security_headers_config'',
        block_value (rhp_SecurityHeadersConfig (grhp_ResponseHeadersPolicyConfig out))
          flattenResponseHeadersPolicySecurityHeadersConfig),
      (''remove_headers_config'',
        block_value (rhp_RemoveHeadersConfig (grhp_ResponseHeadersPolicyConfig out))
          flattenResponseHeadersPolicyRemoveHeadersConfig),
      (''name'', VStringPtr (rhp_Name (grhp_ResponseHeadersPolicyConfig out))),
      (''etag'', VStringPtr (grhp_ETag out)),
      (''custom_headers_config'',
        block_value (rhp_CustomHeadersConfig (grhp_ResponseHeadersPolicyConfig out))
          flattenCustomHeadersConfigDeref),
      (''cors_config'',
        block_value (rhp_CorsConfig (grhp_ResponseHeadersPolicyConfig out))
          flattenResponseHeadersPolicyCorsConfig),
      (''comment'', VStringPtr (rhp_Comment (grhp_ResponseHeadersPolicyConfig out)))]"

definition monitoring_subscription_fields :: "GetMonitoringSubscriptionOutput \<Rightarrow> (string \<times> tfval) list" where
  "monitoring_subscription_fields out =
     [(''monitoring_subscription'',
        block_value (gms_MonitoringSubscription out) flattenMonitoringSubscription)]"

definition function_fields ::
  "DescribeFunctionOutput \<Rightarrow> GetFunctionOutput \<Rightarrow> error + DescribeFunctionOutput \<Rightarrow>
   (string \<times> tfval) list" where
  "function_fields out code live =
     [(''live_stage_etag'',
        (case live of Inl err \<Rightarrow> VString [] | Inr liveOutput \<Rightarrow> VStringPtr (df_ETag liveOutput))),
      (''code'', VString (FunctionCode code)),
      (''status'', VStringPtr (df_Status out)),
      (''runtime'', VEnum (df_Runtime out)),
      (''name'', VStringPtr (df_Name out)),
      (''etag'', VStringPtr (df_ETag out)),
      (''comment'', VStringPtr (df_Comment out)),
      (''arn'', VStringPtr (df_FunctionARN out))]"

section \<open>The specification of the expanders\<close>











section \<open>Reading a Terraform value without its Go representation\<close>

text \<open>
  The flatteners do not write the Go types that the expanders read: they write a \<^verbatim>\<open>*bool\<close>
  where the expander asserts a \<^verbatim>\<open>bool\<close>, an \<^verbatim>\<open>*int32\<close> for an \<^verbatim>\<open>int\<close>, a named string type
  for a \<^verbatim>\<open>string\<close>, a \<^verbatim>\<open>[]string\<close> or \<^verbatim>\<open>[]*string\<close> for a \<^verbatim>\<open>*schema.Set\<close>. \<open>erase\<close> forgets
  the representation: a pointer is what it points to (nil if it is nil), an \<^verbatim>\<open>int32\<close> is
  the \<^verbatim>\<open>int\<close> of the same value, a named string is a string, and a slice of strings or a
  set is the list of its elements, in the order of \<^verbatim>\<open>List()\<close> for a set.
\<close>

primrec erase :: "tfval \<Rightarrow> tfval" where
  "erase VNil = VNil"
| "erase (VBool b) = VBool b"
| "erase (VBoolPtr p) = (case p of None \<Rightarrow> VNil | Some b \<Rightarrow> VBool b)"
| "erase (VInt i) = VInt i"
| "erase (VInt32Ptr p) = (case p of None \<Rightarrow> VNil | Some i \<Rightarrow> VInt (scast i))"
| "erase (VInt64Ptr p) = (case p of None \<Rightarrow> VNil | Some i \<Rightarrow> VInt i)"
| "erase (VFloat f) = VFloat f"
| "erase (VFloatPtr p) = (case p of None \<Rightarrow> VNil | Some f \<Rightarrow> VFloat f)"
| "erase (VString s) = VString s"
| "erase (VStringPtr p) = (case p of None \<Rightarrow> VNil | Some s \<Rightarrow> VString s)"
| "erase (VEnum s) = VString s"
| "erase (VStrings ss) = VList (map VString ss)"
| "erase (VStringPtrs ss) = VList (map VString ss)"
| "erase (VEnums ss) = VList (map VString ss)"
| "erase (VList xs) = VList (map erase xs)"
| "erase (VSet xs) = VList (map erase xs)"
| "erase (VMap tfMap) = VMap (map_option (fmmap erase) tfMap)"

section \<open>Well-formed maps\<close>

text \<open>
  The values that survive an expander, by the type that the schema gives the key: a string
  that is not empty, an integer that is not 0 and fits an \<^verbatim>\<open>int32\<close>, any \<^verbatim>\<open>bool\<close> and any
  \<^verbatim>\<open>float64\<close>, a set of strings that is not empty and has no empty string, a nested block
  (a list of one map, \<^verbatim>\<open>MaxItems: 1\<close>) whose map is well-formed and not empty, and a set of
  such maps that is not empty.
\<close>

definition nonzero_string :: "tfval \<Rightarrow> bool" where
  "nonzero_string x = (case x of VString s \<Rightarrow> s \<noteq> [] | _ \<Rightarrow> False)"

definition nonzero_int32 :: "tfval \<Rightarrow> bool" where
  "nonzero_int32 x =
     (case x of VInt i \<Rightarrow> i \<noteq> 0 \<and> - (2 ^ 31) \<le> sint i \<and> sint i < 2 ^ 31 | _ \<Rightarrow> False)"

definition any_bool :: "tfval \<Rightarrow> bool" where
  "any_bool x = (case x of VBool b \<Rightarrow> True | _ \<Rightarrow> False)"

definition any_float :: "tfval \<Rightarrow> bool" where
  "any_float x = (case x of VFloat f \<Rightarrow> True | _ \<Rightarrow> False)"

definition string_set :: "tfval \<Rightarrow> bool" where
  "string_set x = (case x of VSet xs \<Rightarrow> xs \<noteq> [] \<and> list_all nonzero_string xs | _ \<Rightarrow> False)"

definition nonempty_block :: "(tfmap \<Rightarrow> bool) \<Rightarrow> tfval \<Rightarrow> bool" where
  "nonempty_block ok x = (case x of VMap (Some tf) \<Rightarrow> tf \<noteq> fmempty \<and> ok tf | _ \<Rightarrow> False)"

definition block :: "(tfmap \<Rightarrow> bool) \<Rightarrow> tfval \<Rightarrow> bool" where
  "block ok x = (case x of VList [v0] \<Rightarrow> nonempty_block ok v0 | _ \<Rightarrow> False)"

definition block_set :: "(tfmap \<Rightarrow> bool) \<Rightarrow> tfval \<Rightarrow> bool" where
  "block_set ok x = (case x of VSet xs \<Rightarrow> xs \<noteq> [] \<and> list_all (nonempty_block ok) xs | _ \<Rightarrow> False)"

text \<open>An optional key is missing or holds such a value; a required one holds it.\<close>

definition optional :: "tfmap \<Rightarrow> string \<Rightarrow> (tfval \<Rightarrow> bool) \<Rightarrow> bool" where
  "optional m k p = (case fmlookup m k of None \<Rightarrow> True | Some v \<Rightarrow> p v)"

definition required :: "tfmap \<Rightarrow> string \<Rightarrow> (tfval \<Rightarrow> bool) \<Rightarrow> bool" where
  "required m k p = (case fmlookup m k of None \<Rightarrow> False | Some v \<Rightarrow> p v)"

definition keys_ok :: "tfmap \<Rightarrow> string list \<Rightarrow> bool" where
  "keys_ok m ks = (fmdom' m \<subseteq> set ks)"

section \<open>The round trip\<close>

text \<open>
  Flattening what the expander makes of \<open>m\<close> gives \<open>m\<close> again, when both are read without
  their Go representation. For an expander that may panic, it does not panic on \<open>m\<close>.
\<close>

definition round_trip :: "(gomap \<Rightarrow> 'a option) \<Rightarrow> ('a option \<Rightarrow> gomap) \<Rightarrow> tfmap \<Rightarrow> bool" where
  "round_trip expand flatten m =
     (erase (VMap (flatten (expand (Some m)))) = erase (VMap (Some m)))"

definition round_trip_go ::
    "(gomap \<Rightarrow> 'a option go) \<Rightarrow> ('a option \<Rightarrow> gomap) \<Rightarrow> tfmap \<Rightarrow> bool" where
  "round_trip_go expand flatten m =
     (case expand (Some m) of
        Panic \<Rightarrow> False
      | Ret a \<Rightarrow> erase (VMap (flatten a)) = erase (VMap (Some m)))"

text \<open>
  \<^verbatim>\<open>flex.ExpandStringSet\<close> and \<^verbatim>\<open>flex.ExpandStringValueSet\<close> return the strings of the set
  that are not empty, in the order of \<^verbatim>\<open>List()\<close>.
\<close>

definition flex_ok :: "env \<Rightarrow> bool" where
  "flex_ok e = (ExpandStringSet e = nonempty_strings \<and> ExpandStringValueSet e = nonempty_strings)"

text \<open>
  The blocks of the schemas: the keys of each, with the type that the schema declares.
\<close>

definition wf_Items :: "tfmap \<Rightarrow> bool" where
  "wf_Items m =
     (keys_ok m [''items''] \<and>
      optional m ''items'' string_set)"

definition wf_CookiesConfig :: "tfmap \<Rightarrow> bool" where
  "wf_CookiesConfig m =
     (keys_ok m [''cookie_behavior'', ''cookies''] \<and>
      optional m ''cookie_behavior'' nonzero_string \<and>
      optional m ''cookies'' (block wf_Items))"

definition wf_HeadersConfig :: "tfmap \<Rightarrow> bool" where
  "wf_HeadersConfig m =
     (keys_ok m [''header_behavior'', ''headers''] \<and>
      optional m ''header_behavior'' nonzero_string \<and>
      optional m ''headers'' (block wf_Items))"

definition wf_QueryStringsConfig :: "tfmap \<Rightarrow> bool" where
  "wf_QueryStringsConfig m =
     (keys_ok m [''query_string_behavior'', ''query_strings''] \<and>
      optional m ''query_string_behavior'' nonzero_string \<and>
      optional m ''query_strings'' (block wf_Items))"

definition wf_ParametersInCacheKeyAndForwardedToOrigin :: "tfmap \<Rightarrow> bool" where
  "wf_ParametersInCacheKeyAndForwardedToOrigin m =
     (keys_ok m
        [''cookies_config'', ''enable_accept_encoding_brotli'',
         ''enable_accept_encoding_gzip'', ''headers_config'', ''query_strings_config''] \<and>
      optional m ''cookies_config'' (block wf_CookiesConfig) \<and>
      optional m ''enable_accept_encoding_brotli'' any_bool \<and>
      optional m ''enable_accept_encoding_gzip'' any_bool \<and>
      optional m ''headers_config'' (block wf_HeadersConfig) \<and>
      optional m ''query_strings_config'' (block wf_QueryStringsConfig))"

definition wf_RealtimeMetricsSubscriptionConfig :: "tfmap \<Rightarrow> bool" where
  "wf_RealtimeMetricsSubscriptionConfig m =
     (keys_ok m [''realtime_metrics_subscription_status''] \<and>
      required m ''realtime_metrics_subscription_status'' nonzero_string)"

definition wf_MonitoringSubscription :: "tfmap \<Rightarrow> bool" where
  "wf_MonitoringSubscription m =
     (keys_ok m [''realtime_metrics_subscription_config''] \<and>
      optional m ''realtime_metrics_subscription_config''
        (block wf_RealtimeMetricsSubscriptionConfig))"

definition wf_CorsConfig :: "tfmap \<Rightarrow> bool" where
  "wf_CorsConfig m =
     (keys_ok m
        [''access_control_allow_credentials'', ''access_control_allow_headers'',
         ''access_control_allow_methods'', ''access_control_allow_origins'',
         ''access_control_expose_headers'', ''access_control_max_age_sec'',
         ''origin_override''] \<and>
      optional m ''access_control_allow_credentials'' any_bool \<and>
      optional m ''access_control_allow_headers'' (block wf_Items) \<and>
      optional m ''access_control_allow_methods'' (block wf_Items) \<and>
      optional m ''access_control_allow_origins'' (block wf_Items) \<and>
      optional m ''access_control_expose_headers'' (block wf_Items) \<and>
      optional m ''access_control_max_age_sec'' nonzero_int32 \<and>
      optional m ''origin_override'' any_bool)"

definition wf_CustomHeader :: "tfmap \<Rightarrow> bool" where
  "wf_CustomHeader m =
     (keys_ok m [''header'', ''override'', ''value''] \<and>
      optional m ''header'' nonzero_string \<and>
      optional m ''override'' any_bool \<and>
      optional m ''value'' nonzero_string)"

definition wf_CustomHeadersConfig :: "tfmap \<Rightarrow> bool" where
  "wf_CustomHeadersConfig m =
     (keys_ok m [''items''] \<and>
      optional m ''items'' (block_set wf_CustomHeader))"

definition wf_RemoveHeader :: "tfmap \<Rightarrow> bool" where
  "wf_RemoveHeader m =
     (keys_ok m [''header''] \<and>
      optional m ''header'' nonzero_string)"

definition wf_RemoveHeadersConfig :: "tfmap \<Rightarrow> bool" where
  "wf_RemoveHeadersConfig m =
     (keys_ok m [''items''] \<and>
      optional m ''items'' (block_set wf_RemoveHeader))"

definition wf_ContentSecurityPolicy :: "tfmap \<Rightarrow> bool" where
  "wf_ContentSecurityPolicy m =
     (keys_ok m [''content_security_policy'', ''override''] \<and>
      optional m ''content_security_policy'' nonzero_string \<and>
      optional m ''override'' any_bool)"

definition wf_ContentTypeOptions :: "tfmap \<Rightarrow> bool" where
  "wf_ContentTypeOptions m =
     (keys_ok m [''override''] \<and>
      optional m ''override'' any_bool)"

definition wf_FrameOptions :: "tfmap \<Rightarrow> bool" where
  "wf_FrameOptions m =
     (keys_ok m [''frame_option'', ''override''] \<and>
      required m ''frame_option'' nonzero_string \<and>
      optional m ''override'' any_bool)"

definition wf_ReferrerPolicy :: "tfmap \<Rightarrow> bool" where
  "wf_ReferrerPolicy m =
     (keys_ok m [''override'', ''referrer_policy''] \<and>
      optional m ''override'' any_bool \<and>
      required m ''referrer_policy'' nonzero_string)"

definition wf_StrictTransportSecurity :: "tfmap \<Rightarrow> bool" where
  "wf_StrictTransportSecurity m =
     (keys_ok m
        [''access_control_max_age_sec'', ''include_subdomains'', ''override'', ''preload''] \<and>
      optional m ''access_control_max_age_sec'' nonzero_int32 \<and>
      optional m ''include_subdomains'' any_bool \<and>
      optional m ''override'' any_bool \<and>
      optional m ''preload'' any_bool)"

definition wf_XSSProtection :: "tfmap \<Rightarrow> bool" where
  "wf_XSSProtection m =
     (keys_ok m [''mode_block'', ''override'', ''protection'', ''report_uri''] \<and>
      optional m ''mode_block'' any_bool \<and>
      optional m ''override'' any_bool \<and>
      optional m ''protection'' any_bool \<and>
      optional m ''report_uri'' nonzero_string)"

definition wf_SecurityHeadersConfig :: "tfmap \<Rightarrow> bool" where
  "wf_SecurityHeadersConfig m =
     (keys_ok m
        [''content_security_policy'', ''content_type_options'', ''frame_options'',
         ''referrer_policy'', ''strict_transport_security'', ''xss_protection''] \<and>
      optional m ''content_security_policy'' (block wf_ContentSecurityPolicy) \<and>
      optional m ''content_type_options'' (block wf_ContentTypeOptions) \<and>
      optional m ''frame_options'' (block wf_FrameOptions) \<and>
      optional m ''referrer_policy'' (block wf_ReferrerPolicy) \<and>
      optional m ''strict_transport_security'' (block wf_StrictTransportSecurity) \<and>
      optional m ''xss_protection'' (block wf_XSSProtection))"

definition wf_ServerTimingHeadersConfig :: "tfmap \<Rightarrow> bool" where
  "wf_ServerTimingHeadersConfig m =
     (keys_ok m [''enabled'', ''sampling_rate''] \<and>
      optional m ''enabled'' any_bool \<and>
      optional m ''sampling_rate'' any_float)"

text \<open>
  An \<^verbatim>\<open>xss_protection\<close> block as the SDK hands it over when \<^verbatim>\<open>report_uri\<close> is not
  configured: every key of the schema is there, the missing string as the empty string.
\<close>

definition sample_xss_protection :: tfmap where
  "sample_xss_protection =
     fmupd ''mode_block'' (VBool False)
    (fmupd ''override'' (VBool True)
    (fmupd ''protection'' (VBool True)
    (fmupd ''report_uri'' (VString []) fmempty)))"

text \<open>Well-formed maps of three shapes, for evaluating the round trip.\<close>

definition sample_parameters :: tfmap where
  "sample_parameters =
     fmupd ''cookies_config''
       (VList [VMap (Some
          (fmupd ''cookie_behavior'' (VString ''whitelist'')
          (fmupd ''cookies'' (VList [VMap (Some sample_string_items)]) fmempty)))])
    (fmupd ''enable_accept_encoding_gzip'' (VBool False)
    (fmupd ''headers_config''
       (VList [VMap (Some (fmupd ''header_behavior'' (VString ''none'') fmempty))])
    (fmupd ''query_strings_config''
       (VList [VMap (Some (fmupd ''query_string_behavior'' (VString ''all'') fmempty))])
     fmempty)))"

definition sample_security_headers :: tfmap where
  "sample_security_headers =
     fmupd ''frame_options''
       (VList [VMap (Some
          (fmupd ''frame_option'' (VString ''DENY'') (fmupd ''override'' (VBool True) fmempty)))])
    (fmupd ''strict_transport_security''
       (VList [VMap (Some
          (fmupd ''access_control_max_age_sec'' (VInt 31536000)
          (fmupd ''override'' (VBool False) fmempty)))])
     fmempty)"

section \<open>Machine integers\<close>

lemma sint_of_nat_int32:
  "n < 2 ^ 31 \<Longrightarrow> sint (of_nat n :: 32 word) = int n"
  by (simp add: signed_of_nat signed_take_bit_int_eq_self)

lemma sint_ucast_int32:
  fixes v :: "64 word"
  assumes "- (2 ^ 31) \<le> sint v" "sint v < 2 ^ 31"
  shows "sint (ucast v :: 32 word) = sint v"
proof -
  have "(ucast v :: 32 word) = scast v"
    by (simp add: bit_eq_iff bit_simps)
  then have "sint (ucast v :: 32 word) = signed_take_bit 31 (sint v)"
    by (simp add: signed_scast_eq)
  with assms show ?thesis by (simp add: signed_take_bit_int_eq_self)
qed

lemma scast_ucast_int32:
  fixes v :: "64 word"
  assumes "- (2 ^ 31) \<le> sint v" "sint v < 2 ^ 31"
  shows "(scast (ucast v :: 32 word) :: 64 word) = v"
proof -
  have "- (2 ^ 63) \<le> sint v" "sint v < 2 ^ 63"
    using assms by simp_all
  then have "sint (scast (ucast v :: 32 word) :: 64 word) = sint v"
    using sint_ucast_int32 [OF assms]
    by (simp add: signed_scast_eq signed_take_bit_int_eq_self)
  then show ?thesis by (simp only: signed_word_eqI)
qed

section \<open>Items and Quantity\<close>

lemma foldl_snoc_id: "foldl (\<lambda>acc item. acc @ [item]) ys xs = ys @ xs"
  by (induction xs arbitrary: ys) simp_all






lemma items_of_set:
  "(case as_set (tf_index m ''items'') of
      None \<Rightarrow> a
    | Some v \<Rightarrow> if 0 < length v then f v else a) =
   (if input_set m = [] then a else f (input_set m))"
  by (auto simp: input_set_def tf_index_def as_set_def split: option.splits tfval.splits)

lemma items_CookieNames:
  "expandCookieNames e (Some m) =
     Some (if input_set m = [] then no_items
           else counted (Some (ExpandStringSet e (input_set m))))"
  by (simp add: expandCookieNames_def items_of_set counted_def slice_len_def Let_def)

lemma items_Headers:
  "expandHeaders e (Some m) =
     Some (if input_set m = [] then no_items
           else counted (Some (ExpandStringSet e (input_set m))))"
  by (simp add: expandHeaders_def items_of_set counted_def slice_len_def Let_def)

lemma items_QueryStringNames:
  "expandQueryStringNames e (Some m) =
     Some (if input_set m = [] then no_items
           else counted (Some (ExpandStringSet e (input_set m))))"
  by (simp add: expandQueryStringNames_def items_of_set counted_def slice_len_def Let_def)

lemma items_AllowHeaders:
  "expandResponseHeadersPolicyAccessControlAllowHeaders e (Some m) =
     Some (if input_set m = [] then no_items
           else counted (Some (ExpandStringValueSet e (input_set m))))"
  by (simp add: expandResponseHeadersPolicyAccessControlAllowHeaders_def items_of_set
        counted_def slice_len_def Let_def)

lemma items_AllowMethods:
  "expandResponseHeadersPolicyAccessControlAllowMethods e (Some m) =
     Some (if input_set m = [] then no_items
           else counted (Some (ExpandStringValueSet e (input_set m))))"
  by (simp add: expandResponseHeadersPolicyAccessControlAllowMethods_def items_of_set
        counted_def slice_len_def Let_def foldl_snoc_id)

lemma items_AllowOrigins:
  "expandResponseHeadersPolicyAccessControlAllowOrigins e (Some m) =
     Some (if input_set m = [] then no_items
           else counted (Some (ExpandStringValueSet e (input_set m))))"
  by (simp add: expandResponseHeadersPolicyAccessControlAllowOrigins_def items_of_set
        counted_def slice_len_def Let_def)

lemma items_ExposeHeaders:
  "expandResponseHeadersPolicyAccessControlExposeHeaders e (Some m) =
     Some (if input_set m = [] then no_items
           else counted (Some (ExpandStringValueSet e (input_set m))))"
  by (simp add: expandResponseHeadersPolicyAccessControlExposeHeaders_def items_of_set
        counted_def slice_len_def Let_def)

lemma custom_loop_blocks:
  "expandResponseHeadersPolicyCustomHeaders_loop xs acc =
     (if blocks xs = [] then acc
      else Some ((case acc of None \<Rightarrow> [] | Some ys \<Rightarrow> ys) @
             map (\<lambda>tf. the (expandResponseHeadersPolicyCustomHeader (Some tf))) (blocks xs)))"
proof (induction xs arbitrary: acc)
  case Nil
  then show ?case by simp
next
  case (Cons x xs)
  show ?case
  proof (cases "\<exists>tf. x = VMap (Some tf)")
    case True
    then obtain tf where x: "x = VMap (Some tf)" by blast
    show ?thesis
      by (simp add: x Cons.IH as_map_def expandResponseHeadersPolicyCustomHeader_def
            slice_append_def split: option.splits)
  next
    case False
    then have b: "blocks (x # xs) = blocks xs"
      by (cases x) (auto split: option.splits)
    from False have "as_map x = None \<or> as_map x = Some None"
      by (cases x) (auto simp: as_map_def)
    then show ?thesis
      by (auto simp: b Cons.IH expandResponseHeadersPolicyCustomHeader_def)
  qed
qed

lemma remove_loop_blocks:
  "expandResponseHeadersPolicyRemoveHeaders_loop xs acc =
     (if blocks xs = [] then acc
      else Some ((case acc of None \<Rightarrow> [] | Some ys \<Rightarrow> ys) @
             map (\<lambda>tf. the (expandResponseHeadersPolicyRemoveHeader (Some tf))) (blocks xs)))"
proof (induction xs arbitrary: acc)
  case Nil
  then show ?case by simp
next
  case (Cons x xs)
  show ?case
  proof (cases "\<exists>tf. x = VMap (Some tf)")
    case True
    then obtain tf where x: "x = VMap (Some tf)" by blast
    show ?thesis
      by (simp add: x Cons.IH as_map_def expandResponseHeadersPolicyRemoveHeader_def
            slice_append_def split: option.splits)
  next
    case False
    then have b: "blocks (x # xs) = blocks xs"
      by (cases x) (auto split: option.splits)
    from False have "as_map x = None \<or> as_map x = Some None"
      by (cases x) (auto simp: as_map_def)
    then show ?thesis
      by (auto simp: b Cons.IH expandResponseHeadersPolicyRemoveHeader_def)
  qed
qed

lemma blocks_of_CustomHeaders:
  "expandResponseHeadersPolicyCustomHeaders xs =
     (if blocks xs = [] then None
      else Some (map (\<lambda>tf. the (expandResponseHeadersPolicyCustomHeader (Some tf))) (blocks xs)))"
  by (cases xs) (simp_all add: expandResponseHeadersPolicyCustomHeaders_def custom_loop_blocks)

lemma blocks_of_RemoveHeaders:
  "expandResponseHeadersPolicyRemoveHeaders xs =
     (if blocks xs = [] then None
      else Some (map (\<lambda>tf. the (expandResponseHeadersPolicyRemoveHeader (Some tf))) (blocks xs)))"
  by (cases xs) (simp_all add: expandResponseHeadersPolicyRemoveHeaders_def remove_loop_blocks)

lemma items_CustomHeadersConfig:
  "expandResponseHeadersPolicyCustomHeadersConfig (Some m) =
     Some (if input_set m = [] then no_items
           else counted (expandResponseHeadersPolicyCustomHeaders (input_set m)))"
  by (simp add: expandResponseHeadersPolicyCustomHeadersConfig_def items_of_set counted_def
        Let_def)

lemma items_RemoveHeadersConfig:
  "expandResponseHeadersPolicyRemoveHeadersConfig (Some m) =
     Some (if input_set m = [] then no_items
           else counted (expandResponseHeadersPolicyRemoveHeaders (input_set m)))"
  by (simp add: expandResponseHeadersPolicyRemoveHeadersConfig_def items_of_set counted_def
        Let_def)

lemma counted_number:
  "slice_len items < 2 ^ 31 \<Longrightarrow>
   map_option sint (Quantity (counted items)) = Some (int (slice_len items))"
  by (simp add: counted_def sint_of_nat_int32)

text \<open>
  C9, as stated, at a set of nested blocks whose only element is nil: the input set is not
  empty, yet \<^verbatim>\<open>Items\<close> is left unset, with \<^verbatim>\<open>Quantity\<close> set to 0. The loops of
  \<^verbatim>\<open>expandResponseHeadersPolicyCustomHeaders\<close> and \<^verbatim>\<open>expandResponseHeadersPolicyRemoveHeaders\<close>
  skip an element that is not a map and append to a nil slice.
\<close>

theorem quantity_is_set_without_items:
  "input_set sample_nil_items = [VNil] \<and>
   expandResponseHeadersPolicyCustomHeadersConfig (Some sample_nil_items) =
     Some \<lparr>Items = None, Quantity = Some 0\<rparr> \<and>
   expandResponseHeadersPolicyRemoveHeadersConfig (Some sample_nil_items) =
     Some \<lparr>Items = None, Quantity = Some 0\<rparr>"
  by (simp add: sample_nil_items_def input_set_def
        expandResponseHeadersPolicyCustomHeadersConfig_def
        expandResponseHeadersPolicyRemoveHeadersConfig_def
        expandResponseHeadersPolicyCustomHeaders_def
        expandResponseHeadersPolicyRemoveHeaders_def tf_index_def as_set_def as_map_def
        slice_len_def)

text \<open>
  C9, amended. In every object with \<^verbatim>\<open>Items\<close> and \<^verbatim>\<open>Quantity\<close> that an expander builds,
  \<^verbatim>\<open>Quantity\<close> is the length of \<^verbatim>\<open>Items\<close> (as an \<^verbatim>\<open>int32\<close>, and the same number below
  \<open>2 ^ 31\<close> items) whenever the input set is not empty, and both are left unset when the set
  is missing or empty. From a set of strings that is not empty, \<^verbatim>\<open>Items\<close> is the slice that
  \<^verbatim>\<open>flex.ExpandStringSet\<close> or \<^verbatim>\<open>flex.ExpandStringValueSet\<close> makes of its elements, and it
  is set. From a set of nested blocks that is not empty, \<^verbatim>\<open>Items\<close> holds the expansions of
  the elements that are non-nil maps, in order, and is left unset if there is none, with
  \<^verbatim>\<open>Quantity\<close> set to 0.
\<close>

theorem quantity_is_length_of_items:
  "expandCookieNames e (Some m) =
     Some (if input_set m = [] then no_items
           else counted (Some (ExpandStringSet e (input_set m)))) \<and>
   expandHeaders e (Some m) =
     Some (if input_set m = [] then no_items
           else counted (Some (ExpandStringSet e (input_set m)))) \<and>
   expandQueryStringNames e (Some m) =
     Some (if input_set m = [] then no_items
           else counted (Some (ExpandStringSet e (input_set m)))) \<and>
   expandResponseHeadersPolicyAccessControlAllowHeaders e (Some m) =
     Some (if input_set m = [] then no_items
           else counted (Some (ExpandStringValueSet e (input_set m)))) \<and>
   expandResponseHeadersPolicyAccessControlAllowMethods e (Some m) =
     Some (if input_set m = [] then no_items
           else counted (Some (ExpandStringValueSet e (input_set m)))) \<and>
   expandResponseHeadersPolicyAccessControlAllowOrigins e (Some m) =
     Some (if input_set m = [] then no_items
           else counted (Some (ExpandStringValueSet e (input_set m)))) \<and>
   expandResponseHeadersPolicyAccessControlExposeHeaders e (Some m) =
     Some (if input_set m = [] then no_items
           else counted (Some (ExpandStringValueSet e (input_set m)))) \<and>
   expandResponseHeadersPolicyCustomHeadersConfig (Some m) =
     Some (if input_set m = [] then no_items
           else counted
             (if blocks (input_set m) = [] then None
              else Some (map (\<lambda>tf. the (expandResponseHeadersPolicyCustomHeader (Some tf)))
                          (blocks (input_set m))))) \<and>
   expandResponseHeadersPolicyRemoveHeadersConfig (Some m) =
     Some (if input_set m = [] then no_items
           else counted
             (if blocks (input_set m) = [] then None
              else Some (map (\<lambda>tf. the (expandResponseHeadersPolicyRemoveHeader (Some tf)))
                          (blocks (input_set m))))) \<and>
   Items (counted items) = items \<and>
   Quantity (counted items) = Some (of_nat (slice_len items)) \<and>
   (slice_len items < 2 ^ 31 \<longrightarrow>
      map_option sint (Quantity (counted items)) = Some (int (slice_len items))) \<and>
   Items (no_items :: 'a ItemsQuantity) = None \<and>
   Quantity (no_items :: 'a ItemsQuantity) = None"
  by (simp add: items_CookieNames items_Headers items_QueryStringNames items_AllowHeaders
        items_AllowMethods items_AllowOrigins items_ExposeHeaders items_CustomHeadersConfig
        items_RemoveHeadersConfig blocks_of_CustomHeaders blocks_of_RemoveHeaders
        counted_number)
     (simp add: counted_def no_items_def)

theorem quantity_is_length_of_items_witness:
  "input_set sample_block_items = [VMap (Some sample_custom_header)] \<and>
   expandResponseHeadersPolicyRemoveHeadersConfig (Some sample_block_items) =
     Some \<lparr>Items = Some [\<lparr>rh_Header = Some ''X-Frame''\<rparr>], Quantity = Some 1\<rparr> \<and>
   input_set sample_string_items = [VString ''a'', VString ''b''] \<and>
   expandCookieNames sample_env (Some sample_string_items) =
     Some \<lparr>Items = Some [''a'', ''b''], Quantity = Some 2\<rparr> \<and>
   slice_len (Some [''a'', ''b'']) < 2 ^ 31 \<and>
   map_option sint (Quantity (counted (Some [''a'', ''b'']))) = Some 2"
proof -
  have b: "input_set sample_block_items = [VMap (Some sample_custom_header)]"
    by (simp add: input_set_def sample_block_items_def)
  have s: "input_set sample_string_items = [VString ''a'', VString ''b'']"
    by (simp add: input_set_def sample_string_items_def)
  have h: "expandResponseHeadersPolicyRemoveHeader (Some sample_custom_header) =
      Some \<lparr>rh_Header = Some ''X-Frame''\<rparr>"
    by (simp add: expandResponseHeadersPolicyRemoveHeader_def sample_custom_header_def
          tf_index_def nonempty_string_def as_string_def)
  have x: "ExpandStringSet sample_env = nonempty_strings"
    by (simp add: sample_env_def)
  note t = quantity_is_length_of_items
     [where e = sample_env and items = "Some [''a'', ''b'']"]
  from t [where m = sample_block_items,
       THEN conjunct2, THEN conjunct2, THEN conjunct2, THEN conjunct2, THEN conjunct2,
       THEN conjunct2, THEN conjunct2, THEN conjunct2, THEN conjunct1]
    t [where m = sample_string_items, THEN conjunct1]
    t [where m = sample_string_items,
       THEN conjunct2, THEN conjunct2, THEN conjunct2, THEN conjunct2, THEN conjunct2,
       THEN conjunct2, THEN conjunct2, THEN conjunct2, THEN conjunct2, THEN conjunct2,
       THEN conjunct2, THEN conjunct1]
  show ?thesis
    by (simp add: b s h x counted_def slice_len_def)
qed

section \<open>Handlers: results and logs\<close>

lemma IsA_Some:
  "IsAErrorMessageContains_InvalidInput (Some err) ''not found'' = is_invalid_input_not_found err"
  by (simp add: IsAErrorMessageContains_InvalidInput_def is_invalid_input_not_found_def
      split: error.splits)

lemma IsA_None: "IsAErrorMessageContains_InvalidInput None needle = False"
  by (simp add: IsAErrorMessageContains_InvalidInput_def)

lemmas run_simps = returned_def panicked_def after_calls_def finish_def with_client_def
  returns_success_def returns_error_def has_error_def

lemma rd_IsNewResource_SetId [simp]: "rd_IsNewResource (SetId x d) = rd_IsNewResource d"
  by (simp add: SetId_def)

lemma rd_Id_SetId [simp]: "rd_Id (SetId x d) = x"
  by (simp add: SetId_def)

lemma public_key_read_panicked: "resourcePublicKeyRead m e d = panicked d []"
  by (simp add: resourcePublicKeyRead_def with_client_def findPublicKeyByID_def split: meta.splits)

section \<open>Delete handlers\<close>

lemma delete_CachePolicy:
  "delete_spec (DeleteCachePolicy conn (rd_Id d) (GetString d ''etag''))
     (resourceCachePolicyDelete (AWSClient conn) e d)"
  by (simp add: delete_spec_def resourceCachePolicyDelete_def run_simps IsA_Some IsA_None Let_def
      split: option.splits)

lemma delete_PublicKey:
  "delete_spec (DeletePublicKey conn (rd_Id d) (GetString d ''etag''))
     (resourcePublicKeyDelete (AWSClient conn) e d)"
  by (simp add: delete_spec_def resourcePublicKeyDelete_def run_simps IsA_Some IsA_None Let_def
      split: option.splits)

lemma delete_MonitoringSubscription:
  "delete_spec (DeleteMonitoringSubscription conn (rd_Id d))
     (resourceMonitoringSubscriptionDelete (AWSClient conn) e d)"
  by (simp add: delete_spec_def resourceMonitoringSubscriptionDelete_def run_simps IsA_Some
      IsA_None Let_def split: option.splits)

lemma delete_OriginRequestPolicy:
  "delete_spec (DeleteOriginRequestPolicy conn (rd_Id d) (GetString d ''etag''))
     (resourceOriginRequestPolicyDelete (AWSClient conn) e d)"
  by (simp add: delete_spec_def resourceOriginRequestPolicyDelete_def run_simps IsA_Some IsA_None
      Let_def split: option.splits)

lemma delete_Function:
  "delete_spec (DeleteFunction conn (rd_Id d) (GetString d ''etag''))
     (resourceFunctionDelete (AWSClient conn) e d)"
  by (simp add: delete_spec_def resourceFunctionDelete_def run_simps IsA_Some IsA_None Let_def
      split: option.splits)

lemma delete_ResponseHeadersPolicy:
  "delete_spec (DeleteResponseHeadersPolicy conn (rd_Id d) (GetString d ''etag''))
     (resourceResponseHeadersPolicyDelete (AWSClient conn) e d)"
  by (simp add: delete_spec_def resourceResponseHeadersPolicyDelete_def run_simps IsA_Some
      IsA_None Let_def split: option.splits)

text \<open>
  C2. Every delete handler returns no diagnostics when the remote delete call returns an
  \<^verbatim>\<open>InvalidInput\<close> error whose message contains "not found", an error diagnostic for every
  other error, and no diagnostics when the call returns no error (\<open>delete_spec\<close>, applied
  to what the resource's delete endpoint answers to the handler's request).
\<close>

theorem delete_treats_not_found_as_success:
  "delete_spec (DeleteCachePolicy conn (rd_Id d) (GetString d ''etag''))
     (resourceCachePolicyDelete (AWSClient conn) e d) \<and>
   delete_spec (DeletePublicKey conn (rd_Id d) (GetString d ''etag''))
     (resourcePublicKeyDelete (AWSClient conn) e d) \<and>
   delete_spec (DeleteMonitoringSubscription conn (rd_Id d))
     (resourceMonitoringSubscriptionDelete (AWSClient conn) e d) \<and>
   delete_spec (DeleteOriginRequestPolicy conn (rd_Id d) (GetString d ''etag''))
     (resourceOriginRequestPolicyDelete (AWSClient conn) e d) \<and>
   delete_spec (DeleteFunction conn (rd_Id d) (GetString d ''etag''))
     (resourceFunctionDelete (AWSClient conn) e d) \<and>
   delete_spec (DeleteResponseHeadersPolicy conn (rd_Id d) (GetString d ''etag''))
     (resourceResponseHeadersPolicyDelete (AWSClient conn) e d)"
  by (simp add: delete_CachePolicy delete_PublicKey delete_MonitoringSubscription
        delete_OriginRequestPolicy delete_Function delete_ResponseHeadersPolicy)

lemma delete_fails_simps:
  "DeleteCachePolicy (delete_fails err) i ifMatch = Some err"
  "DeleteMonitoringSubscription (delete_fails err) i = Some err"
  "DeleteFunction (delete_fails err) i ifMatch = Some err"
  "DeleteCachePolicy sample_conn i ifMatch = None"
  "DeleteMonitoringSubscription sample_conn i = None"
  "DeleteFunction sample_conn i ifMatch = None"
  by (simp_all add: delete_fails_def sample_conn_def)

theorem delete_treats_not_found_as_success_witness:
  "returns_success (resourceCachePolicyDelete (AWSClient (delete_fails (InvalidInput ''not found'')))
     sample_env sample_data) \<and>
   returns_success (resourceMonitoringSubscriptionDelete
     (AWSClient (delete_fails (InvalidInput ''key not found''))) sample_env sample_data) \<and>
   returns_error (resourceCachePolicyDelete (AWSClient (delete_fails (OtherError ''AccessDenied'')))
     sample_env sample_data) \<and>
   returns_error (resourceFunctionDelete (AWSClient (delete_fails (InvalidInput ''malformed'')))
     sample_env sample_data) \<and>
   returns_success (resourceFunctionDelete (AWSClient sample_conn) sample_env sample_data)"
  using delete_treats_not_found_as_success
          [of "delete_fails (InvalidInput ''not found'')" sample_data sample_env]
        delete_treats_not_found_as_success
          [of "delete_fails (InvalidInput ''key not found'')" sample_data sample_env]
        delete_treats_not_found_as_success
          [of "delete_fails (OtherError ''AccessDenied'')" sample_data sample_env]
        delete_treats_not_found_as_success
          [of "delete_fails (InvalidInput ''malformed'')" sample_data sample_env]
        delete_treats_not_found_as_success [of sample_conn sample_data sample_env]
  by (simp add: delete_spec_def delete_fails_simps is_invalid_input_not_found_def)

section \<open>No call after a failed call\<close>

lemma no_retry_after_calls:
  assumes "list_all (\<lambda>ce. snd ce = None) cs" "no_retry_spec new r"
  shows "no_retry_spec new (after_calls cs r)"
proof (cases "calls r = []")
  case True
  then have "calls (after_calls cs r) = cs" by (simp add: after_calls_def)
  moreover have "cs \<noteq> [] \<Longrightarrow> snd (last cs) = None"
    using assms(1) by (simp add: list_all_iff)
  moreover have "list_all (\<lambda>ce. snd ce = None) (butlast cs)"
    using assms(1) by (auto simp: list_all_iff dest: in_set_butlastD)
  ultimately show ?thesis by (auto simp: no_retry_spec_def)
next
  case False
  then have "butlast (calls (after_calls cs r)) = cs @ butlast (calls r)"
    and "last (calls (after_calls cs r)) = last (calls r)"
    by (simp_all add: after_calls_def butlast_append)
  moreover have "returns_error (after_calls cs r) = returns_error r"
    by (simp add: after_calls_def returns_error_def)
  ultimately show ?thesis
    using assms False by (simp add: no_retry_spec_def after_calls_def)
qed

lemma no_retry_all_ok:
  "list_all (\<lambda>ce. snd ce = None) (calls r) \<Longrightarrow> no_retry_spec new r"
  by (cases "calls r" rule: rev_cases)
     (auto simp: no_retry_spec_def list_all_iff dest: in_set_butlastD)

lemma no_retry_returned_ok [simp]:
  "list_all (\<lambda>ce. snd ce = None) cs \<Longrightarrow> no_retry_spec new (returned d cs diags)"
  by (rule no_retry_all_ok) (simp add: returned_def)

lemma no_retry_panicked_ok [simp]:
  "list_all (\<lambda>ce. snd ce = None) cs \<Longrightarrow> no_retry_spec new (panicked d cs)"
  by (rule no_retry_all_ok) (simp add: panicked_def)

lemma no_retry_finish_ok [simp]:
  "list_all (\<lambda>ce. snd ce = None) cs \<Longrightarrow> no_retry_spec new (finish cs x)"
  by (simp add: finish_def)

lemma no_retry_returned_error:
  "list_all (\<lambda>ce. snd ce = None) cs \<Longrightarrow>
   no_retry_spec new (returned d (cs @ [(c, err)]) (x # xs))"
  by (simp add: no_retry_spec_def returned_def returns_error_def has_error_def)

lemma no_retry_returned_error1 [simp]:
  "no_retry_spec new (returned d [(c, err)] (x # xs))"
  using no_retry_returned_error [of "[]"] by simp

lemma no_retry_returned_error2 [simp]:
  "no_retry_spec new (returned d [(c1, None), (c, err)] (x # xs))"
  using no_retry_returned_error [of "[(c1, None)]"] by simp

lemma no_retry_returned_error3 [simp]:
  "no_retry_spec new (returned d [(c1, None), (c2, None), (c, err)] (x # xs))"
  using no_retry_returned_error [of "[(c1, None), (c2, None)]"] by simp

lemma no_retry_returned_tolerated:
  "tolerated new (c, err) \<Longrightarrow> list_all (\<lambda>ce. snd ce = None) cs \<Longrightarrow>
   no_retry_spec new (returned d (cs @ [(c, err)]) diags)"
  by (simp add: no_retry_spec_def returned_def)

lemma no_retry_after_ok [simp]:
  "no_retry_spec new r \<Longrightarrow> no_retry_spec new (after_calls [(c, None)] r)"
  by (rule no_retry_after_calls) simp_all

lemma no_retry_after_ok2 [simp]:
  "no_retry_spec new r \<Longrightarrow> no_retry_spec new (after_calls [(c, None), (c', None)] r)"
  by (rule no_retry_after_calls) simp_all

lemma no_retry_CachePolicyRead:
  "no_retry_spec (rd_IsNewResource d) (resourceCachePolicyRead m e d)"
proof (cases m)
  case (AWSClient conn)
  show ?thesis
  proof (cases "FindCachePolicyByID conn (rd_Id d)")
    case (Inl err)
    show ?thesis
    proof (cases "\<not> rd_IsNewResource d \<and> NotFound (Some err)")
      case True
      then have "tolerated (rd_IsNewResource d) (CallFindCachePolicyByID (rd_Id d), Some err)"
        by (simp add: tolerated_def)
      from no_retry_returned_tolerated [OF this, of "[]"] True Inl show ?thesis
        by (simp add: AWSClient resourceCachePolicyRead_def with_client_def Let_def)
    next
      case False
      with Inl show ?thesis
        by (auto simp add: AWSClient resourceCachePolicyRead_def with_client_def Let_def)
    qed
  next
    case (Inr out)
    then show ?thesis
      by (simp add: AWSClient resourceCachePolicyRead_def with_client_def Let_def)
  qed
next
  case (CloudFrontClient c)
  then show ?thesis by (simp add: resourceCachePolicyRead_def with_client_def)
qed

lemma no_retry_CachePolicyRead_SetId:
  "no_retry_spec (rd_IsNewResource d) (resourceCachePolicyRead m e (SetId x d))"
  using no_retry_CachePolicyRead [of "SetId x d"] by simp

lemma no_retry_CachePolicyCreate:
  "no_retry_spec (rd_IsNewResource d) (resourceCachePolicyCreate m e d)"
  by (cases m)
     (simp_all add: resourceCachePolicyCreate_def with_client_def Let_def
        no_retry_CachePolicyRead_SetId split: go.splits sum.splits option.splits)

lemma no_retry_CachePolicyUpdate:
  "no_retry_spec (rd_IsNewResource d) (resourceCachePolicyUpdate m e d)"
  by (cases m)
     (simp_all add: resourceCachePolicyUpdate_def with_client_def Let_def
        no_retry_CachePolicyRead split: go.splits sum.splits option.splits)

lemma no_retry_CachePolicyDelete:
  "no_retry_spec (rd_IsNewResource d) (resourceCachePolicyDelete m e d)"
proof (cases m)
  case (AWSClient conn)
  show ?thesis
    using no_retry_returned_tolerated [of "rd_IsNewResource d"
        "CallDeleteCachePolicy (rd_Id d) (GetString d ''etag'')"
        "DeleteCachePolicy conn (rd_Id d) (GetString d ''etag'')" "[]"]
    by (simp add: AWSClient resourceCachePolicyDelete_def with_client_def Let_def tolerated_def
          split: option.splits)
next
  case (CloudFrontClient c)
  then show ?thesis by (simp add: resourceCachePolicyDelete_def with_client_def)
qed

lemma no_retry_OriginRequestPolicyRead:
  "no_retry_spec (rd_IsNewResource d) (resourceOriginRequestPolicyRead m e d)"
proof (cases m)
  case (AWSClient conn)
  show ?thesis
  proof (cases "FindOriginRequestPolicyByID conn (rd_Id d)")
    case (Inl err)
    show ?thesis
    proof (cases "\<not> rd_IsNewResource d \<and> NotFound (Some err)")
      case True
      then have "tolerated (rd_IsNewResource d) (CallFindOriginRequestPolicyByID (rd_Id d), Some err)"
        by (simp add: tolerated_def)
      from no_retry_returned_tolerated [OF this, of "[]"] True Inl show ?thesis
        by (simp add: AWSClient resourceOriginRequestPolicyRead_def with_client_def Let_def)
    next
      case False
      with Inl show ?thesis
        by (auto simp add: AWSClient resourceOriginRequestPolicyRead_def with_client_def Let_def)
    qed
  next
    case (Inr out)
    then show ?thesis
      by (simp add: AWSClient resourceOriginRequestPolicyRead_def with_client_def Let_def)
  qed
next
  case (CloudFrontClient c)
  then show ?thesis by (simp add: resourceOriginRequestPolicyRead_def with_client_def)
qed

lemma no_retry_OriginRequestPolicyRead_SetId:
  "no_retry_spec (rd_IsNewResource d) (resourceOriginRequestPolicyRead m e (SetId x d))"
  using no_retry_OriginRequestPolicyRead [of "SetId x d"] by simp

lemma no_retry_OriginRequestPolicyCreate:
  "no_retry_spec (rd_IsNewResource d) (resourceOriginRequestPolicyCreate m e d)"
  by (cases m)
     (simp_all add: resourceOriginRequestPolicyCreate_def with_client_def Let_def
        no_retry_OriginRequestPolicyRead_SetId split: go.splits sum.splits option.splits)

lemma no_retry_OriginRequestPolicyUpdate:
  "no_retry_spec (rd_IsNewResource d) (resourceOriginRequestPolicyUpdate m e d)"
  by (cases m)
     (simp_all add: resourceOriginRequestPolicyUpdate_def with_client_def Let_def
        no_retry_OriginRequestPolicyRead split: go.splits sum.splits option.splits)

lemma no_retry_OriginRequestPolicyDelete:
  "no_retry_spec (rd_IsNewResource d) (resourceOriginRequestPolicyDelete m e d)"
proof (cases m)
  case (AWSClient conn)
  show ?thesis
    using no_retry_returned_tolerated [of "rd_IsNewResource d"
        "CallDeleteOriginRequestPolicy (rd_Id d) (GetString d ''etag'')"
        "DeleteOriginRequestPolicy conn (rd_Id d) (GetString d ''etag'')" "[]"]
    by (simp add: AWSClient resourceOriginRequestPolicyDelete_def with_client_def Let_def tolerated_def
          split: option.splits)
next
  case (CloudFrontClient c)
  then show ?thesis by (simp add: resourceOriginRequestPolicyDelete_def with_client_def)
qed

lemma no_retry_ResponseHeadersPolicyRead:
  "no_retry_spec (rd_IsNewResource d) (resourceResponseHeadersPolicyRead m e d)"
proof (cases m)
  case (AWSClient conn)
  show ?thesis
  proof (cases "FindResponseHeadersPolicyByID conn (rd_Id d)")
    case (Inl err)
    show ?thesis
    proof (cases "\<not> rd_IsNewResource d \<and> NotFound (Some err)")
      case True
      then have "tolerated (rd_IsNewResource d) (CallFindResponseHeadersPolicyByID (rd_Id d), Some err)"
        by (simp add: tolerated_def)
      from no_retry_returned_tolerated [OF this, of "[]"] True Inl show ?thesis
        by (simp add: AWSClient resourceResponseHeadersPolicyRead_def with_client_def Let_def)
    next
      case False
      with Inl show ?thesis
        by (auto simp add: AWSClient resourceResponseHeadersPolicyRead_def with_client_def Let_def)
    qed
  next
    case (Inr out)
    then show ?thesis
      by (simp add: AWSClient resourceResponseHeadersPolicyRead_def with_client_def Let_def)
  qed
next
  case (CloudFrontClient c)
  then show ?thesis by (simp add: resourceResponseHeadersPolicyRead_def with_client_def)
qed

lemma no_retry_ResponseHeadersPolicyRead_SetId:
  "no_retry_spec (rd_IsNewResource d) (resourceResponseHeadersPolicyRead m e (SetId x d))"
  using no_retry_ResponseHeadersPolicyRead [of "SetId x d"] by simp

lemma no_retry_ResponseHeadersPolicyCreate:
  "no_retry_spec (rd_IsNewResource d) (resourceResponseHeadersPolicyCreate m e d)"
  by (cases m)
     (simp_all add: resourceResponseHeadersPolicyCreate_def with_client_def Let_def
        no_retry_ResponseHeadersPolicyRead_SetId split: go.splits sum.splits option.splits)

lemma no_retry_ResponseHeadersPolicyUpdate:
  "no_retry_spec (rd_IsNewResource d) (resourceResponseHeadersPolicyUpdate m e d)"
  by (cases m)
     (simp_all add: resourceResponseHeadersPolicyUpdate_def with_client_def Let_def
        no_retry_ResponseHeadersPolicyRead split: go.splits sum.splits option.splits)

lemma no_retry_ResponseHeadersPolicyDelete:
  "no_retry_spec (rd_IsNewResource d) (resourceResponseHeadersPolicyDelete m e d)"
proof (cases m)
  case (AWSClient conn)
  show ?thesis
    using no_retry_returned_tolerated [of "rd_IsNewResource d"
        "CallDeleteResponseHeadersPolicy (rd_Id d) (GetString d ''etag'')"
        "DeleteResponseHeadersPolicy conn (rd_Id d) (GetString d ''etag'')" "[]"]
    by (simp add: AWSClient resourceResponseHeadersPolicyDelete_def with_client_def Let_def tolerated_def
          split: option.splits)
next
  case (CloudFrontClient c)
  then show ?thesis by (simp add: resourceResponseHeadersPolicyDelete_def with_client_def)
qed

lemma no_retry_MonitoringSubscriptionRead:
  "no_retry_spec (rd_IsNewResource d) (resourceMonitoringSubscriptionRead m e d)"
proof (cases m)
  case (AWSClient conn)
  show ?thesis
  proof (cases "FindMonitoringSubscriptionByDistributionID conn (rd_Id d)")
    case (Inl err)
    show ?thesis
    proof (cases "\<not> rd_IsNewResource d \<and> NotFound (Some err)")
      case True
      then have "tolerated (rd_IsNewResource d) (CallFindMonitoringSubscriptionByDistributionID (rd_Id d), Some err)"
        by (simp add: tolerated_def)
      from no_retry_returned_tolerated [OF this, of "[]"] True Inl show ?thesis
        by (simp add: AWSClient resourceMonitoringSubscriptionRead_def with_client_def Let_def)
    next
      case False
      with Inl show ?thesis
        by (auto simp add: AWSClient resourceMonitoringSubscriptionRead_def with_client_def Let_def)
    qed
  next
    case (Inr out)
    then show ?thesis
      by (simp add: AWSClient resourceMonitoringSubscriptionRead_def with_client_def Let_def)
  qed
next
  case (CloudFrontClient c)
  then show ?thesis by (simp add: resourceMonitoringSubscriptionRead_def with_client_def)
qed

lemma no_retry_MonitoringSubscriptionRead_SetId:
  "no_retry_spec (rd_IsNewResource d) (resourceMonitoringSubscriptionRead m e (SetId x d))"
  using no_retry_MonitoringSubscriptionRead [of "SetId x d"] by simp

lemma no_retry_MonitoringSubscriptionCreate:
  "no_retry_spec (rd_IsNewResource d) (resourceMonitoringSubscriptionCreate m e d)"
  by (cases m)
     (simp_all add: resourceMonitoringSubscriptionCreate_def with_client_def Let_def
        no_retry_MonitoringSubscriptionRead_SetId split: go.splits sum.splits option.splits)

lemma no_retry_MonitoringSubscriptionDelete:
  "no_retry_spec (rd_IsNewResource d) (resourceMonitoringSubscriptionDelete m e d)"
proof (cases m)
  case (AWSClient conn)
  show ?thesis
    using no_retry_returned_tolerated [of "rd_IsNewResource d"
        "CallDeleteMonitoringSubscription (rd_Id d)"
        "DeleteMonitoringSubscription conn (rd_Id d)" "[]"]
    by (simp add: AWSClient resourceMonitoringSubscriptionDelete_def with_client_def Let_def tolerated_def
          split: option.splits)
next
  case (CloudFrontClient c)
  then show ?thesis by (simp add: resourceMonitoringSubscriptionDelete_def with_client_def)
qed

lemma no_retry_PublicKeyRead:
  "no_retry_spec (rd_IsNewResource d) (resourcePublicKeyRead m e d)"
  by (simp add: public_key_read_panicked)

lemma no_retry_PublicKeyCreate:
  "no_retry_spec (rd_IsNewResource d) (resourcePublicKeyCreate m e d)"
  by (cases m)
     (simp_all add: resourcePublicKeyCreate_def with_client_def Let_def
        public_key_read_panicked
        split: go.splits sum.splits option.splits)

lemma no_retry_PublicKeyUpdate:
  "no_retry_spec (rd_IsNewResource d) (resourcePublicKeyUpdate m e d)"
  by (cases m)
     (simp_all add: resourcePublicKeyUpdate_def with_client_def Let_def
        public_key_read_panicked
        split: go.splits sum.splits option.splits)

lemma no_retry_PublicKeyDelete:
  "no_retry_spec (rd_IsNewResource d) (resourcePublicKeyDelete m e d)"
proof (cases m)
  case (AWSClient conn)
  show ?thesis
    using no_retry_returned_tolerated [of "rd_IsNewResource d"
        "CallDeletePublicKey (rd_Id d) (GetString d ''etag'')"
        "DeletePublicKey conn (rd_Id d) (GetString d ''etag'')" "[]"]
    by (simp add: AWSClient resourcePublicKeyDelete_def with_client_def Let_def tolerated_def
          split: option.splits)
next
  case (CloudFrontClient c)
  then show ?thesis by (simp add: resourcePublicKeyDelete_def with_client_def)
qed

lemma no_retry_FunctionRead:
  "no_retry_spec (rd_IsNewResource d) (resourceFunctionRead m e d)"
proof (cases m)
  case (AWSClient conn)
  have t1: "no_retry_spec False
      (returned d' [(CallFindFunctionByNameAndStage i FunctionStageDevelopment, Some err)] [])"
    if "NotFound (Some err)" for d' i err
    using no_retry_returned_tolerated [of False
        "CallFindFunctionByNameAndStage i FunctionStageDevelopment" "Some err" "[]"] that
    by (simp add: tolerated_def)
  have t3: "no_retry_spec new
      (returned d' [(c1, None), (c2, None),
         (CallFindFunctionByNameAndStage i FunctionStageLive, Some err)] [])"
    if "NotFound (Some err)" for d' c1 c2 i err new
    using no_retry_returned_tolerated [of new
        "CallFindFunctionByNameAndStage i FunctionStageLive" "Some err" "[(c1, None), (c2, None)]"]
      that
    by (simp add: tolerated_def)
  show ?thesis
    by (auto simp add: AWSClient resourceFunctionRead_def with_client_def Let_def t1 t3
          split: sum.splits)
next
  case (CloudFrontClient c)
  then show ?thesis by (simp add: resourceFunctionRead_def with_client_def)
qed

lemma no_retry_FunctionRead_SetId:
  "no_retry_spec (rd_IsNewResource d) (resourceFunctionRead m e (SetId x d))"
  using no_retry_FunctionRead [of "SetId x d"] by simp

lemma no_retry_FunctionCreate:
  "no_retry_spec (rd_IsNewResource d) (resourceFunctionCreate m e d)"
  by (cases m)
     (simp_all add: resourceFunctionCreate_def with_client_def Let_def
        no_retry_FunctionRead_SetId split: go.splits sum.splits option.splits)

lemma no_retry_publishAndRead:
  "no_retry_spec (rd_IsNewResource d) (publishAndRead m conn e d etag)"
  by (simp add: publishAndRead_def Let_def no_retry_FunctionRead split: option.splits)

lemma no_retry_FunctionUpdate:
  "no_retry_spec (rd_IsNewResource d) (resourceFunctionUpdate m e d)"
  by (cases m)
     (simp_all add: resourceFunctionUpdate_def with_client_def Let_def
        no_retry_publishAndRead split: go.splits sum.splits option.splits)

lemma no_retry_FunctionDelete:
  "no_retry_spec (rd_IsNewResource d) (resourceFunctionDelete m e d)"
proof (cases m)
  case (AWSClient conn)
  show ?thesis
    using no_retry_returned_tolerated [of "rd_IsNewResource d"
        "CallDeleteFunction (rd_Id d) (GetString d ''etag'')"
        "DeleteFunction conn (rd_Id d) (GetString d ''etag'')" "[]"]
    by (simp add: AWSClient resourceFunctionDelete_def with_client_def Let_def tolerated_def
          split: option.splits)
next
  case (CloudFrontClient c)
  then show ?thesis by (simp add: resourceFunctionDelete_def with_client_def)
qed

text \<open>
  C7. No lifecycle handler makes a remote call after a failed one, and a handler whose last
  call failed returns an error diagnostic unless the failure is one of the tolerated
  not-found cases (\<open>no_retry_spec\<close>); this holds of the create, read, update and delete
  handler of every resource, whatever the client answers.
\<close>

theorem no_call_after_a_failed_call:
  "\<forall>handler \<in> set lifecycle_handlers. no_retry_spec (rd_IsNewResource d) (handler m e d)"
  by (simp add: lifecycle_handlers_def
        no_retry_CachePolicyCreate no_retry_CachePolicyRead no_retry_CachePolicyUpdate
        no_retry_CachePolicyDelete
        no_retry_PublicKeyCreate no_retry_PublicKeyRead no_retry_PublicKeyUpdate
        no_retry_PublicKeyDelete
        no_retry_MonitoringSubscriptionCreate no_retry_MonitoringSubscriptionRead
        no_retry_MonitoringSubscriptionDelete
        no_retry_OriginRequestPolicyCreate no_retry_OriginRequestPolicyRead
        no_retry_OriginRequestPolicyUpdate no_retry_OriginRequestPolicyDelete
        no_retry_FunctionCreate no_retry_FunctionRead no_retry_FunctionUpdate
        no_retry_FunctionDelete
        no_retry_ResponseHeadersPolicyCreate no_retry_ResponseHeadersPolicyRead
        no_retry_ResponseHeadersPolicyUpdate no_retry_ResponseHeadersPolicyDelete)

theorem no_call_after_a_failed_call_witness:
  "resourceCachePolicyUpdate \<in> set lifecycle_handlers \<and>
   map snd (calls (resourceCachePolicyUpdate (AWSClient (update_fails (OtherError ''AccessDenied'')))
      sample_env sample_data)) = [Some (OtherError ''AccessDenied'')] \<and>
   returns_error (resourceCachePolicyUpdate (AWSClient (update_fails (OtherError ''AccessDenied'')))
      sample_env sample_data)"
proof -
  let ?r = "resourceCachePolicyUpdate (AWSClient (update_fails (OtherError ''AccessDenied'')))
      sample_env sample_data"
  have mem: "resourceCachePolicyUpdate \<in> set lifecycle_handlers"
    by (simp add: lifecycle_handlers_def)
  have cs: "calls ?r =
      [(CallUpdateCachePolicy
          \<lparr>cp_Comment = None, DefaultTTL = Some 0, MaxTTL = Some 0, MinTTL = Some 0,
           cp_Name = Some ''policy'', cp_ParametersInCacheKeyAndForwardedToOrigin = None\<rparr>
          ''id-1'' ''E1'',
        Some (OtherError ''AccessDenied''))]"
    by (simp add: resourceCachePolicyUpdate_def with_client_def top_block_def GetOk_def
          GetOkString_def GetString_def GetInt_def tf_index_def as_string_def as_int_def
          sample_data_def update_fails_def sample_conn_def returned_def Let_def)
  from no_call_after_a_failed_call [of sample_data
      "AWSClient (update_fails (OtherError ''AccessDenied''))" sample_env] mem
  have "no_retry_spec (rd_IsNewResource sample_data) ?r" by blast
  with cs have "returns_error ?r"
    by (simp add: no_retry_spec_def tolerated_def)
  with mem cs show ?thesis by simp
qed

section \<open>Read handlers and a fetch that reports not-found\<close>

text \<open>
  What the specification says of a read handler whose fetch fails with \<open>err\<close>: for a
  resource that is not new and a not-found error, the identifier is cleared, nothing else
  changes and no diagnostics are returned; otherwise, and so for a new resource, an error
  diagnostic is returned and the resource data is left alone.
\<close>

lemma read_not_found_CachePolicy:
  assumes "FindCachePolicyByID conn (rd_Id d) = Inl err"
  shows "resourceCachePolicyRead (AWSClient conn) e d =
     (if \<not> rd_IsNewResource d \<and> NotFound (Some err)
      then returned (d\<lparr>rd_Id := []\<rparr>) [(CallFindCachePolicyByID (rd_Id d), Some err)] []
      else returned d [(CallFindCachePolicyByID (rd_Id d), Some err)]
             [ErrorDiag ''reading CloudFront Cache Policy (%s): %s'' [rd_Id d] err])"
  using assms by (simp add: resourceCachePolicyRead_def with_client_def Let_def SetId_def)

lemma read_not_found_MonitoringSubscription:
  assumes "FindMonitoringSubscriptionByDistributionID conn (rd_Id d) = Inl err"
  shows "resourceMonitoringSubscriptionRead (AWSClient conn) e d =
     (if \<not> rd_IsNewResource d \<and> NotFound (Some err)
      then returned (d\<lparr>rd_Id := []\<rparr>)
             [(CallFindMonitoringSubscriptionByDistributionID (rd_Id d), Some err)] []
      else returned d [(CallFindMonitoringSubscriptionByDistributionID (rd_Id d), Some err)]
             [ErrorDiag ''reading CloudFront Monitoring Subscription (%s): %s'' [rd_Id d] err])"
  using assms
  by (simp add: resourceMonitoringSubscriptionRead_def with_client_def Let_def SetId_def)

lemma read_not_found_OriginRequestPolicy:
  assumes "FindOriginRequestPolicyByID conn (rd_Id d) = Inl err"
  shows "resourceOriginRequestPolicyRead (AWSClient conn) e d =
     (if \<not> rd_IsNewResource d \<and> NotFound (Some err)
      then returned (d\<lparr>rd_Id := []\<rparr>) [(CallFindOriginRequestPolicyByID (rd_Id d), Some err)] []
      else returned d [(CallFindOriginRequestPolicyByID (rd_Id d), Some err)]
             [ErrorDiag ''reading CloudFront Origin Request Policy (%s): %s'' [rd_Id d] err])"
  using assms by (simp add: resourceOriginRequestPolicyRead_def with_client_def Let_def SetId_def)

lemma read_not_found_Function:
  assumes "FindFunctionByNameAndStage conn (rd_Id d) FunctionStageDevelopment = Inl err"
  shows "resourceFunctionRead (AWSClient conn) e d =
     (if \<not> rd_IsNewResource d \<and> NotFound (Some err)
      then returned (d\<lparr>rd_Id := []\<rparr>)
             [(CallFindFunctionByNameAndStage (rd_Id d) FunctionStageDevelopment, Some err)] []
      else returned d
             [(CallFindFunctionByNameAndStage (rd_Id d) FunctionStageDevelopment, Some err)]
             [ErrorDiag ''reading CloudFront Function (%s) DEVELOPMENT stage: %s'' [rd_Id d] err])"
  using assms by (simp add: resourceFunctionRead_def with_client_def Let_def SetId_def)

lemma read_not_found_ResponseHeadersPolicy:
  assumes "FindResponseHeadersPolicyByID conn (rd_Id d) = Inl err"
  shows "resourceResponseHeadersPolicyRead (AWSClient conn) e d =
     (if \<not> rd_IsNewResource d \<and> NotFound (Some err)
      then returned (d\<lparr>rd_Id := []\<rparr>)
             [(CallFindResponseHeadersPolicyByID (rd_Id d), Some err)] []
      else returned d [(CallFindResponseHeadersPolicyByID (rd_Id d), Some err)]
             [ErrorDiag ''reading CloudFront Response Headers Policy (%s): %s'' [rd_Id d] err])"
  using assms by (simp add: resourceResponseHeadersPolicyRead_def with_client_def Let_def SetId_def)

text \<open>
  \<^verbatim>\<open>findPublicKeyByID\<close> itself turns a missing key into a not-found error when it is given
  the \<^verbatim>\<open>*conns.AWSClient\<close>.
\<close>

lemma findPublicKeyByID_not_found:
  assumes "GetPublicKey conn ident = Inl (InvalidInput message)" "contains message ''not found''"
  shows "\<exists>err cs. findPublicKeyByID (AWSClient conn) ident = Ret (Inl err, cs) \<and> NotFound (Some err)"
  using assms
  by (simp add: findPublicKeyByID_def Let_def IsAErrorMessageContains_InvalidInput_def NotFound_def)

text \<open>
  C10. The read handler of the public key does not do what the claim says: it passes the
  CloudFront client where \<^verbatim>\<open>findPublicKeyByID\<close> asserts a \<^verbatim>\<open>*conns.AWSClient\<close>, so that
  function panics and the handler, on every resource data and whatever the remote API
  would answer, panics without a remote call, with the identifier left as it was.
\<close>

theorem public_key_read_panics_before_the_fetch:
  "findPublicKeyByID (CloudFrontClient conn) ident = Panic \<and>
   resourcePublicKeyRead (AWSClient conn) e d = panicked d [] \<and>
   rd_Id (final (resourcePublicKeyRead (AWSClient conn) e d)) = rd_Id d \<and>
   \<not> returns_success (resourcePublicKeyRead (AWSClient conn) e d)"
  by (simp add: public_key_read_panicked findPublicKeyByID_def panicked_def returns_success_def)

section \<open>Create handlers\<close>

lemma final_after_calls [simp]: "final (after_calls cs r) = final r"
  by (simp add: after_calls_def)

lemma outcome_after_calls [simp]: "outcome (after_calls cs r) = outcome r"
  by (simp add: after_calls_def)

lemma calls_after_calls [simp]: "calls (after_calls cs r) = cs @ calls r"
  by (simp add: after_calls_def)

lemma returns_error_returned [simp]: "returns_error (returned d cs (x # xs))"
  by (simp add: returns_error_def returned_def has_error_def)

lemma final_returned [simp]: "final (returned d cs diags) = d"
  by (simp add: returned_def)

lemma calls_returned [simp]: "calls (returned d cs diags) = cs"
  by (simp add: returned_def)

lemma outcome_returned [simp]: "outcome (returned d cs diags) = Returned diags"
  by (simp add: returned_def)

lemma final_panicked [simp]: "final (panicked d cs) = d"
  by (simp add: panicked_def)

lemma calls_panicked [simp]: "calls (panicked d cs) = cs"
  by (simp add: panicked_def)

lemma outcome_panicked [simp]: "outcome (panicked d cs) = Panicked"
  by (simp add: panicked_def)

lemma create_CachePolicy:
  "top_block d ''parameters_in_cache_key_and_forwarded_to_origin''
     (expandParametersInCacheKeyAndForwardedToOrigin e) = Ret parameters \<Longrightarrow>
   (let config =
          \<lparr>cp_Comment = GetOkString d ''comment'',
           DefaultTTL = Some (GetInt d ''default_ttl''),
           MaxTTL = Some (GetInt d ''max_ttl''),
           MinTTL = Some (GetInt d ''min_ttl''),
           cp_Name = Some (GetString d ''name''),
           cp_ParametersInCacheKeyAndForwardedToOrigin = parameters\<rparr>;
        c = CallCreateCachePolicy config;
        h = resourceCachePolicyCreate (AWSClient conn) e d
    in case CreateCachePolicy conn config of
         Inl err \<Rightarrow> final h = d \<and> calls h = [(c, Some err)] \<and> returns_error h
       | Inr None \<Rightarrow> h = panicked d [(c, None)]
       | Inr (Some created) \<Rightarrow>
           h = after_calls [(c, None)]
                 (resourceCachePolicyRead (AWSClient conn) e (SetId (ToString (Id created)) d)))"
  by (simp add: resourceCachePolicyCreate_def with_client_def Let_def
        split: sum.splits option.splits)

lemma create_CachePolicy_panic:
  "top_block d ''parameters_in_cache_key_and_forwarded_to_origin''
     (expandParametersInCacheKeyAndForwardedToOrigin e) = Panic \<Longrightarrow>
   resourceCachePolicyCreate (AWSClient conn) e d = panicked d []"
  by (simp add: resourceCachePolicyCreate_def with_client_def Let_def)

lemma create_PublicKey:
  "(let config =
          \<lparr>CallerReference =
             (case GetOkString d ''caller_reference'' of
                Some v \<Rightarrow> Some v
              | None \<Rightarrow> Some (UniqueId e)),
           pk_Comment = GetOkString d ''comment'',
           EncodedKey = Some (GetString d ''encoded_key''),
           pk_Name = Some (GenerateName e (GetString d ''name'') (GetString d ''name_prefix''))\<rparr>;
        c = CallCreatePublicKey config;
        h = resourcePublicKeyCreate (AWSClient conn) e d
    in case CreatePublicKey conn config of
         Inl err \<Rightarrow> final h = d \<and> calls h = [(c, Some err)] \<and> returns_error h
       | Inr None \<Rightarrow> h = panicked d [(c, None)]
       | Inr (Some created) \<Rightarrow>
           h = after_calls [(c, None)]
                 (resourcePublicKeyRead (AWSClient conn) e (SetId (ToString (Id created)) d)))"
  by (simp add: resourcePublicKeyCreate_def with_client_def Let_def
        split: sum.splits option.splits)

lemma create_OriginRequestPolicy:
  "top_block d ''cookies_config'' (expandOriginRequestPolicyCookiesConfig e) = Ret cookiesConfig \<Longrightarrow>
   top_block d ''headers_config'' (expandOriginRequestPolicyHeadersConfig e) = Ret headersConfig \<Longrightarrow>
   top_block d ''query_strings_config'' (expandOriginRequestPolicyQueryStringsConfig e) =
     Ret queryStringsConfig \<Longrightarrow>
   (let config =
          \<lparr>orp_Comment = GetOkString d ''comment'',
           orp_CookiesConfig = cookiesConfig,
           orp_HeadersConfig = headersConfig,
           orp_Name = Some (GetString d ''name''),
           orp_QueryStringsConfig = queryStringsConfig\<rparr>;
        c = CallCreateOriginRequestPolicy config;
        h = resourceOriginRequestPolicyCreate (AWSClient conn) e d
    in case CreateOriginRequestPolicy conn config of
         Inl err \<Rightarrow> final h = d \<and> calls h = [(c, Some err)] \<and> returns_error h
       | Inr None \<Rightarrow> h = panicked d [(c, None)]
       | Inr (Some created) \<Rightarrow>
           h = after_calls [(c, None)]
                 (resourceOriginRequestPolicyRead (AWSClient conn) e
                    (SetId (ToString (Id created)) d)))"
  by (simp add: resourceOriginRequestPolicyCreate_def with_client_def Let_def go_bind_def
        split: sum.splits option.splits)

lemma create_OriginRequestPolicy_panic:
  "top_block d ''cookies_config'' (expandOriginRequestPolicyCookiesConfig e) = Panic \<or>
   top_block d ''headers_config'' (expandOriginRequestPolicyHeadersConfig e) = Panic \<or>
   top_block d ''query_strings_config'' (expandOriginRequestPolicyQueryStringsConfig e) = Panic \<Longrightarrow>
   resourceOriginRequestPolicyCreate (AWSClient conn) e d = panicked d []"
  by (auto simp: resourceOriginRequestPolicyCreate_def with_client_def Let_def go_bind_def
        split: go.splits)

lemma create_ResponseHeadersPolicy:
  "responseHeadersPolicyConfig e d (GetString d ''name'') = Ret config \<Longrightarrow>
   (let c = CallCreateResponseHeadersPolicy config;
        h = resourceResponseHeadersPolicyCreate (AWSClient conn) e d
    in case CreateResponseHeadersPolicy conn config of
         Inl err \<Rightarrow> final h = d \<and> calls h = [(c, Some err)] \<and> returns_error h
       | Inr None \<Rightarrow> h = panicked d [(c, None)]
       | Inr (Some created) \<Rightarrow>
           h = after_calls [(c, None)]
                 (resourceResponseHeadersPolicyRead (AWSClient conn) e
                    (SetId (ToString (Id created)) d)))"
  by (simp add: resourceResponseHeadersPolicyCreate_def with_client_def Let_def
        split: sum.splits option.splits)

lemma create_ResponseHeadersPolicy_panic:
  "responseHeadersPolicyConfig e d (GetString d ''name'') = Panic \<Longrightarrow>
   resourceResponseHeadersPolicyCreate (AWSClient conn) e d = panicked d []"
  by (simp add: resourceResponseHeadersPolicyCreate_def with_client_def Let_def)

lemma GetBool_SetId: "GetBool (SetId x d) key = GetBool d key"
  by (simp add: GetBool_def SetId_def)

lemma create_Function:
  "(let config = \<lparr>fn_Comment = Some (GetString d ''comment''), Runtime = GetString d ''runtime''\<rparr>;
        c = CallCreateFunction (GetString d ''code'') config (GetString d ''name'');
        h = resourceFunctionCreate (AWSClient conn) e d
    in case CreateFunction conn (GetString d ''code'') config (GetString d ''name'') of
         Inl err \<Rightarrow> final h = d \<and> calls h = [(c, Some err)] \<and> returns_error h
       | Inr out \<Rightarrow>
           (case cf_FunctionSummary out of
              None \<Rightarrow> h = panicked d [(c, None)]
            | Some summary \<Rightarrow>
                (let ident = ToString (fs_Name summary); p = CallPublishFunction ident (cf_ETag out)
                 in if GetBool d ''publish''
                    then (case PublishFunction conn ident (cf_ETag out) of
                            Some err \<Rightarrow>
                              final h = SetId ident d \<and> calls h = [(c, None), (p, Some err)] \<and>
                              returns_error h
                          | None \<Rightarrow>
                              h = after_calls [(c, None), (p, None)]
                                    (resourceFunctionRead (AWSClient conn) e (SetId ident d)))
                    else h = after_calls [(c, None)]
                               (resourceFunctionRead (AWSClient conn) e (SetId ident d)))))"
  by (simp add: resourceFunctionCreate_def with_client_def Let_def GetBool_SetId
        split: sum.splits option.splits)

lemma create_MonitoringSubscription:
  "top_block d ''monitoring_subscription'' expandMonitoringSubscription = Ret subscription \<Longrightarrow>
   (let ident = GetString d ''distribution_id'';
        c = CallCreateMonitoringSubscription ident subscription;
        h = resourceMonitoringSubscriptionCreate (AWSClient conn) e d
    in case CreateMonitoringSubscription conn ident subscription of
         Some err \<Rightarrow> final h = d \<and> calls h = [(c, Some err)] \<and> returns_error h
       | None \<Rightarrow>
           h = after_calls [(c, None)]
                 (resourceMonitoringSubscriptionRead (AWSClient conn) e (SetId ident d)))"
  by (simp add: resourceMonitoringSubscriptionCreate_def with_client_def Let_def
        split: option.splits)

lemma create_MonitoringSubscription_panic:
  "top_block d ''monitoring_subscription'' expandMonitoringSubscription = Panic \<Longrightarrow>
   resourceMonitoringSubscriptionCreate (AWSClient conn) e d = panicked d []"
  by (simp add: resourceMonitoringSubscriptionCreate_def with_client_def Let_def)

text \<open>
  C3, as the claim states it, fails for the monitoring subscription: its create call
  returns no identifier that the handler reads, and the identifier stored is the
  \<^verbatim>\<open>distribution_id\<close> of the configuration. Against one client, which answers every create
  call in the same way, two configurations leave two different identifiers.
\<close>

theorem monitoring_subscription_id_is_not_from_the_output:
  "rd_Id (final (resourceMonitoringSubscriptionCreate (AWSClient sample_conn) sample_env
      sample_data)) = ''EDFDVBD6EXAMPLE'' \<and>
   rd_Id (final (resourceMonitoringSubscriptionCreate (AWSClient sample_conn) sample_env
      other_distribution)) = ''E2QWRUHAPOMQZL'' \<and>
   returns_success (resourceMonitoringSubscriptionCreate (AWSClient sample_conn) sample_env
      sample_data) \<and>
   returns_success (resourceMonitoringSubscriptionCreate (AWSClient sample_conn) sample_env
      other_distribution)"
  by (simp add: resourceMonitoringSubscriptionCreate_def resourceMonitoringSubscriptionRead_def
        with_client_def top_block_def GetOk_def GetString_def tf_index_def as_string_def
        sample_data_def other_distribution_def sample_conn_def Let_def SetId_def
        after_calls_def finish_def returned_def set_block_def set_field_def Set_def
        sample_env_def returns_success_def)

text \<open>
  C3, amended. Unless expanding the configuration panics, each create handler first calls
  its create endpoint, once, with the configuration built from the resource data. If the
  call fails, the handler makes no other call, leaves the resource data as it was (no
  identifier is stored) and returns an error diagnostic. If it succeeds, the handler of the
  cache policy, the public key, the origin request policy and the response headers policy
  goes on as the read handler does on the resource data in which \<^verbatim>\<open>d.SetId\<close> has stored
  the \<^verbatim>\<open>Id\<close> of the created object in the call's output; the function's handler stores the
  \<^verbatim>\<open>Name\<close> of the summary in the output, then publishes if \<^verbatim>\<open>publish\<close> is set (returning
  an error diagnostic, with the identifier stored, if that fails) and goes on as the read
  handler does. The monitoring subscription's handler stores the configured
  \<^verbatim>\<open>distribution_id\<close> instead, and then goes on as the read handler does. A successful
  call whose output holds no created object makes the handler panic.
\<close>

theorem create_stores_the_identifier_before_the_read:
  "(top_block d ''parameters_in_cache_key_and_forwarded_to_origin''
       (expandParametersInCacheKeyAndForwardedToOrigin e) = Ret parameters \<longrightarrow>
    (let config =
           \<lparr>cp_Comment = GetOkString d ''comment'',
            DefaultTTL = Some (GetInt d ''default_ttl''),
            MaxTTL = Some (GetInt d ''max_ttl''),
            MinTTL = Some (GetInt d ''min_ttl''),
            cp_Name = Some (GetString d ''name''),
            cp_ParametersInCacheKeyAndForwardedToOrigin = parameters\<rparr>;
         c = CallCreateCachePolicy config;
         h = resourceCachePolicyCreate (AWSClient conn) e d
     in case CreateCachePolicy conn config of
          Inl err \<Rightarrow> final h = d \<and> calls h = [(c, Some err)] \<and> returns_error h
        | Inr None \<Rightarrow> h = panicked d [(c, None)]
        | Inr (Some created) \<Rightarrow>
            h = after_calls [(c, None)]
                  (resourceCachePolicyRead (AWSClient conn) e (SetId (ToString (Id created)) d)))) \<and>
   (top_block d ''parameters_in_cache_key_and_forwarded_to_origin''
       (expandParametersInCacheKeyAndForwardedToOrigin e) = Panic \<longrightarrow>
    resourceCachePolicyCreate (AWSClient conn) e d = panicked d []) \<and>
   (let config =
          \<lparr>CallerReference =
             (case GetOkString d ''caller_reference'' of
                Some v \<Rightarrow> Some v
              | None \<Rightarrow> Some (UniqueId e)),
           pk_Comment = GetOkString d ''comment'',
           EncodedKey = Some (GetString d ''encoded_key''),
           pk_Name = Some (GenerateName e (GetString d ''name'') (GetString d ''name_prefix''))\<rparr>;
        c = CallCreatePublicKey config;
        h = resourcePublicKeyCreate (AWSClient conn) e d
    in case CreatePublicKey conn config of
         Inl err \<Rightarrow> final h = d \<and> calls h = [(c, Some err)] \<and> returns_error h
       | Inr None \<Rightarrow> h = panicked d [(c, None)]
       | Inr (Some created) \<Rightarrow>
           h = after_calls [(c, None)]
                 (resourcePublicKeyRead (AWSClient conn) e (SetId (ToString (Id created)) d))) \<and>
   (top_block d ''cookies_config'' (expandOriginRequestPolicyCookiesConfig e) = Ret cookiesConfig \<and>
    top_block d ''headers_config'' (expandOriginRequestPolicyHeadersConfig e) = Ret headersConfig \<and>
    top_block d ''query_strings_config'' (expandOriginRequestPolicyQueryStringsConfig e) =
       Ret queryStringsConfig \<longrightarrow>
    (let config =
           \<lparr>orp_Comment = GetOkString d ''comment'',
            orp_CookiesConfig = cookiesConfig,
            orp_HeadersConfig = headersConfig,
            orp_Name = Some (GetString d ''name''),
            orp_QueryStringsConfig = queryStringsConfig\<rparr>;
         c = CallCreateOriginRequestPolicy config;
         h = resourceOriginRequestPolicyCreate (AWSClient conn) e d
     in case CreateOriginRequestPolicy conn config of
          Inl err \<Rightarrow> final h = d \<and> calls h = [(c, Some err)] \<and> returns_error h
        | Inr None \<Rightarrow> h = panicked d [(c, None)]
        | Inr (Some created) \<Rightarrow>
            h = after_calls [(c, None)]
                  (resourceOriginRequestPolicyRead (AWSClient conn) e
                     (SetId (ToString (Id created)) d)))) \<and>
   (top_block d ''cookies_config'' (expandOriginRequestPolicyCookiesConfig e) = Panic \<or>
    top_block d ''headers_config'' (expandOriginRequestPolicyHeadersConfig e) = Panic \<or>
    top_block d ''query_strings_config'' (expandOriginRequestPolicyQueryStringsConfig e) = Panic \<longrightarrow>
    resourceOriginRequestPolicyCreate (AWSClient conn) e d = panicked d []) \<and>
   (responseHeadersPolicyConfig e d (GetString d ''name'') = Ret config \<longrightarrow>
    (let c = CallCreateResponseHeadersPolicy config;
         h = resourceResponseHeadersPolicyCreate (AWSClient conn) e d
     in case CreateResponseHeadersPolicy conn config of
          Inl err \<Rightarrow> final h = d \<and> calls h = [(c, Some err)] \<and> returns_error h
        | Inr None \<Rightarrow> h = panicked d [(c, None)]
        | Inr (Some created) \<Rightarrow>
            h = after_calls [(c, None)]
                  (resourceResponseHeadersPolicyRead (AWSClient conn) e
                     (SetId (ToString (Id created)) d)))) \<and>
   (responseHeadersPolicyConfig e d (GetString d ''name'') = Panic \<longrightarrow>
    resourceResponseHeadersPolicyCreate (AWSClient conn) e d = panicked d []) \<and>
   (let config = \<lparr>fn_Comment = Some (GetString d ''comment''), Runtime = GetString d ''runtime''\<rparr>;
        c = CallCreateFunction (GetString d ''code'') config (GetString d ''name'');
        h = resourceFunctionCreate (AWSClient conn) e d
    in case CreateFunction conn (GetString d ''code'') config (GetString d ''name'') of
         Inl err \<Rightarrow> final h = d \<and> calls h = [(c, Some err)] \<and> returns_error h
       | Inr out \<Rightarrow>
           (case cf_FunctionSummary out of
              None \<Rightarrow> h = panicked d [(c, None)]
            | Some summary \<Rightarrow>
                (let ident = ToString (fs_Name summary); p = CallPublishFunction ident (cf_ETag out)
                 in if GetBool d ''publish''
                    then (case PublishFunction conn ident (cf_ETag out) of
                            Some err \<Rightarrow>
                              final h = SetId ident d \<and> calls h = [(c, None), (p, Some err)] \<and>
                              returns_error h
                          | None \<Rightarrow>
                              h = after_calls [(c, None), (p, None)]
                                    (resourceFunctionRead (AWSClient conn) e (SetId ident d)))
                    else h = after_calls [(c, None)]
                               (resourceFunctionRead (AWSClient conn) e (SetId ident d))))) \<and>
   (top_block d ''monitoring_subscription'' expandMonitoringSubscription = Ret subscription \<longrightarrow>
    (let ident = GetString d ''distribution_id'';
         c = CallCreateMonitoringSubscription ident subscription;
         h = resourceMonitoringSubscriptionCreate (AWSClient conn) e d
     in case CreateMonitoringSubscription conn ident subscription of
          Some err \<Rightarrow> final h = d \<and> calls h = [(c, Some err)] \<and> returns_error h
        | None \<Rightarrow>
            h = after_calls [(c, None)]
                  (resourceMonitoringSubscriptionRead (AWSClient conn) e (SetId ident d)))) \<and>
   (top_block d ''monitoring_subscription'' expandMonitoringSubscription = Panic \<longrightarrow>
    resourceMonitoringSubscriptionCreate (AWSClient conn) e d = panicked d [])"
  using create_CachePolicy [where d = d and e = e and conn = conn and parameters = parameters]
    create_CachePolicy_panic [where d = d and e = e and conn = conn]
    create_PublicKey [where d = d and e = e and conn = conn]
    create_OriginRequestPolicy [where d = d and e = e and conn = conn and cookiesConfig = cookiesConfig and headersConfig = headersConfig
       and queryStringsConfig = queryStringsConfig]
    create_OriginRequestPolicy_panic [where d = d and e = e and conn = conn]
    create_ResponseHeadersPolicy [where d = d and e = e and conn = conn and config = config]
    create_ResponseHeadersPolicy_panic [where d = d and e = e and conn = conn]
    create_Function [where d = d and e = e and conn = conn]
    create_MonitoringSubscription [where d = d and e = e and conn = conn and subscription = subscription]
    create_MonitoringSubscription_panic [where d = d and e = e and conn = conn]
  by blast

theorem create_stores_the_identifier_before_the_read_witness:
  "top_block sample_data ''parameters_in_cache_key_and_forwarded_to_origin''
     (expandParametersInCacheKeyAndForwardedToOrigin sample_env) = Ret None \<and>
   CreateCachePolicy sample_conn sample_create_config = Inr (Some \<lparr>Id = Some ''id-1''\<rparr>) \<and>
   resourceCachePolicyCreate (AWSClient sample_conn) sample_env sample_data =
     after_calls [(CallCreateCachePolicy sample_create_config, None)]
       (resourceCachePolicyRead (AWSClient sample_conn) sample_env (SetId ''id-1'' sample_data)) \<and>
   CreateCachePolicy (create_fails (OtherError ''AccessDenied'')) sample_create_config =
     Inl (OtherError ''AccessDenied'') \<and>
   final (resourceCachePolicyCreate (AWSClient (create_fails (OtherError ''AccessDenied'')))
      sample_env sample_data) = sample_data \<and>
   calls (resourceCachePolicyCreate (AWSClient (create_fails (OtherError ''AccessDenied'')))
      sample_env sample_data) =
     [(CallCreateCachePolicy sample_create_config, Some (OtherError ''AccessDenied''))] \<and>
   returns_error (resourceCachePolicyCreate (AWSClient (create_fails (OtherError ''AccessDenied'')))
      sample_env sample_data) \<and>
   resourcePublicKeyCreate (AWSClient sample_conn) sample_env sample_data =
     after_calls
       [(CallCreatePublicKey
           \<lparr>CallerReference = Some ''terraform-0001'', pk_Comment = None,
            EncodedKey = Some [], pk_Name = Some ''policy''\<rparr>, None)]
       (resourcePublicKeyRead (AWSClient sample_conn) sample_env (SetId ''id-1'' sample_data)) \<and>
   top_block sample_data ''cookies_config''
     (expandOriginRequestPolicyCookiesConfig sample_env) = Ret None \<and>
   top_block sample_data ''headers_config''
     (expandOriginRequestPolicyHeadersConfig sample_env) = Ret None \<and>
   top_block sample_data ''query_strings_config''
     (expandOriginRequestPolicyQueryStringsConfig sample_env) = Ret None \<and>
   resourceOriginRequestPolicyCreate (AWSClient sample_conn) sample_env sample_data =
     after_calls
       [(CallCreateOriginRequestPolicy
           \<lparr>orp_Comment = None, orp_CookiesConfig = None, orp_HeadersConfig = None,
            orp_Name = Some ''policy'', orp_QueryStringsConfig = None\<rparr>, None)]
       (resourceOriginRequestPolicyRead (AWSClient sample_conn) sample_env
          (SetId ''id-1'' sample_data)) \<and>
   responseHeadersPolicyConfig sample_env sample_data (GetString sample_data ''name'') =
     Ret \<lparr>rhp_Comment = None, rhp_CorsConfig = None, rhp_CustomHeadersConfig = None,
          rhp_Name = Some ''policy'', rhp_RemoveHeadersConfig = None,
          rhp_SecurityHeadersConfig = None, rhp_ServerTimingHeadersConfig = None\<rparr> \<and>
   resourceResponseHeadersPolicyCreate (AWSClient sample_conn) sample_env sample_data =
     after_calls
       [(CallCreateResponseHeadersPolicy
           \<lparr>rhp_Comment = None, rhp_CorsConfig = None, rhp_CustomHeadersConfig = None,
            rhp_Name = Some ''policy'', rhp_RemoveHeadersConfig = None,
            rhp_SecurityHeadersConfig = None, rhp_ServerTimingHeadersConfig = None\<rparr>, None)]
       (resourceResponseHeadersPolicyRead (AWSClient sample_conn) sample_env
          (SetId ''id-1'' sample_data)) \<and>
   resourceFunctionCreate (AWSClient sample_conn) sample_env sample_data =
     after_calls
       [(CallCreateFunction [] \<lparr>fn_Comment = Some [], Runtime = []\<rparr> ''policy'', None),
        (CallPublishFunction ''f'' (Some ''E1''), None)]
       (resourceFunctionRead (AWSClient sample_conn) sample_env (SetId ''f'' sample_data)) \<and>
   top_block sample_data ''monitoring_subscription'' expandMonitoringSubscription = Ret None \<and>
   CreateMonitoringSubscription sample_conn ''EDFDVBD6EXAMPLE'' None = None \<and>
   resourceMonitoringSubscriptionCreate (AWSClient sample_conn) sample_env sample_data =
     after_calls [(CallCreateMonitoringSubscription ''EDFDVBD6EXAMPLE'' None, None)]
       (resourceMonitoringSubscriptionRead (AWSClient sample_conn) sample_env
          (SetId ''EDFDVBD6EXAMPLE'' sample_data))"
proof -
  have b: "top_block sample_data ''parameters_in_cache_key_and_forwarded_to_origin''
     (expandParametersInCacheKeyAndForwardedToOrigin sample_env) = Ret None"
    "top_block sample_data ''monitoring_subscription'' expandMonitoringSubscription = Ret None"
    "top_block sample_data ''cookies_config''
       (expandOriginRequestPolicyCookiesConfig sample_env) = Ret None"
    "top_block sample_data ''headers_config''
       (expandOriginRequestPolicyHeadersConfig sample_env) = Ret None"
    "top_block sample_data ''query_strings_config''
       (expandOriginRequestPolicyQueryStringsConfig sample_env) = Ret None"
    by (simp_all add: top_block_def GetOk_def sample_data_def)
  have g: "GetOkString sample_data ''comment'' = None"
    "GetOkString sample_data ''caller_reference'' = None"
    "GetInt sample_data ''default_ttl'' = 0"
    "GetInt sample_data ''max_ttl'' = 0"
    "GetInt sample_data ''min_ttl'' = 0"
    "GetString sample_data ''name'' = ''policy''"
    "GetString sample_data ''name_prefix'' = []"
    "GetString sample_data ''encoded_key'' = []"
    "GetString sample_data ''code'' = []"
    "GetString sample_data ''comment'' = []"
    "GetString sample_data ''runtime'' = []"
    "GetString sample_data ''distribution_id'' = ''EDFDVBD6EXAMPLE''"
    "GetBool sample_data ''publish''"
    by (simp_all add: GetOkString_def GetOk_def GetInt_def GetString_def GetBool_def
          sample_data_def tf_index_def as_string_def as_int_def as_bool_def)
  have v: "UniqueId sample_env = ''terraform-0001''"
    "GenerateName sample_env ''policy'' [] = ''policy''"
    by (simp_all add: sample_env_def)
  have r: "responseHeadersPolicyConfig sample_env sample_data ''policy'' =
     Ret \<lparr>rhp_Comment = None, rhp_CorsConfig = None, rhp_CustomHeadersConfig = None,
          rhp_Name = Some ''policy'', rhp_RemoveHeadersConfig = None,
          rhp_SecurityHeadersConfig = None, rhp_ServerTimingHeadersConfig = None\<rparr>"
    by (simp add: responseHeadersPolicyConfig_def top_block_def GetOk_def GetOkString_def
          sample_data_def go_bind_def)
  have ok: "CreateCachePolicy sample_conn c1 = Inr (Some \<lparr>Id = Some ''id-1''\<rparr>)"
    "CreatePublicKey sample_conn c2 = Inr (Some \<lparr>Id = Some ''id-1''\<rparr>)"
    "CreateOriginRequestPolicy sample_conn c3 = Inr (Some \<lparr>Id = Some ''id-1''\<rparr>)"
    "CreateResponseHeadersPolicy sample_conn c4 = Inr (Some \<lparr>Id = Some ''id-1''\<rparr>)"
    "CreateFunction sample_conn code f n =
       Inr \<lparr>cf_ETag = Some ''E1'', cf_FunctionSummary = Some \<lparr>fs_Name = Some ''f''\<rparr>\<rparr>"
    "PublishFunction sample_conn n t = None"
    "CreateMonitoringSubscription sample_conn i s = None" for c1 c2 c3 c4 code f n t i s
    by (simp_all add: sample_conn_def)
  have bad: "CreateCachePolicy (create_fails (OtherError ''AccessDenied'')) c =
      Inl (OtherError ''AccessDenied'')" for c
    by (simp add: create_fails_def sample_conn_def)
  note t = create_stores_the_identifier_before_the_read
     [where d = sample_data and e = sample_env and parameters = None and subscription = None
        and cookiesConfig = None and headersConfig = None and queryStringsConfig = None
        and config =
          "\<lparr>rhp_Comment = None, rhp_CorsConfig = None, rhp_CustomHeadersConfig = None,
            rhp_Name = Some ''policy'', rhp_RemoveHeadersConfig = None,
            rhp_SecurityHeadersConfig = None, rhp_ServerTimingHeadersConfig = None\<rparr>"]
  from t [where conn = sample_conn, THEN conjunct1]
    t [where conn = "create_fails (OtherError ''AccessDenied'')", THEN conjunct1]
    t [where conn = sample_conn, THEN conjunct2, THEN conjunct2, THEN conjunct1]
    t [where conn = sample_conn, THEN conjunct2, THEN conjunct2, THEN conjunct2,
       THEN conjunct1]
    t [where conn = sample_conn, THEN conjunct2, THEN conjunct2, THEN conjunct2,
       THEN conjunct2, THEN conjunct2, THEN conjunct1]
    t [where conn = sample_conn, THEN conjunct2, THEN conjunct2, THEN conjunct2,
       THEN conjunct2, THEN conjunct2, THEN conjunct2, THEN conjunct2, THEN conjunct1]
    t [where conn = sample_conn, THEN conjunct2, THEN conjunct2, THEN conjunct2,
       THEN conjunct2, THEN conjunct2, THEN conjunct2, THEN conjunct2, THEN conjunct2,
       THEN conjunct1]
  show ?thesis
    by (simp add: b g v r ok bad sample_create_config_def ToString_def Let_def)
qed

section \<open>Update handlers\<close>





lemma rd_Id_Set [simp]: "rd_Id (fst (Set e key v d)) = rd_Id d"
  by (simp add: Set_def split: option.splits)

lemma rd_Id_set_field [simp]: "rd_Id (fst (set_field e key v d)) = rd_Id d"
  by (simp add: set_field_def)

lemma rd_Id_set_checked [simp]: "rd_Id (fst (set_checked e key v d)) = rd_Id d"
  by (simp add: set_checked_def Set_def split: option.splits)

lemma rd_Id_set_block [simp]: "rd_Id (fst (set_block e key sub flatten d)) = rd_Id d"
  by (simp add: set_block_def split: option.splits)

lemma rd_Id_run_steps:
  "(\<forall>s \<in> set ss. \<forall>d. rd_Id (fst (s d)) = rd_Id d) \<Longrightarrow> rd_Id (fst (run_steps ss d)) = rd_Id d"
proof (induction ss arbitrary: d)
  case Nil
  then show ?case by simp
next
  case (Cons s ss)
  obtain d' diags where sd: "s d = (d', diags)" by (cases "s d")
  from Cons.prems have "rd_Id (fst (s d)) = rd_Id d" by simp
  with sd have d': "rd_Id d' = rd_Id d" by simp
  show ?case
  proof (cases diags)
    case Nil
    with sd Cons.IH [of d'] Cons.prems d' show ?thesis by simp
  next
    case (Cons x xs)
    with sd d' show ?thesis by simp
  qed
qed

lemma rd_Id_function_steps [simp]:
  "rd_Id (fst (run_steps
      [set_field e k1 v1, set_field e k2 v2, set_field e k3 v3, set_field e k4 v4,
       set_field e k5 v5, set_field e k6 v6] d)) = rd_Id d"
  by (rule rd_Id_run_steps) simp



lemma update_calls_simps [simp]:
  "update_calls (returned d cs diags) = filter is_update_call (map fst cs)"
  "update_calls (panicked d cs) = filter is_update_call (map fst cs)"
  "update_calls (after_calls cs r) = filter is_update_call (map fst cs) @ update_calls r"
  by (simp_all add: update_calls_def)

lemma getters_changed [simp]:
  "GetString (d\<lparr>rd_changed := ch\<rparr>) key = GetString d key"
  "GetInt (d\<lparr>rd_changed := ch\<rparr>) key = GetInt d key"
  "GetBool (d\<lparr>rd_changed := ch\<rparr>) key = GetBool d key"
  "GetOk (d\<lparr>rd_changed := ch\<rparr>) key = GetOk d key"
  "GetOkString (d\<lparr>rd_changed := ch\<rparr>) key = GetOkString d key"
  "top_block (d\<lparr>rd_changed := ch\<rparr>) key expand = top_block d key expand"
  by (simp_all add: GetString_def GetInt_def GetBool_def GetOk_def GetOkString_def top_block_def)









lemma responseHeadersPolicyConfig_changed [simp]:
  "responseHeadersPolicyConfig e (d\<lparr>rd_changed := ch\<rparr>) name = responseHeadersPolicyConfig e d name"
  by (simp add: responseHeadersPolicyConfig_def)










section \<open>Read handlers\<close>

lemma set_field_accepted:
  "SetError e = (\<lambda>key v. None) \<Longrightarrow>
   set_field e key v d = (d\<lparr>rd_state := fmupd key v (rd_state d)\<rparr>, [])"
  by (simp add: set_field_def Set_def)

lemma set_block_accepted:
  "SetError e = (\<lambda>key v. None) \<Longrightarrow>
   set_block e key sub flatten d =
     (d\<lparr>rd_state := fmupd key (block_value sub flatten) (rd_state d)\<rparr>, [])"
  by (simp add: set_block_def set_checked_def set_field_def Set_def block_value_def
        split: option.splits)

lemma block_value_nil: "(block_value sub flatten = VNil) = (sub = None)"
  by (simp add: block_value_def split: option.splits)

lemma block_value_some: "block_value (Some a) flatten = VList [VMap (flatten (Some a))]"
  by (simp add: block_value_def)

lemma read_CachePolicy:
  assumes "FindCachePolicyByID conn (rd_Id d) = Inr out" "SetError e = (\<lambda>key v. None)"
  shows "resourceCachePolicyRead (AWSClient conn) e d =
     returned
       (written (cache_policy_fields out) d)
       [(CallFindCachePolicyByID (rd_Id d), None)] []"
  using assms
  by (simp add: resourceCachePolicyRead_def with_client_def Let_def finish_def written_def
        cache_policy_fields_def set_field_accepted set_block_accepted)

lemma read_OriginRequestPolicy:
  assumes "FindOriginRequestPolicyByID conn (rd_Id d) = Inr out" "SetError e = (\<lambda>key v. None)"
  shows "resourceOriginRequestPolicyRead (AWSClient conn) e d =
     returned
       (written (origin_request_policy_fields out) d)
       [(CallFindOriginRequestPolicyByID (rd_Id d), None)] []"
  using assms
  by (simp add: resourceOriginRequestPolicyRead_def with_client_def Let_def finish_def
        written_def origin_request_policy_fields_def set_field_accepted set_block_accepted)

lemma read_ResponseHeadersPolicy:
  assumes "FindResponseHeadersPolicyByID conn (rd_Id d) = Inr out" "SetError e = (\<lambda>key v. None)"
  shows "resourceResponseHeadersPolicyRead (AWSClient conn) e d =
     returned
       (written (response_headers_policy_fields out) d)
       [(CallFindResponseHeadersPolicyByID (rd_Id d), None)] []"
  using assms
  by (simp add: resourceResponseHeadersPolicyRead_def with_client_def Let_def finish_def
        written_def response_headers_policy_fields_def set_field_accepted set_block_accepted)

lemma read_MonitoringSubscription:
  assumes "FindMonitoringSubscriptionByDistributionID conn (rd_Id d) = Inr out"
    "SetError e = (\<lambda>key v. None)"
  shows "resourceMonitoringSubscriptionRead (AWSClient conn) e d =
     returned
       (written (monitoring_subscription_fields out) d)
       [(CallFindMonitoringSubscriptionByDistributionID (rd_Id d), None)] []"
  using assms
  by (simp add: resourceMonitoringSubscriptionRead_def with_client_def Let_def finish_def
        written_def monitoring_subscription_fields_def set_field_accepted set_block_accepted)

lemma read_Function:
  assumes "FindFunctionByNameAndStage conn (rd_Id d) FunctionStageDevelopment = Inr out"
    "GetFunction conn (rd_Id d) FunctionStageDevelopment = Inr code"
    "FindFunctionByNameAndStage conn (rd_Id d) FunctionStageLive = live"
    "SetError e = (\<lambda>key v. None)"
    "\<forall>err. live = Inl err \<longrightarrow> NotFound (Some err)"
  shows "resourceFunctionRead (AWSClient conn) e d =
     returned
       (written (function_fields out code live) d)
       [(CallFindFunctionByNameAndStage (rd_Id d) FunctionStageDevelopment, None),
        (CallGetFunction (rd_Id d) FunctionStageDevelopment, None),
        (CallFindFunctionByNameAndStage (rd_Id d) FunctionStageLive, failure live)] []"
  using assms
  by (cases live)
     (simp_all add: resourceFunctionRead_def with_client_def Let_def written_def failure_def
        function_fields_def set_field_accepted)


text \<open>
  C5, as stated, at the function and at the monitoring subscription. Every fetch of the
  function's read handler succeeds and the handler returns no diagnostic, yet it leaves the
  schema field \<^verbatim>\<open>publish\<close> unwritten: the remote object has no such field. The monitoring
  subscription's read handler writes \<^verbatim>\<open>monitoring_subscription\<close> and leaves the schema field
  \<^verbatim>\<open>distribution_id\<close> unwritten. And when \<^verbatim>\<open>GetFunction\<close> fails after a successful first
  fetch, the function's \<^verbatim>\<open>code\<close> is not written although \<^verbatim>\<open>name\<close> is.
\<close>

theorem read_leaves_schema_fields_unwritten:
  "returns_success (resourceFunctionRead (AWSClient sample_conn) sample_env sample_data) \<and>
   fmlookup (rd_state (final (resourceFunctionRead (AWSClient sample_conn) sample_env
     sample_data))) ''name'' = Some (VStringPtr (df_Name sample_function_output)) \<and>
   fmlookup (rd_state (final (resourceFunctionRead (AWSClient sample_conn) sample_env
     sample_data))) ''publish'' = None \<and>
   returns_success
     (resourceMonitoringSubscriptionRead (AWSClient sample_conn) sample_env sample_data) \<and>
   fmlookup (rd_state (final (resourceMonitoringSubscriptionRead (AWSClient sample_conn)
     sample_env sample_data))) ''monitoring_subscription'' = Some VNil \<and>
   fmlookup (rd_state (final (resourceMonitoringSubscriptionRead (AWSClient sample_conn)
     sample_env sample_data))) ''distribution_id'' = None \<and>
   fmlookup (rd_state (final (resourceFunctionRead
     (AWSClient (get_function_fails (OtherError ''timeout''))) sample_env sample_data)))
     ''name'' = Some (VStringPtr (df_Name sample_function_output)) \<and>
   fmlookup (rd_state (final (resourceFunctionRead
     (AWSClient (get_function_fails (OtherError ''timeout''))) sample_env sample_data)))
     ''code'' = None"
proof -
  have e: "SetError sample_env = (\<lambda>key v. None)"
    by (simp add: sample_env_def)
  have f: "resourceFunctionRead (AWSClient sample_conn) sample_env sample_data =
      returned
        (written
           (function_fields sample_function_output
              \<lparr>FunctionCode = ''function handler(event) {}''\<rparr> (Inr sample_function_output))
           sample_data)
        [(CallFindFunctionByNameAndStage (rd_Id sample_data) FunctionStageDevelopment, None),
         (CallGetFunction (rd_Id sample_data) FunctionStageDevelopment, None),
         (CallFindFunctionByNameAndStage (rd_Id sample_data) FunctionStageLive,
          failure (Inr sample_function_output))] []"
    by (rule read_Function) (simp_all add: sample_conn_def e)
  have m: "resourceMonitoringSubscriptionRead (AWSClient sample_conn) sample_env sample_data =
      returned
        (written (monitoring_subscription_fields \<lparr>gms_MonitoringSubscription = None\<rparr>)
           sample_data)
        [(CallFindMonitoringSubscriptionByDistributionID (rd_Id sample_data), None)] []"
    by (rule read_MonitoringSubscription) (simp_all add: sample_conn_def e)
  have g: "resourceFunctionRead (AWSClient (get_function_fails (OtherError ''timeout'')))
      sample_env sample_data =
      returned
        (written
           [(''status'', VStringPtr (df_Status sample_function_output)),
            (''runtime'', VEnum (df_Runtime sample_function_output)),
            (''name'', VStringPtr (df_Name sample_function_output)),
            (''etag'', VStringPtr (df_ETag sample_function_output)),
            (''comment'', VStringPtr (df_Comment sample_function_output)),
            (''arn'', VStringPtr (df_FunctionARN sample_function_output))] sample_data)
        [(CallFindFunctionByNameAndStage (rd_Id sample_data) FunctionStageDevelopment, None),
         (CallGetFunction (rd_Id sample_data) FunctionStageDevelopment,
          Some (OtherError ''timeout''))]
        [ErrorDiag ''reading CloudFront Function (%s) DEVELOPMENT stage code: %s''
           [rd_Id sample_data] (OtherError ''timeout'')]"
    by (simp add: resourceFunctionRead_def with_client_def Let_def written_def
          get_function_fails_def sample_conn_def sample_data_def set_field_accepted e
          NotFound_def)
  show ?thesis
    unfolding f m g
    by (simp add: returns_success_def returned_def finish_def written_def
          function_fields_def monitoring_subscription_fields_def block_value_def
          sample_data_def)
qed

text \<open>
  C5, amended. Take the public key apart (its read handler panics before it fetches
  anything) and suppose that \<^verbatim>\<open>d.Set\<close> accepts every value. When its fetch succeeds, the
  read handler of the cache policy, of the origin request policy and of the response
  headers policy writes every schema field from the fetched object, and returns no
  diagnostic; the monitoring subscription's writes \<^verbatim>\<open>monitoring_subscription\<close> only, and the
  function's writes every schema field but \<^verbatim>\<open>publish\<close>, after three fetches: \<^verbatim>\<open>code\<close> from
  \<^verbatim>\<open>GetFunction\<close>, and \<^verbatim>\<open>live_stage_etag\<close> from the LIVE stage, the empty string when that
  stage is not found. The value written for a nested block is nil exactly when the
  fetched object has no such sub-object, and the list of the one flattened map otherwise.
\<close>

theorem read_writes_the_fetched_fields:
  assumes "SetError e = (\<lambda>key v. None)"
  shows
  "(FindCachePolicyByID conn (rd_Id d) = Inr cachePolicy \<longrightarrow>
    resourceCachePolicyRead (AWSClient conn) e d =
      returned (written (cache_policy_fields cachePolicy) d)
        [(CallFindCachePolicyByID (rd_Id d), None)] []) \<and>
   (FindOriginRequestPolicyByID conn (rd_Id d) = Inr originRequestPolicy \<longrightarrow>
    resourceOriginRequestPolicyRead (AWSClient conn) e d =
      returned (written (origin_request_policy_fields originRequestPolicy) d)
        [(CallFindOriginRequestPolicyByID (rd_Id d), None)] []) \<and>
   (FindResponseHeadersPolicyByID conn (rd_Id d) = Inr responseHeadersPolicy \<longrightarrow>
    resourceResponseHeadersPolicyRead (AWSClient conn) e d =
      returned (written (response_headers_policy_fields responseHeadersPolicy) d)
        [(CallFindResponseHeadersPolicyByID (rd_Id d), None)] []) \<and>
   (FindMonitoringSubscriptionByDistributionID conn (rd_Id d) = Inr subscription \<longrightarrow>
    resourceMonitoringSubscriptionRead (AWSClient conn) e d =
      returned (written (monitoring_subscription_fields subscription) d)
        [(CallFindMonitoringSubscriptionByDistributionID (rd_Id d), None)] []) \<and>
   (FindFunctionByNameAndStage conn (rd_Id d) FunctionStageDevelopment = Inr describeFunction \<and>
    GetFunction conn (rd_Id d) FunctionStageDevelopment = Inr getFunction \<and>
    FindFunctionByNameAndStage conn (rd_Id d) FunctionStageLive = live \<and>
    (\<forall>err. live = Inl err \<longrightarrow> NotFound (Some err)) \<longrightarrow>
    resourceFunctionRead (AWSClient conn) e d =
      returned (written (function_fields describeFunction getFunction live) d)
        [(CallFindFunctionByNameAndStage (rd_Id d) FunctionStageDevelopment, None),
         (CallGetFunction (rd_Id d) FunctionStageDevelopment, None),
         (CallFindFunctionByNameAndStage (rd_Id d) FunctionStageLive, failure live)] []) \<and>
   (block_value sub flatten = VNil) = (sub = None) \<and>
   block_value (Some a) flatten = VList [VMap (flatten (Some a))]"
  using assms
    read_CachePolicy [where d = d and e = e and conn = conn and out = cachePolicy]
    read_OriginRequestPolicy [where d = d and e = e and conn = conn and out = originRequestPolicy]
    read_ResponseHeadersPolicy
      [where d = d and e = e and conn = conn and out = responseHeadersPolicy]
    read_MonitoringSubscription [where d = d and e = e and conn = conn and out = subscription]
    read_Function
      [where d = d and e = e and conn = conn and out = describeFunction and code = getFunction
         and live = live]
    block_value_nil [where sub = sub and flatten = flatten]
    block_value_some [where a = a and flatten = flatten]
  by blast

theorem read_writes_the_fetched_fields_witness:
  "SetError sample_env = (\<lambda>key v. None) \<and>
   FindCachePolicyByID sample_conn (rd_Id sample_data) =
     Inr \<lparr>gcp_CachePolicyConfig = sample_cache_policy_config, gcp_ETag = Some ''E1''\<rparr> \<and>
   rd_state (final (resourceCachePolicyRead (AWSClient sample_conn) sample_env sample_data)) =
     fmupd ''parameters_in_cache_key_and_forwarded_to_origin''
       (block_value (cp_ParametersInCacheKeyAndForwardedToOrigin sample_cache_policy_config)
          flattenParametersInCacheKeyAndForwardedToOrigin)
    (fmupd ''name'' (VStringPtr (cp_Name sample_cache_policy_config))
    (fmupd ''min_ttl'' (VInt64Ptr (MinTTL sample_cache_policy_config))
    (fmupd ''max_ttl'' (VInt64Ptr (MaxTTL sample_cache_policy_config))
    (fmupd ''etag'' (VStringPtr (Some ''E1''))
    (fmupd ''default_ttl'' (VInt64Ptr (DefaultTTL sample_cache_policy_config))
    (fmupd ''comment'' (VStringPtr (cp_Comment sample_cache_policy_config)) fmempty)))))) \<and>
   FindFunctionByNameAndStage sample_conn (rd_Id sample_data) FunctionStageDevelopment =
     Inr sample_function_output \<and>
   GetFunction sample_conn (rd_Id sample_data) FunctionStageDevelopment =
     Inr \<lparr>FunctionCode = ''function handler(event) {}''\<rparr> \<and>
   FindFunctionByNameAndStage sample_conn (rd_Id sample_data) FunctionStageLive =
     Inr sample_function_output \<and>
   fmlookup (rd_state (final (resourceFunctionRead (AWSClient sample_conn) sample_env
     sample_data))) ''code'' = Some (VString ''function handler(event) {}'') \<and>
   FindMonitoringSubscriptionByDistributionID sample_conn (rd_Id sample_data) =
     Inr \<lparr>gms_MonitoringSubscription = None\<rparr> \<and>
   fmlookup (rd_state (final (resourceMonitoringSubscriptionRead (AWSClient sample_conn)
     sample_env sample_data))) ''monitoring_subscription'' = Some VNil \<and>
   FindOriginRequestPolicyByID sample_conn (rd_Id sample_data) =
     Inr \<lparr>gorp_OriginRequestPolicyConfig = sample_origin_request_policy_config,
          gorp_ETag = Some ''E1''\<rparr> \<and>
   fmlookup (rd_state (final (resourceOriginRequestPolicyRead (AWSClient sample_conn)
     sample_env sample_data))) ''cookies_config'' = Some VNil \<and>
   FindResponseHeadersPolicyByID sample_conn (rd_Id sample_data) =
     Inr \<lparr>grhp_ResponseHeadersPolicyConfig = sample_response_headers_policy_config,
          grhp_ETag = Some ''E1''\<rparr> \<and>
   fmlookup (rd_state (final (resourceResponseHeadersPolicyRead (AWSClient sample_conn)
     sample_env sample_data))) ''name'' = Some (VStringPtr (Some ''policy''))"
proof -
  have e: "SetError sample_env = (\<lambda>key v. None)"
    by (simp add: sample_env_def)
  have c: "FindCachePolicyByID sample_conn i =
      Inr \<lparr>gcp_CachePolicyConfig = sample_cache_policy_config, gcp_ETag = Some ''E1''\<rparr>"
    "FindFunctionByNameAndStage sample_conn i s = Inr sample_function_output"
    "GetFunction sample_conn i s = Inr \<lparr>FunctionCode = ''function handler(event) {}''\<rparr>"
    "FindMonitoringSubscriptionByDistributionID sample_conn i =
      Inr \<lparr>gms_MonitoringSubscription = None\<rparr>"
    "FindOriginRequestPolicyByID sample_conn i =
      Inr \<lparr>gorp_OriginRequestPolicyConfig = sample_origin_request_policy_config,
           gorp_ETag = Some ''E1''\<rparr>"
    "FindResponseHeadersPolicyByID sample_conn i =
      Inr \<lparr>grhp_ResponseHeadersPolicyConfig = sample_response_headers_policy_config,
           grhp_ETag = Some ''E1''\<rparr>" for i s
    by (simp_all add: sample_conn_def)
  note r = read_writes_the_fetched_fields
         [OF e, where conn = sample_conn and d = sample_data
            and cachePolicy = "\<lparr>gcp_CachePolicyConfig = sample_cache_policy_config,
                                gcp_ETag = Some ''E1''\<rparr>"
            and describeFunction = sample_function_output
            and getFunction = "\<lparr>FunctionCode = ''function handler(event) {}''\<rparr>"
            and live = "Inr sample_function_output"
            and subscription = "\<lparr>gms_MonitoringSubscription = None\<rparr>"
            and originRequestPolicy =
              "\<lparr>gorp_OriginRequestPolicyConfig = sample_origin_request_policy_config,
                gorp_ETag = Some ''E1''\<rparr>"
            and responseHeadersPolicy =
              "\<lparr>grhp_ResponseHeadersPolicyConfig = sample_response_headers_policy_config,
                grhp_ETag = Some ''E1''\<rparr>"]
  from r [THEN conjunct1]
    r [THEN conjunct2, THEN conjunct1]
    r [THEN conjunct2, THEN conjunct2, THEN conjunct1]
    r [THEN conjunct2, THEN conjunct2, THEN conjunct2, THEN conjunct1]
    r [THEN conjunct2, THEN conjunct2, THEN conjunct2, THEN conjunct2, THEN conjunct1]
  show ?thesis
    by (simp add: e c returned_def written_def cache_policy_fields_def function_fields_def
          monitoring_subscription_fields_def origin_request_policy_fields_def
          response_headers_policy_fields_def block_value_def sample_data_def
          sample_origin_request_policy_config_def sample_response_headers_policy_config_def)
qed

section \<open>Expanders: nil, the empty map and the keys that count\<close>





lemma go_bind_Ret: "go_bind (Ret a) f = f a"
  by (simp add: go_bind_def)












































































section \<open>Expanding and flattening again\<close>

lemma fmap_eqI_keys:
  assumes "keys_ok a ks" "keys_ok b ks" "list_all (\<lambda>k. fmlookup a k = fmlookup b k) ks"
  shows "a = b"
proof (rule fmap_ext)
  fix k
  show "fmlookup a k = fmlookup b k"
  proof (cases "k \<in> set ks")
    case True
    with assms(3) show ?thesis by (simp add: list_all_iff)
  next
    case False
    with assms(1,2) have "k \<notin> fmdom' a" "k \<notin> fmdom' b" by (auto simp: keys_ok_def)
    then show ?thesis by (simp add: fmdom'_notD)
  qed
qed

lemma keys_ok_simps:
  "keys_ok fmempty ks"
  "keys_ok (fmmap f m) ks = keys_ok m ks"
  "keys_ok (fmupd k v m) ks = (k \<in> set ks \<and> keys_ok m ks)"
  "keys_ok (put_if c k v m) ks = ((c \<longrightarrow> k \<in> set ks) \<and> keys_ok m ks)"
  "keys_ok (put_some k p g m) ks = ((p \<noteq> None \<longrightarrow> k \<in> set ks) \<and> keys_ok m ks)"
  "keys_ok (put_block k w m) ks = ((map_nonempty w \<longrightarrow> k \<in> set ks) \<and> keys_ok m ks)"
  by (auto simp: keys_ok_def put_if_def put_some_def put_block_def split: option.splits)

lemma lookup_skip:
  "k' \<noteq> k \<Longrightarrow> fmlookup (put_if c k v m) k' = fmlookup m k'"
  "k' \<noteq> k \<Longrightarrow> fmlookup (put_some k p g m) k' = fmlookup m k'"
  "k' \<noteq> k \<Longrightarrow> fmlookup (put_block k w m) k' = fmlookup m k'"
  by (auto simp: put_if_def put_some_def put_block_def split: option.splits)

lemma lookup_hit:
  "fmlookup m k = None \<Longrightarrow> fmlookup (put_if c k v m) k = (if c then Some v else None)"
  "fmlookup m k = None \<Longrightarrow> fmlookup (put_some k p g m) k = map_option g p"
  "fmlookup m k = None \<Longrightarrow>
   fmlookup (put_block k w m) k = (if map_nonempty w then Some (VList [VMap w]) else None)"
  by (auto simp: put_if_def put_some_def put_block_def split: option.splits)

lemmas lookup_simps = lookup_skip lookup_hit

lemma fmmap_eq_empty: "(fmmap f m = fmempty) = (m = fmempty)"
proof
  assume "fmmap f m = fmempty"
  then have "fmdom' (fmmap f m) = {}" by simp
  then have d: "fmdom' m = {}" by simp
  show "m = fmempty"
  proof (rule fmap_ext)
    fix k
    from d have "k \<notin> fmdom' m" by simp
    then show "fmlookup m k = fmlookup fmempty k" by (simp add: fmdom'_notD)
  qed
qed simp

lemma fmmap_fmupd: "fmmap f (fmupd k v m) = fmupd k (f v) (fmmap f m)"
  by (rule fmap_ext) simp

lemma F_string:
  "optional m k nonzero_string \<Longrightarrow>
   map_option erase (map_option VString (nonempty_string (tf_index m k))) =
   map_option erase (fmlookup m k)"
  by (auto simp: optional_def nonzero_string_def tf_index_def nonempty_string_def as_string_def
        split: option.splits tfval.splits)

lemma F_bool:
  "optional m k any_bool \<Longrightarrow>
   map_option erase (map_option VBool (as_bool (tf_index m k))) = map_option erase (fmlookup m k)"
  by (auto simp: optional_def any_bool_def tf_index_def as_bool_def
        split: option.splits tfval.splits)

lemma F_boolptr:
  "optional m k any_bool \<Longrightarrow>
   map_option erase (map_option (\<lambda>v. VBoolPtr (Some v)) (as_bool (tf_index m k))) =
   map_option erase (fmlookup m k)"
  by (auto simp: optional_def any_bool_def tf_index_def as_bool_def
        split: option.splits tfval.splits)

lemma F_float:
  "optional m k any_float \<Longrightarrow>
   map_option erase (map_option (\<lambda>v. VFloatPtr (Some v)) (as_float64 (tf_index m k))) =
   map_option erase (fmlookup m k)"
  by (auto simp: optional_def any_float_def tf_index_def as_float64_def
        split: option.splits tfval.splits)

lemma F_int32:
  "optional m k nonzero_int32 \<Longrightarrow>
   map_option erase (map_option (\<lambda>v. VInt32Ptr (Some v)) (int32_field (tf_index m k))) =
   map_option erase (fmlookup m k)"
  by (auto simp: optional_def nonzero_int32_def tf_index_def int32_field_def as_int_def
        scast_ucast_int32 split: option.splits tfval.splits)

lemma F_enum:
  "optional m k nonzero_string \<Longrightarrow>
   map_option erase
     (if enum_field (tf_index m k) \<noteq> [] then Some (VEnum (enum_field (tf_index m k))) else None) =
   map_option erase (fmlookup m k)"
  by (auto simp: optional_def nonzero_string_def tf_index_def enum_field_def nonempty_string_def
        as_string_def split: option.splits tfval.splits)

lemma required_enum:
  assumes "required m k nonzero_string"
  obtains s where "fmlookup m k = Some (VString s)" "enum_field (tf_index m k) = s"
  using assms
  by (auto simp: required_def nonzero_string_def tf_index_def enum_field_def nonempty_string_def
        as_string_def split: option.splits tfval.splits)

lemma round_trip_go_Ret: "round_trip_go (\<lambda>tf. Ret (ex tf)) fl tf = round_trip ex fl tf"
  by (simp add: round_trip_go_def round_trip_def)

lemma round_trip_goD:
  assumes "round_trip_go ex fl tf"
  obtains c fm where "ex (Some tf) = Ret c" "fl c = Some fm" "fmmap erase fm = fmmap erase tf"
  using assms by (auto simp: round_trip_go_def split: go.splits)

lemma F_block:
  assumes o: "optional m k (block ok)"
    and child: "\<And>tf. ok tf \<Longrightarrow> round_trip_go ex fl tf"
    and nil: "fl None = None"
  shows "\<exists>c. nested_block nc (tf_index m k) ex = Ret c \<and>
     map_option erase (if map_nonempty (fl c) then Some (VList [VMap (fl c)]) else None) =
     map_option erase (fmlookup m k)"
proof (cases "fmlookup m k")
  case None
  then have "nested_block nc (tf_index m k) ex = Ret None"
    by (simp add: tf_index_def nested_block_def as_list_def)
  with None nil show ?thesis by (simp add: map_nonempty_def)
next
  case (Some v)
  with o have "block ok v" by (simp add: optional_def)
  then obtain tf where v: "v = VList [VMap (Some tf)]" and tf: "tf \<noteq> fmempty" "ok tf"
    by (auto simp: block_def nonempty_block_def split: tfval.splits list.splits option.splits)
  from child [OF tf(2)] obtain c fm where
    c: "ex (Some tf) = Ret c" "fl c = Some fm" "fmmap erase fm = fmmap erase tf"
    by (rule round_trip_goD)
  from c(3) tf(1) have "fm \<noteq> fmempty"
    using fmmap_eq_empty [of erase fm] fmmap_eq_empty [of erase tf] by auto
  with Some v c show ?thesis
    by (simp add: tf_index_def nested_block_def as_list_def as_map_def map_nonempty_def)
qed

lemma strings_round_trip:
  assumes "list_all nonzero_string xs"
  shows "map VString (nonempty_strings xs) = xs" "map erase xs = xs"
    "length (nonempty_strings xs) = length xs"
  using assms by (induction xs) (auto simp: nonzero_string_def split: tfval.splits)

lemma keys_ok_single:
  assumes "keys_ok m [k]"
  shows "m = (case fmlookup m k of None \<Rightarrow> fmempty | Some v \<Rightarrow> fmupd k v fmempty)"
  by (rule fmap_eqI_keys [where ks = "[k]"])
     (use assms in \<open>auto simp: keys_ok_simps split: option.splits\<close>)

lemmas wf_simps =
  keys_ok_def optional_def required_def block_def nonempty_block_def block_set_def
  string_set_def nonzero_string_def nonzero_int32_def any_bool_def any_float_def

lemma rt_CookieNames:
  assumes "wf_Items m" "flex_ok e"
  shows "round_trip (expandCookieNames e) flattenCookieNames m"
proof (cases "fmlookup m ''items''")
  case None
  with assms(1) keys_ok_single [of m "''items''"] have "m = fmempty"
    by (simp add: wf_Items_def)
  then show ?thesis
    by (simp add: round_trip_def expandCookieNames_def flattenCookieNames_def tf_index_def
          as_set_def no_items_def slice_len_def put_if_def)
next
  case (Some v)
  with assms(1) obtain xs where
    v: "v = VSet xs" and xs: "xs \<noteq> []" "list_all nonzero_string xs"
    by (auto simp: wf_Items_def optional_def string_set_def split: tfval.splits)
  from Some assms(1) keys_ok_single [of m "''items''"] have m: "m = fmupd ''items'' v fmempty"
    by (simp add: wf_Items_def)
  from xs assms(2) show ?thesis
    by (simp add: m v strings_round_trip fmmap_fmupd foldl_snoc_id round_trip_def
          expandCookieNames_def flattenCookieNames_def tf_index_def as_set_def
          slice_len_def put_if_def flex_ok_def Let_def)
qed

lemma rt_Headers:
  assumes "wf_Items m" "flex_ok e"
  shows "round_trip (expandHeaders e) flattenHeaders m"
proof (cases "fmlookup m ''items''")
  case None
  with assms(1) keys_ok_single [of m "''items''"] have "m = fmempty"
    by (simp add: wf_Items_def)
  then show ?thesis
    by (simp add: round_trip_def expandHeaders_def flattenHeaders_def tf_index_def as_set_def
          no_items_def slice_len_def put_if_def)
next
  case (Some v)
  with assms(1) obtain xs where
    v: "v = VSet xs" and xs: "xs \<noteq> []" "list_all nonzero_string xs"
    by (auto simp: wf_Items_def optional_def string_set_def split: tfval.splits)
  from Some assms(1) keys_ok_single [of m "''items''"] have m: "m = fmupd ''items'' v fmempty"
    by (simp add: wf_Items_def)
  from xs assms(2) show ?thesis
    by (simp add: m v strings_round_trip fmmap_fmupd foldl_snoc_id round_trip_def
          expandHeaders_def flattenHeaders_def tf_index_def as_set_def slice_len_def
          put_if_def flex_ok_def Let_def)
qed

lemma rt_QueryStringNames:
  assumes "wf_Items m" "flex_ok e"
  shows "round_trip (expandQueryStringNames e) flattenQueryStringNames m"
proof (cases "fmlookup m ''items''")
  case None
  with assms(1) keys_ok_single [of m "''items''"] have "m = fmempty"
    by (simp add: wf_Items_def)
  then show ?thesis
    by (simp add: round_trip_def expandQueryStringNames_def flattenQueryStringNames_def
          tf_index_def as_set_def no_items_def slice_len_def put_if_def)
next
  case (Some v)
  with assms(1) obtain xs where
    v: "v = VSet xs" and xs: "xs \<noteq> []" "list_all nonzero_string xs"
    by (auto simp: wf_Items_def optional_def string_set_def split: tfval.splits)
  from Some assms(1) keys_ok_single [of m "''items''"] have m: "m = fmupd ''items'' v fmempty"
    by (simp add: wf_Items_def)
  from xs assms(2) show ?thesis
    by (simp add: m v strings_round_trip fmmap_fmupd foldl_snoc_id round_trip_def
          expandQueryStringNames_def flattenQueryStringNames_def tf_index_def as_set_def
          slice_len_def put_if_def flex_ok_def Let_def)
qed

lemma rt_CachePolicyCookiesConfig:
  assumes "wf_CookiesConfig m" "flex_ok e"
  shows "round_trip_go (expandCachePolicyCookiesConfig e) flattenCachePolicyCookiesConfig m"
proof -
  note w = assms(1) [unfolded wf_CookiesConfig_def]
  from w have k: "keys_ok m
       [''cookie_behavior'', ''cookies'']"
    by simp
  note f1 = F_enum [of m "''cookie_behavior''"]
  from w have o2: "optional m ''cookies'' (block wf_Items)"
    by simp
  have c2: "wf_Items tf \<Longrightarrow>
      round_trip_go (\<lambda>tf. Ret (expandCookieNames e tf))
        flattenCookieNames tf" for tf
    using rt_CookieNames [OF _ assms(2)] by (simp add: round_trip_go_Ret)
  have z2: "flattenCookieNames None = None"
    by (simp add: flattenCookieNames_def)
  from F_block [where nc = True, OF o2 c2 z2] obtain a2 where
    n2: "nested_block True (tf_index m ''cookies'')
           (\<lambda>tf. Ret (expandCookieNames e tf)) = Ret a2"
    and f2: "map_option erase
           (if map_nonempty (flattenCookieNames a2)
            then Some (VList [VMap (flattenCookieNames a2)]) else None) =
         map_option erase (fmlookup m ''cookies'')"
    by blast
  show ?thesis
    unfolding round_trip_go_def
    apply (simp add: expandCachePolicyCookiesConfig_def flattenCachePolicyCookiesConfig_def n2
             go_bind_Ret)
    apply (rule fmap_eqI_keys
             [where ks = "[''cookie_behavior'', ''cookies'']"])
    using k w f1 f2 by (simp_all add: keys_ok_simps lookup_simps)
qed

lemma rt_CachePolicyHeadersConfig:
  assumes "wf_HeadersConfig m" "flex_ok e"
  shows "round_trip_go (expandCachePolicyHeadersConfig e) flattenCachePolicyHeadersConfig m"
proof -
  note w = assms(1) [unfolded wf_HeadersConfig_def]
  from w have k: "keys_ok m
       [''header_behavior'', ''headers'']"
    by simp
  note f1 = F_enum [of m "''header_behavior''"]
  from w have o2: "optional m ''headers'' (block wf_Items)"
    by simp
  have c2: "wf_Items tf \<Longrightarrow>
      round_trip_go (\<lambda>tf. Ret (expandHeaders e tf))
        flattenHeaders tf" for tf
    using rt_Headers [OF _ assms(2)] by (simp add: round_trip_go_Ret)
  have z2: "flattenHeaders None = None"
    by (simp add: flattenHeaders_def)
  from F_block [where nc = True, OF o2 c2 z2] obtain a2 where
    n2: "nested_block True (tf_index m ''headers'')
           (\<lambda>tf. Ret (expandHeaders e tf)) = Ret a2"
    and f2: "map_option erase
           (if map_nonempty (flattenHeaders a2)
            then Some (VList [VMap (flattenHeaders a2)]) else None) =
         map_option erase (fmlookup m ''headers'')"
    by blast
  show ?thesis
    unfolding round_trip_go_def
    apply (simp add: expandCachePolicyHeadersConfig_def flattenCachePolicyHeadersConfig_def n2
             go_bind_Ret)
    apply (rule fmap_eqI_keys
             [where ks = "[''header_behavior'', ''headers'']"])
    using k w f1 f2 by (simp_all add: keys_ok_simps lookup_simps)
qed

lemma rt_CachePolicyQueryStringsConfig:
  assumes "wf_QueryStringsConfig m" "flex_ok e"
  shows "round_trip_go (expandCachePolicyQueryStringsConfig e)
     flattenCachePolicyQueryStringsConfig m"
proof -
  note w = assms(1) [unfolded wf_QueryStringsConfig_def]
  from w have k: "keys_ok m
       [''query_string_behavior'', ''query_strings'']"
    by simp
  note f1 = F_enum [of m "''query_string_behavior''"]
  from w have o2: "optional m ''query_strings'' (block wf_Items)"
    by simp
  have c2: "wf_Items tf \<Longrightarrow>
      round_trip_go (\<lambda>tf. Ret (expandQueryStringNames e tf))
        flattenQueryStringNames tf" for tf
    using rt_QueryStringNames [OF _ assms(2)] by (simp add: round_trip_go_Ret)
  have z2: "flattenQueryStringNames None = None"
    by (simp add: flattenQueryStringNames_def)
  from F_block [where nc = True, OF o2 c2 z2] obtain a2 where
    n2: "nested_block True (tf_index m ''query_strings'')
           (\<lambda>tf. Ret (expandQueryStringNames e tf)) = Ret a2"
    and f2: "map_option erase
           (if map_nonempty (flattenQueryStringNames a2)
            then Some (VList [VMap (flattenQueryStringNames a2)]) else None) =
         map_option erase (fmlookup m ''query_strings'')"
    by blast
  show ?thesis
    unfolding round_trip_go_def
    apply (simp add: expandCachePolicyQueryStringsConfig_def flattenCachePolicyQueryStringsConfig_def
             n2 go_bind_Ret)
    apply (rule fmap_eqI_keys
             [where ks = "[''query_string_behavior'', ''query_strings'']"])
    using k w f1 f2 by (simp_all add: keys_ok_simps lookup_simps)
qed

lemma rt_ParametersInCacheKeyAndForwardedToOrigin:
  assumes "wf_ParametersInCacheKeyAndForwardedToOrigin m" "flex_ok e"
  shows "round_trip_go (expandParametersInCacheKeyAndForwardedToOrigin e)
     flattenParametersInCacheKeyAndForwardedToOrigin m"
proof -
  note w = assms(1) [unfolded wf_ParametersInCacheKeyAndForwardedToOrigin_def]
  from w have k: "keys_ok m
       [''cookies_config'', ''enable_accept_encoding_brotli'',
        ''enable_accept_encoding_gzip'', ''headers_config'', ''query_strings_config'']"
    by simp
  from w have o1: "optional m ''cookies_config'' (block wf_CookiesConfig)"
    by simp
  have c1: "wf_CookiesConfig tf \<Longrightarrow>
      round_trip_go (expandCachePolicyCookiesConfig e)
        flattenCachePolicyCookiesConfig tf" for tf
    using rt_CachePolicyCookiesConfig [OF _ assms(2)] by (simp add: round_trip_go_Ret)
  have z1: "flattenCachePolicyCookiesConfig None = None"
    by (simp add: flattenCachePolicyCookiesConfig_def)
  from F_block [where nc = False, OF o1 c1 z1] obtain a1 where
    n1: "nested_block False (tf_index m ''cookies_config'')
           (expandCachePolicyCookiesConfig e) = Ret a1"
    and f1: "map_option erase
           (if map_nonempty (flattenCachePolicyCookiesConfig a1)
            then Some (VList [VMap (flattenCachePolicyCookiesConfig a1)]) else None) =
         map_option erase (fmlookup m ''cookies_config'')"
    by blast
  note f2 = F_boolptr [of m "''enable_accept_encoding_brotli''"]
  note f3 = F_boolptr [of m "''enable_accept_encoding_gzip''"]
  from w have o4: "optional m ''headers_config'' (block wf_HeadersConfig)"
    by simp
  have c4: "wf_HeadersConfig tf \<Longrightarrow>
      round_trip_go (expandCachePolicyHeadersConfig e)
        flattenCachePolicyHeadersConfig tf" for tf
    using rt_CachePolicyHeadersConfig [OF _ assms(2)] by (simp add: round_trip_go_Ret)
  have z4: "flattenCachePolicyHeadersConfig None = None"
    by (simp add: flattenCachePolicyHeadersConfig_def)
  from F_block [where nc = False, OF o4 c4 z4] obtain a4 where
    n4: "nested_block False (tf_index m ''headers_config'')
           (expandCachePolicyHeadersConfig e) = Ret a4"
    and f4: "map_option erase
           (if map_nonempty (flattenCachePolicyHeadersConfig a4)
            then Some (VList [VMap (flattenCachePolicyHeadersConfig a4)]) else None) =
         map_option erase (fmlookup m ''headers_config'')"
    by blast
  from w have o5: "optional m ''query_strings_config'' (block wf_QueryStringsConfig)"
    by simp
  have c5: "wf_QueryStringsConfig tf \<Longrightarrow>
      round_trip_go (expandCachePolicyQueryStringsConfig e)
        flattenCachePolicyQueryStringsConfig tf" for tf
    using rt_CachePolicyQueryStringsConfig [OF _ assms(2)] by (simp add: round_trip_go_Ret)
  have z5: "flattenCachePolicyQueryStringsConfig None = None"
    by (simp add: flattenCachePolicyQueryStringsConfig_def)
  from F_block [where nc = False, OF o5 c5 z5] obtain a5 where
    n5: "nested_block False (tf_index m ''query_strings_config'')
           (expandCachePolicyQueryStringsConfig e) = Ret a5"
    and f5: "map_option erase
           (if map_nonempty (flattenCachePolicyQueryStringsConfig a5)
            then Some (VList [VMap (flattenCachePolicyQueryStringsConfig a5)]) else None) =
         map_option erase (fmlookup m ''query_strings_config'')"
    by blast
  show ?thesis
    unfolding round_trip_go_def
    apply (simp add: expandParametersInCacheKeyAndForwardedToOrigin_def
             flattenParametersInCacheKeyAndForwardedToOrigin_def n1 n4 n5 go_bind_Ret)
    apply (rule fmap_eqI_keys
             [where ks = "[''cookies_config'', ''enable_accept_encoding_brotli'',
                            ''enable_accept_encoding_gzip'', ''headers_config'',
                            ''query_strings_config'']"])
    using k w f1 f2 f3 f4 f5 by (simp_all add: keys_ok_simps lookup_simps)
qed

lemma rt_OriginRequestPolicyCookiesConfig:
  assumes "wf_CookiesConfig m" "flex_ok e"
  shows "round_trip_go (expandOriginRequestPolicyCookiesConfig e)
     flattenOriginRequestPolicyCookiesConfig m"
proof -
  note w = assms(1) [unfolded wf_CookiesConfig_def]
  from w have k: "keys_ok m
       [''cookie_behavior'', ''cookies'']"
    by simp
  note f1 = F_enum [of m "''cookie_behavior''"]
  from w have o2: "optional m ''cookies'' (block wf_Items)"
    by simp
  have c2: "wf_Items tf \<Longrightarrow>
      round_trip_go (\<lambda>tf. Ret (expandCookieNames e tf))
        flattenCookieNames tf" for tf
    using rt_CookieNames [OF _ assms(2)] by (simp add: round_trip_go_Ret)
  have z2: "flattenCookieNames None = None"
    by (simp add: flattenCookieNames_def)
  from F_block [where nc = True, OF o2 c2 z2] obtain a2 where
    n2: "nested_block True (tf_index m ''cookies'')
           (\<lambda>tf. Ret (expandCookieNames e tf)) = Ret a2"
    and f2: "map_option erase
           (if map_nonempty (flattenCookieNames a2)
            then Some (VList [VMap (flattenCookieNames a2)]) else None) =
         map_option erase (fmlookup m ''cookies'')"
    by blast
  show ?thesis
    unfolding round_trip_go_def
    apply (simp add: expandOriginRequestPolicyCookiesConfig_def
             flattenOriginRequestPolicyCookiesConfig_def n2 go_bind_Ret)
    apply (rule fmap_eqI_keys
             [where ks = "[''cookie_behavior'', ''cookies'']"])
    using k w f1 f2 by (simp_all add: keys_ok_simps lookup_simps)
qed

lemma rt_OriginRequestPolicyHeadersConfig:
  assumes "wf_HeadersConfig m" "flex_ok e"
  shows "round_trip_go (expandOriginRequestPolicyHeadersConfig e)
     flattenOriginRequestPolicyHeadersConfig m"
proof -
  note w = assms(1) [unfolded wf_HeadersConfig_def]
  from w have k: "keys_ok m
       [''header_behavior'', ''headers'']"
    by simp
  note f1 = F_enum [of m "''header_behavior''"]
  from w have o2: "optional m ''headers'' (block wf_Items)"
    by simp
  have c2: "wf_Items tf \<Longrightarrow>
      round_trip_go (\<lambda>tf. Ret (expandHeaders e tf))
        flattenHeaders tf" for tf
    using rt_Headers [OF _ assms(2)] by (simp add: round_trip_go_Ret)
  have z2: "flattenHeaders None = None"
    by (simp add: flattenHeaders_def)
  from F_block [where nc = True, OF o2 c2 z2] obtain a2 where
    n2: "nested_block True (tf_index m ''headers'')
           (\<lambda>tf. Ret (expandHeaders e tf)) = Ret a2"
    and f2: "map_option erase
           (if map_nonempty (flattenHeaders a2)
            then Some (VList [VMap (flattenHeaders a2)]) else None) =
         map_option erase (fmlookup m ''headers'')"
    by blast
  show ?thesis
    unfolding round_trip_go_def
    apply (simp add: expandOriginRequestPolicyHeadersConfig_def
             flattenOriginRequestPolicyHeadersConfig_def n2 go_bind_Ret)
    apply (rule fmap_eqI_keys
             [where ks = "[''header_behavior'', ''headers'']"])
    using k w f1 f2 by (simp_all add: keys_ok_simps lookup_simps)
qed

lemma rt_OriginRequestPolicyQueryStringsConfig:
  assumes "wf_QueryStringsConfig m" "flex_ok e"
  shows "round_trip_go (expandOriginRequestPolicyQueryStringsConfig e)
     flattenOriginRequestPolicyQueryStringsConfig m"
proof -
  note w = assms(1) [unfolded wf_QueryStringsConfig_def]
  from w have k: "keys_ok m
       [''query_string_behavior'', ''query_strings'']"
    by simp
  note f1 = F_enum [of m "''query_string_behavior''"]
  from w have o2: "optional m ''query_strings'' (block wf_Items)"
    by simp
  have c2: "wf_Items tf \<Longrightarrow>
      round_trip_go (\<lambda>tf. Ret (expandQueryStringNames e tf))
        flattenQueryStringNames tf" for tf
    using rt_QueryStringNames [OF _ assms(2)] by (simp add: round_trip_go_Ret)
  have z2: "flattenQueryStringNames None = None"
    by (simp add: flattenQueryStringNames_def)
  from F_block [where nc = True, OF o2 c2 z2] obtain a2 where
    n2: "nested_block True (tf_index m ''query_strings'')
           (\<lambda>tf. Ret (expandQueryStringNames e tf)) = Ret a2"
    and f2: "map_option erase
           (if map_nonempty (flattenQueryStringNames a2)
            then Some (VList [VMap (flattenQueryStringNames a2)]) else None) =
         map_option erase (fmlookup m ''query_strings'')"
    by blast
  show ?thesis
    unfolding round_trip_go_def
    apply (simp add: expandOriginRequestPolicyQueryStringsConfig_def
             flattenOriginRequestPolicyQueryStringsConfig_def n2 go_bind_Ret)
    apply (rule fmap_eqI_keys
             [where ks = "[''query_string_behavior'', ''query_strings'']"])
    using k w f1 f2 by (simp_all add: keys_ok_simps lookup_simps)
qed

lemma rt_RealtimeMetricsSubscriptionConfig:
  assumes "wf_RealtimeMetricsSubscriptionConfig m"
  shows "round_trip expandRealtimeMetricsSubscriptionConfig
     flattenRealtimeMetricsSubscriptionConfig m"
proof -
  note w = assms [unfolded wf_RealtimeMetricsSubscriptionConfig_def]
  from w have k: "keys_ok m
       [''realtime_metrics_subscription_status'']"
    by simp
  from w have r1: "required m ''realtime_metrics_subscription_status'' nonzero_string"
    by simp
  from r1 obtain s1 where
    f1: "fmlookup m ''realtime_metrics_subscription_status'' = Some (VString s1)"
      "enum_field (tf_index m ''realtime_metrics_subscription_status'') = s1"
    by (rule required_enum)
  show ?thesis
    unfolding round_trip_def
    apply (simp add: expandRealtimeMetricsSubscriptionConfig_def
             flattenRealtimeMetricsSubscriptionConfig_def go_bind_Ret)
    apply (rule fmap_eqI_keys
             [where ks = "[''realtime_metrics_subscription_status'']"])
    using k w f1 by (simp_all add: keys_ok_simps lookup_simps)
qed

lemma rt_MonitoringSubscription:
  assumes "wf_MonitoringSubscription m"
  shows "round_trip_go expandMonitoringSubscription flattenMonitoringSubscription m"
proof -
  note w = assms [unfolded wf_MonitoringSubscription_def]
  from w have k: "keys_ok m
       [''realtime_metrics_subscription_config'']"
    by simp
  from w have o1: "optional m ''realtime_metrics_subscription_config'' (block wf_RealtimeMetricsSubscriptionConfig)"
    by simp
  have c1: "wf_RealtimeMetricsSubscriptionConfig tf \<Longrightarrow>
      round_trip_go (\<lambda>tf. Ret (expandRealtimeMetricsSubscriptionConfig tf))
        flattenRealtimeMetricsSubscriptionConfig tf" for tf
    using rt_RealtimeMetricsSubscriptionConfig by (simp add: round_trip_go_Ret)
  have z1: "flattenRealtimeMetricsSubscriptionConfig None = None"
    by (simp add: flattenRealtimeMetricsSubscriptionConfig_def)
  from F_block [where nc = False, OF o1 c1 z1] obtain a1 where
    n1: "nested_block False (tf_index m ''realtime_metrics_subscription_config'')
           (\<lambda>tf. Ret (expandRealtimeMetricsSubscriptionConfig tf)) = Ret a1"
    and f1: "map_option erase
           (if map_nonempty (flattenRealtimeMetricsSubscriptionConfig a1)
            then Some (VList [VMap (flattenRealtimeMetricsSubscriptionConfig a1)]) else None) =
         map_option erase (fmlookup m ''realtime_metrics_subscription_config'')"
    by blast
  show ?thesis
    unfolding round_trip_go_def
    apply (simp add: expandMonitoringSubscription_def flattenMonitoringSubscription_def n1
             go_bind_Ret)
    apply (rule fmap_eqI_keys
             [where ks = "[''realtime_metrics_subscription_config'']"])
    using k w f1 by (simp_all add: keys_ok_simps lookup_simps)
qed

lemma rt_AccessControlAllowHeaders:
  assumes "wf_Items m" "flex_ok e"
  shows "round_trip (expandResponseHeadersPolicyAccessControlAllowHeaders e)
     flattenResponseHeadersPolicyAccessControlAllowHeaders m"
proof (cases "fmlookup m ''items''")
  case None
  with assms(1) keys_ok_single [of m "''items''"] have "m = fmempty"
    by (simp add: wf_Items_def)
  then show ?thesis
    by (simp add: round_trip_def expandResponseHeadersPolicyAccessControlAllowHeaders_def
          flattenResponseHeadersPolicyAccessControlAllowHeaders_def tf_index_def
          as_set_def no_items_def slice_len_def put_if_def)
next
  case (Some v)
  with assms(1) obtain xs where
    v: "v = VSet xs" and xs: "xs \<noteq> []" "list_all nonzero_string xs"
    by (auto simp: wf_Items_def optional_def string_set_def split: tfval.splits)
  from Some assms(1) keys_ok_single [of m "''items''"] have m: "m = fmupd ''items'' v fmempty"
    by (simp add: wf_Items_def)
  from xs assms(2) show ?thesis
    by (simp add: m v strings_round_trip fmmap_fmupd foldl_snoc_id round_trip_def
          expandResponseHeadersPolicyAccessControlAllowHeaders_def
          flattenResponseHeadersPolicyAccessControlAllowHeaders_def tf_index_def
          as_set_def slice_len_def put_if_def flex_ok_def Let_def)
qed

lemma rt_AccessControlAllowMethods:
  assumes "wf_Items m" "flex_ok e"
  shows "round_trip (expandResponseHeadersPolicyAccessControlAllowMethods e)
     flattenResponseHeadersPolicyAccessControlAllowMethods m"
proof (cases "fmlookup m ''items''")
  case None
  with assms(1) keys_ok_single [of m "''items''"] have "m = fmempty"
    by (simp add: wf_Items_def)
  then show ?thesis
    by (simp add: round_trip_def expandResponseHeadersPolicyAccessControlAllowMethods_def
          flattenResponseHeadersPolicyAccessControlAllowMethods_def tf_index_def
          as_set_def no_items_def slice_len_def put_if_def)
next
  case (Some v)
  with assms(1) obtain xs where
    v: "v = VSet xs" and xs: "xs \<noteq> []" "list_all nonzero_string xs"
    by (auto simp: wf_Items_def optional_def string_set_def split: tfval.splits)
  from Some assms(1) keys_ok_single [of m "''items''"] have m: "m = fmupd ''items'' v fmempty"
    by (simp add: wf_Items_def)
  from xs assms(2) show ?thesis
    by (simp add: m v strings_round_trip fmmap_fmupd foldl_snoc_id round_trip_def
          expandResponseHeadersPolicyAccessControlAllowMethods_def
          flattenResponseHeadersPolicyAccessControlAllowMethods_def tf_index_def
          as_set_def slice_len_def put_if_def flex_ok_def Let_def)
qed

lemma rt_AccessControlAllowOrigins:
  assumes "wf_Items m" "flex_ok e"
  shows "round_trip (expandResponseHeadersPolicyAccessControlAllowOrigins e)
     flattenResponseHeadersPolicyAccessControlAllowOrigins m"
proof (cases "fmlookup m ''items''")
  case None
  with assms(1) keys_ok_single [of m "''items''"] have "m = fmempty"
    by (simp add: wf_Items_def)
  then show ?thesis
    by (simp add: round_trip_def expandResponseHeadersPolicyAccessControlAllowOrigins_def
          flattenResponseHeadersPolicyAccessControlAllowOrigins_def tf_index_def
          as_set_def no_items_def slice_len_def put_if_def)
next
  case (Some v)
  with assms(1) obtain xs where
    v: "v = VSet xs" and xs: "xs \<noteq> []" "list_all nonzero_string xs"
    by (auto simp: wf_Items_def optional_def string_set_def split: tfval.splits)
  from Some assms(1) keys_ok_single [of m "''items''"] have m: "m = fmupd ''items'' v fmempty"
    by (simp add: wf_Items_def)
  from xs assms(2) show ?thesis
    by (simp add: m v strings_round_trip fmmap_fmupd foldl_snoc_id round_trip_def
          expandResponseHeadersPolicyAccessControlAllowOrigins_def
          flattenResponseHeadersPolicyAccessControlAllowOrigins_def tf_index_def
          as_set_def slice_len_def put_if_def flex_ok_def Let_def)
qed

lemma rt_AccessControlExposeHeaders:
  assumes "wf_Items m" "flex_ok e"
  shows "round_trip (expandResponseHeadersPolicyAccessControlExposeHeaders e)
     flattenResponseHeadersPolicyAccessControlExposeHeaders m"
proof (cases "fmlookup m ''items''")
  case None
  with assms(1) keys_ok_single [of m "''items''"] have "m = fmempty"
    by (simp add: wf_Items_def)
  then show ?thesis
    by (simp add: round_trip_def expandResponseHeadersPolicyAccessControlExposeHeaders_def
          flattenResponseHeadersPolicyAccessControlExposeHeaders_def tf_index_def
          as_set_def no_items_def slice_len_def put_if_def)
next
  case (Some v)
  with assms(1) obtain xs where
    v: "v = VSet xs" and xs: "xs \<noteq> []" "list_all nonzero_string xs"
    by (auto simp: wf_Items_def optional_def string_set_def split: tfval.splits)
  from Some assms(1) keys_ok_single [of m "''items''"] have m: "m = fmupd ''items'' v fmempty"
    by (simp add: wf_Items_def)
  from xs assms(2) show ?thesis
    by (simp add: m v strings_round_trip fmmap_fmupd foldl_snoc_id round_trip_def
          expandResponseHeadersPolicyAccessControlExposeHeaders_def
          flattenResponseHeadersPolicyAccessControlExposeHeaders_def tf_index_def
          as_set_def slice_len_def put_if_def flex_ok_def Let_def)
qed

lemma rt_CorsConfig:
  assumes "wf_CorsConfig m" "flex_ok e"
  shows "round_trip_go (expandResponseHeadersPolicyCorsConfig e)
     flattenResponseHeadersPolicyCorsConfig m"
proof -
  note w = assms(1) [unfolded wf_CorsConfig_def]
  from w have k: "keys_ok m
       [''access_control_allow_credentials'', ''access_control_allow_headers'',
        ''access_control_allow_methods'', ''access_control_allow_origins'',
        ''access_control_expose_headers'', ''access_control_max_age_sec'',
        ''origin_override'']"
    by simp
  note f1 = F_bool [of m "''access_control_allow_credentials''"]
  from w have o2: "optional m ''access_control_allow_headers'' (block wf_Items)"
    by simp
  have c2: "wf_Items tf \<Longrightarrow>
      round_trip_go (\<lambda>tf. Ret (expandResponseHeadersPolicyAccessControlAllowHeaders e tf))
        flattenResponseHeadersPolicyAccessControlAllowHeaders tf" for tf
    using rt_AccessControlAllowHeaders [OF _ assms(2)] by (simp add: round_trip_go_Ret)
  have z2: "flattenResponseHeadersPolicyAccessControlAllowHeaders None = None"
    by (simp add: flattenResponseHeadersPolicyAccessControlAllowHeaders_def)
  from F_block [where nc = True, OF o2 c2 z2] obtain a2 where
    n2: "nested_block True (tf_index m ''access_control_allow_headers'')
           (\<lambda>tf. Ret (expandResponseHeadersPolicyAccessControlAllowHeaders e tf)) = Ret a2"
    and f2: "map_option erase
           (if map_nonempty (flattenResponseHeadersPolicyAccessControlAllowHeaders a2)
            then Some (VList [VMap (flattenResponseHeadersPolicyAccessControlAllowHeaders a2)]) else None) =
         map_option erase (fmlookup m ''access_control_allow_headers'')"
    by blast
  from w have o3: "optional m ''access_control_allow_methods'' (block wf_Items)"
    by simp
  have c3: "wf_Items tf \<Longrightarrow>
      round_trip_go (\<lambda>tf. Ret (expandResponseHeadersPolicyAccessControlAllowMethods e tf))
        flattenResponseHeadersPolicyAccessControlAllowMethods tf" for tf
    using rt_AccessControlAllowMethods [OF _ assms(2)] by (simp add: round_trip_go_Ret)
  have z3: "flattenResponseHeadersPolicyAccessControlAllowMethods None = None"
    by (simp add: flattenResponseHeadersPolicyAccessControlAllowMethods_def)
  from F_block [where nc = True, OF o3 c3 z3] obtain a3 where
    n3: "nested_block True (tf_index m ''access_control_allow_methods'')
           (\<lambda>tf. Ret (expandResponseHeadersPolicyAccessControlAllowMethods e tf)) = Ret a3"
    and f3: "map_option erase
           (if map_nonempty (flattenResponseHeadersPolicyAccessControlAllowMethods a3)
            then Some (VList [VMap (flattenResponseHeadersPolicyAccessControlAllowMethods a3)]) else None) =
         map_option erase (fmlookup m ''access_control_allow_methods'')"
    by blast
  from w have o4: "optional m ''access_control_allow_origins'' (block wf_Items)"
    by simp
  have c4: "wf_Items tf \<Longrightarrow>
      round_trip_go (\<lambda>tf. Ret (expandResponseHeadersPolicyAccessControlAllowOrigins e tf))
        flattenResponseHeadersPolicyAccessControlAllowOrigins tf" for tf
    using rt_AccessControlAllowOrigins [OF _ assms(2)] by (simp add: round_trip_go_Ret)
  have z4: "flattenResponseHeadersPolicyAccessControlAllowOrigins None = None"
    by (simp add: flattenResponseHeadersPolicyAccessControlAllowOrigins_def)
  from F_block [where nc = True, OF o4 c4 z4] obtain a4 where
    n4: "nested_block True (tf_index m ''access_control_allow_origins'')
           (\<lambda>tf. Ret (expandResponseHeadersPolicyAccessControlAllowOrigins e tf)) = Ret a4"
    and f4: "map_option erase
           (if map_nonempty (flattenResponseHeadersPolicyAccessControlAllowOrigins a4)
            then Some (VList [VMap (flattenResponseHeadersPolicyAccessControlAllowOrigins a4)]) else None) =
         map_option erase (fmlookup m ''access_control_allow_origins'')"
    by blast
  from w have o5: "optional m ''access_control_expose_headers'' (block wf_Items)"
    by simp
  have c5: "wf_Items tf \<Longrightarrow>
      round_trip_go (\<lambda>tf. Ret (expandResponseHeadersPolicyAccessControlExposeHeaders e tf))
        flattenResponseHeadersPolicyAccessControlExposeHeaders tf" for tf
    using rt_AccessControlExposeHeaders [OF _ assms(2)] by (simp add: round_trip_go_Ret)
  have z5: "flattenResponseHeadersPolicyAccessControlExposeHeaders None = None"
    by (simp add: flattenResponseHeadersPolicyAccessControlExposeHeaders_def)
  from F_block [where nc = True, OF o5 c5 z5] obtain a5 where
    n5: "nested_block True (tf_index m ''access_control_expose_headers'')
           (\<lambda>tf. Ret (expandResponseHeadersPolicyAccessControlExposeHeaders e tf)) = Ret a5"
    and f5: "map_option erase
           (if map_nonempty (flattenResponseHeadersPolicyAccessControlExposeHeaders a5)
            then Some (VList [VMap (flattenResponseHeadersPolicyAccessControlExposeHeaders a5)]) else None) =
         map_option erase (fmlookup m ''access_control_expose_headers'')"
    by blast
  note f6 = F_int32 [of m "''access_control_max_age_sec''"]
  note f7 = F_bool [of m "''origin_override''"]
  show ?thesis
    unfolding round_trip_go_def
    apply (simp add: expandResponseHeadersPolicyCorsConfig_def
             flattenResponseHeadersPolicyCorsConfig_def n2 n3 n4 n5 go_bind_Ret)
    apply (rule fmap_eqI_keys
             [where ks = "[''access_control_allow_credentials'',
                            ''access_control_allow_headers'',
                            ''access_control_allow_methods'',
                            ''access_control_allow_origins'',
                            ''access_control_expose_headers'',
                            ''access_control_max_age_sec'', ''origin_override'']"])
    using k w f1 f2 f3 f4 f5 f6 f7 by (simp_all add: keys_ok_simps lookup_simps)
qed

lemma rt_CustomHeader:
  assumes "wf_CustomHeader m"
  shows "round_trip expandResponseHeadersPolicyCustomHeader
     flattenResponseHeadersPolicyCustomHeader m"
proof -
  note w = assms [unfolded wf_CustomHeader_def]
  from w have k: "keys_ok m
       [''header'', ''override'', ''value'']"
    by simp
  note f1 = F_string [of m "''header''"]
  note f2 = F_bool [of m "''override''"]
  note f3 = F_string [of m "''value''"]
  show ?thesis
    unfolding round_trip_def
    apply (simp add: expandResponseHeadersPolicyCustomHeader_def
             flattenResponseHeadersPolicyCustomHeader_def go_bind_Ret)
    apply (rule fmap_eqI_keys
             [where ks = "[''header'', ''override'', ''value'']"])
    using k w f1 f2 f3 by (simp_all add: keys_ok_simps lookup_simps)
qed

lemma Custom_loop_Some_all:
  "list_all (nonempty_block ok) xs \<Longrightarrow>
   expandResponseHeadersPolicyCustomHeaders_loop xs (Some ys) =
     Some (ys @ map (\<lambda>x. the (expandResponseHeadersPolicyCustomHeader (the (as_map x)))) xs)"
proof (induction xs arbitrary: ys)
  case Nil
  then show ?case by simp
next
  case (Cons x xs)
  from Cons.prems obtain tf where x: "x = VMap (Some tf)"
    by (auto simp: nonempty_block_def split: tfval.splits option.splits)
  from Cons.prems have "list_all (nonempty_block ok) xs" by simp
  from Cons.IH [OF this] show ?case
    by (simp add: x as_map_def expandResponseHeadersPolicyCustomHeader_def slice_append_def)
qed

lemma Custom_loop_all:
  assumes "list_all (nonempty_block ok) xs" "xs \<noteq> []"
  shows "expandResponseHeadersPolicyCustomHeaders xs =
     Some (map (\<lambda>x. the (expandResponseHeadersPolicyCustomHeader (the (as_map x)))) xs)"
proof (cases xs)
  case Nil
  with assms(2) show ?thesis by simp
next
  case (Cons x xs')
  with assms(1) obtain tf where x: "x = VMap (Some tf)"
    by (auto simp: nonempty_block_def split: tfval.splits option.splits)
  from Cons assms(1) have "list_all (nonempty_block ok) xs'" by simp
  from Custom_loop_Some_all [OF this] show ?thesis
    by (simp add: Cons x as_map_def expandResponseHeadersPolicyCustomHeaders_def
          expandResponseHeadersPolicyCustomHeader_def slice_append_def)
qed

lemma Custom_flatten_loop:
  "list_all (nonempty_block wf_CustomHeader) xs \<Longrightarrow>
   map erase (flattenResponseHeadersPolicyCustomHeaders_loop
     (map (\<lambda>x. the (expandResponseHeadersPolicyCustomHeader (the (as_map x)))) xs) acc) =
   map erase acc @ map erase xs"
proof (induction xs arbitrary: acc)
  case Nil
  then show ?case by simp
next
  case (Cons x xs)
  from Cons.prems obtain tf where x: "x = VMap (Some tf)" and tf: "tf \<noteq> fmempty" "wf_CustomHeader tf"
    by (auto simp: nonempty_block_def split: tfval.splits option.splits)
  from rt_CustomHeader [OF tf(2)] obtain fm where
    fm: "flattenResponseHeadersPolicyCustomHeader (expandResponseHeadersPolicyCustomHeader (Some tf)) =
           Some fm"
      "fmmap erase fm = fmmap erase tf"
    by (auto simp: round_trip_def)
  from fm(2) tf(1) have ne: "fm \<noteq> fmempty"
    using fmmap_eq_empty [of erase fm] fmmap_eq_empty [of erase tf] by auto
  have s: "Some (the (expandResponseHeadersPolicyCustomHeader (Some tf))) =
      expandResponseHeadersPolicyCustomHeader (Some tf)"
    by (simp add: expandResponseHeadersPolicyCustomHeader_def)
  from Cons.prems have "list_all (nonempty_block wf_CustomHeader) xs" by simp
  from Cons.IH [OF this] fm ne show ?case
    by (simp add: x as_map_def s map_nonempty_def)
qed

lemma rt_CustomHeadersConfig:
  assumes "wf_CustomHeadersConfig m"
  shows "round_trip expandResponseHeadersPolicyCustomHeadersConfig
     flattenCustomHeadersConfigDeref m"
proof (cases "fmlookup m ''items''")
  case None
  with assms keys_ok_single [of m "''items''"] have "m = fmempty"
    by (simp add: wf_CustomHeadersConfig_def)
  then show ?thesis
    by (simp add: round_trip_def expandResponseHeadersPolicyCustomHeadersConfig_def
          flattenCustomHeadersConfigDeref_def flattenResponseHeadersPolicyCustomHeadersConfig_def
          tf_index_def as_set_def no_items_def slice_len_def put_if_def)
next
  case (Some v)
  with assms obtain xs where v: "v = VSet xs" and xs: "xs \<noteq> []"
      "list_all (nonempty_block wf_CustomHeader) xs"
    by (auto simp: wf_CustomHeadersConfig_def optional_def block_set_def split: tfval.splits)
  from Some assms keys_ok_single [of m "''items''"] have m: "m = fmupd ''items'' v fmempty"
    by (simp add: wf_CustomHeadersConfig_def)
  have e: "map erase (flattenResponseHeadersPolicyCustomHeaders_loop
      (map (\<lambda>x. the (expandResponseHeadersPolicyCustomHeader (the (as_map x)))) xs) []) =
      map erase xs"
    using Custom_flatten_loop [OF xs(2), of "[]"] by simp
  from xs show ?thesis
    by (simp add: m v e Custom_loop_all [OF xs(2) xs(1)] fmmap_fmupd round_trip_def
          expandResponseHeadersPolicyCustomHeadersConfig_def flattenCustomHeadersConfigDeref_def
          flattenResponseHeadersPolicyCustomHeadersConfig_def
          flattenResponseHeadersPolicyCustomHeaders_def tf_index_def as_set_def slice_len_def
          put_if_def Let_def)
qed

lemma rt_RemoveHeader:
  assumes "wf_RemoveHeader m"
  shows "round_trip expandResponseHeadersPolicyRemoveHeader
     flattenResponseHeadersPolicyRemoveHeader m"
proof -
  note w = assms [unfolded wf_RemoveHeader_def]
  from w have k: "keys_ok m
       [''header'']"
    by simp
  note f1 = F_string [of m "''header''"]
  show ?thesis
    unfolding round_trip_def
    apply (simp add: expandResponseHeadersPolicyRemoveHeader_def
             flattenResponseHeadersPolicyRemoveHeader_def go_bind_Ret)
    apply (rule fmap_eqI_keys
             [where ks = "[''header'']"])
    using k w f1 by (simp_all add: keys_ok_simps lookup_simps)
qed

lemma Remove_loop_Some_all:
  "list_all (nonempty_block ok) xs \<Longrightarrow>
   expandResponseHeadersPolicyRemoveHeaders_loop xs (Some ys) =
     Some (ys @ map (\<lambda>x. the (expandResponseHeadersPolicyRemoveHeader (the (as_map x)))) xs)"
proof (induction xs arbitrary: ys)
  case Nil
  then show ?case by simp
next
  case (Cons x xs)
  from Cons.prems obtain tf where x: "x = VMap (Some tf)"
    by (auto simp: nonempty_block_def split: tfval.splits option.splits)
  from Cons.prems have "list_all (nonempty_block ok) xs" by simp
  from Cons.IH [OF this] show ?case
    by (simp add: x as_map_def expandResponseHeadersPolicyRemoveHeader_def slice_append_def)
qed

lemma Remove_loop_all:
  assumes "list_all (nonempty_block ok) xs" "xs \<noteq> []"
  shows "expandResponseHeadersPolicyRemoveHeaders xs =
     Some (map (\<lambda>x. the (expandResponseHeadersPolicyRemoveHeader (the (as_map x)))) xs)"
proof (cases xs)
  case Nil
  with assms(2) show ?thesis by simp
next
  case (Cons x xs')
  with assms(1) obtain tf where x: "x = VMap (Some tf)"
    by (auto simp: nonempty_block_def split: tfval.splits option.splits)
  from Cons assms(1) have "list_all (nonempty_block ok) xs'" by simp
  from Remove_loop_Some_all [OF this] show ?thesis
    by (simp add: Cons x as_map_def expandResponseHeadersPolicyRemoveHeaders_def
          expandResponseHeadersPolicyRemoveHeader_def slice_append_def)
qed

lemma Remove_flatten_loop:
  "list_all (nonempty_block wf_RemoveHeader) xs \<Longrightarrow>
   map erase (flattenResponseHeadersPolicyRemoveHeaders_loop
     (map (\<lambda>x. the (expandResponseHeadersPolicyRemoveHeader (the (as_map x)))) xs) acc) =
   map erase acc @ map erase xs"
proof (induction xs arbitrary: acc)
  case Nil
  then show ?case by simp
next
  case (Cons x xs)
  from Cons.prems obtain tf where x: "x = VMap (Some tf)" and tf: "tf \<noteq> fmempty" "wf_RemoveHeader tf"
    by (auto simp: nonempty_block_def split: tfval.splits option.splits)
  from rt_RemoveHeader [OF tf(2)] obtain fm where
    fm: "flattenResponseHeadersPolicyRemoveHeader (expandResponseHeadersPolicyRemoveHeader (Some tf)) =
           Some fm"
      "fmmap erase fm = fmmap erase tf"
    by (auto simp: round_trip_def)
  from fm(2) tf(1) have ne: "fm \<noteq> fmempty"
    using fmmap_eq_empty [of erase fm] fmmap_eq_empty [of erase tf] by auto
  have s: "Some (the (expandResponseHeadersPolicyRemoveHeader (Some tf))) =
      expandResponseHeadersPolicyRemoveHeader (Some tf)"
    by (simp add: expandResponseHeadersPolicyRemoveHeader_def)
  from Cons.prems have "list_all (nonempty_block wf_RemoveHeader) xs" by simp
  from Cons.IH [OF this] fm ne show ?case
    by (simp add: x as_map_def s map_nonempty_def)
qed

lemma rt_RemoveHeadersConfig:
  assumes "wf_RemoveHeadersConfig m"
  shows "round_trip expandResponseHeadersPolicyRemoveHeadersConfig
     flattenResponseHeadersPolicyRemoveHeadersConfig m"
proof (cases "fmlookup m ''items''")
  case None
  with assms keys_ok_single [of m "''items''"] have "m = fmempty"
    by (simp add: wf_RemoveHeadersConfig_def)
  then show ?thesis
    by (simp add: round_trip_def expandResponseHeadersPolicyRemoveHeadersConfig_def
          flattenResponseHeadersPolicyRemoveHeadersConfig_def flattenResponseHeadersPolicyCustomHeadersConfig_def
          tf_index_def as_set_def no_items_def slice_len_def put_if_def)
next
  case (Some v)
  with assms obtain xs where v: "v = VSet xs" and xs: "xs \<noteq> []"
      "list_all (nonempty_block wf_RemoveHeader) xs"
    by (auto simp: wf_RemoveHeadersConfig_def optional_def block_set_def split: tfval.splits)
  from Some assms keys_ok_single [of m "''items''"] have m: "m = fmupd ''items'' v fmempty"
    by (simp add: wf_RemoveHeadersConfig_def)
  have e: "map erase (flattenResponseHeadersPolicyRemoveHeaders_loop
      (map (\<lambda>x. the (expandResponseHeadersPolicyRemoveHeader (the (as_map x)))) xs) []) =
      map erase xs"
    using Remove_flatten_loop [OF xs(2), of "[]"] by simp
  from xs show ?thesis
    by (simp add: m v e Remove_loop_all [OF xs(2) xs(1)] fmmap_fmupd round_trip_def
          expandResponseHeadersPolicyRemoveHeadersConfig_def flattenResponseHeadersPolicyRemoveHeadersConfig_def
          flattenResponseHeadersPolicyCustomHeadersConfig_def
          flattenResponseHeadersPolicyRemoveHeaders_def tf_index_def as_set_def slice_len_def
          put_if_def Let_def)
qed

lemma rt_ContentSecurityPolicy:
  assumes "wf_ContentSecurityPolicy m"
  shows "round_trip expandResponseHeadersPolicyContentSecurityPolicy
     flattenResponseHeadersPolicyContentSecurityPolicy m"
proof -
  note w = assms [unfolded wf_ContentSecurityPolicy_def]
  from w have k: "keys_ok m
       [''content_security_policy'', ''override'']"
    by simp
  note f1 = F_string [of m "''content_security_policy''"]
  note f2 = F_bool [of m "''override''"]
  show ?thesis
    unfolding round_trip_def
    apply (simp add: expandResponseHeadersPolicyContentSecurityPolicy_def
             flattenResponseHeadersPolicyContentSecurityPolicy_def go_bind_Ret)
    apply (rule fmap_eqI_keys
             [where ks = "[''content_security_policy'', ''override'']"])
    using k w f1 f2 by (simp_all add: keys_ok_simps lookup_simps)
qed

lemma rt_ContentTypeOptions:
  assumes "wf_ContentTypeOptions m"
  shows "round_trip expandResponseHeadersPolicyContentTypeOptions
     flattenResponseHeadersPolicyContentTypeOptions m"
proof -
  note w = assms [unfolded wf_ContentTypeOptions_def]
  from w have k: "keys_ok m
       [''override'']"
    by simp
  note f1 = F_bool [of m "''override''"]
  show ?thesis
    unfolding round_trip_def
    apply (simp add: expandResponseHeadersPolicyContentTypeOptions_def
             flattenResponseHeadersPolicyContentTypeOptions_def go_bind_Ret)
    apply (rule fmap_eqI_keys
             [where ks = "[''override'']"])
    using k w f1 by (simp_all add: keys_ok_simps lookup_simps)
qed

lemma rt_FrameOptions:
  assumes "wf_FrameOptions m"
  shows "round_trip expandResponseHeadersPolicyFrameOptions
     flattenResponseHeadersPolicyFrameOptions m"
proof -
  note w = assms [unfolded wf_FrameOptions_def]
  from w have k: "keys_ok m
       [''frame_option'', ''override'']"
    by simp
  from w have r1: "required m ''frame_option'' nonzero_string"
    by simp
  from r1 obtain s1 where
    f1: "fmlookup m ''frame_option'' = Some (VString s1)"
      "enum_field (tf_index m ''frame_option'') = s1"
    by (rule required_enum)
  note f2 = F_bool [of m "''override''"]
  show ?thesis
    unfolding round_trip_def
    apply (simp add: expandResponseHeadersPolicyFrameOptions_def
             flattenResponseHeadersPolicyFrameOptions_def go_bind_Ret)
    apply (rule fmap_eqI_keys
             [where ks = "[''frame_option'', ''override'']"])
    using k w f1 f2 by (simp_all add: keys_ok_simps lookup_simps)
qed

lemma rt_ReferrerPolicy:
  assumes "wf_ReferrerPolicy m"
  shows "round_trip expandResponseHeadersPolicyReferrerPolicy
     flattenResponseHeadersPolicyReferrerPolicy m"
proof -
  note w = assms [unfolded wf_ReferrerPolicy_def]
  from w have k: "keys_ok m
       [''override'', ''referrer_policy'']"
    by simp
  note f1 = F_boolptr [of m "''override''"]
  from w have r2: "required m ''referrer_policy'' nonzero_string"
    by simp
  from r2 obtain s2 where
    f2: "fmlookup m ''referrer_policy'' = Some (VString s2)"
      "enum_field (tf_index m ''referrer_policy'') = s2"
    by (rule required_enum)
  show ?thesis
    unfolding round_trip_def
    apply (simp add: expandResponseHeadersPolicyReferrerPolicy_def
             flattenResponseHeadersPolicyReferrerPolicy_def go_bind_Ret)
    apply (rule fmap_eqI_keys
             [where ks = "[''override'', ''referrer_policy'']"])
    using k w f1 f2 by (simp_all add: keys_ok_simps lookup_simps)
qed

lemma rt_StrictTransportSecurity:
  assumes "wf_StrictTransportSecurity m"
  shows "round_trip expandResponseHeadersPolicyStrictTransportSecurity
     flattenResponseHeadersPolicyStrictTransportSecurity m"
proof -
  note w = assms [unfolded wf_StrictTransportSecurity_def]
  from w have k: "keys_ok m
       [''access_control_max_age_sec'', ''include_subdomains'', ''override'', ''preload'']"
    by simp
  note f1 = F_int32 [of m "''access_control_max_age_sec''"]
  note f2 = F_boolptr [of m "''include_subdomains''"]
  note f3 = F_boolptr [of m "''override''"]
  note f4 = F_boolptr [of m "''preload''"]
  show ?thesis
    unfolding round_trip_def
    apply (simp add: expandResponseHeadersPolicyStrictTransportSecurity_def
             flattenResponseHeadersPolicyStrictTransportSecurity_def go_bind_Ret)
    apply (rule fmap_eqI_keys
             [where ks = "[''access_control_max_age_sec'', ''include_subdomains'',
                            ''override'', ''preload'']"])
    using k w f1 f2 f3 f4 by (simp_all add: keys_ok_simps lookup_simps)
qed

lemma rt_XSSProtection:
  assumes "wf_XSSProtection m"
  shows "round_trip expandResponseHeadersPolicyXSSProtection
     flattenResponseHeadersPolicyXSSProtection m"
proof -
  note w = assms [unfolded wf_XSSProtection_def]
  from w have k: "keys_ok m
       [''mode_block'', ''override'', ''protection'', ''report_uri'']"
    by simp
  note f1 = F_boolptr [of m "''mode_block''"]
  note f2 = F_boolptr [of m "''override''"]
  note f3 = F_boolptr [of m "''protection''"]
  note f4 = F_string [of m "''report_uri''"]
  show ?thesis
    unfolding round_trip_def
    apply (simp add: expandResponseHeadersPolicyXSSProtection_def
             flattenResponseHeadersPolicyXSSProtection_def go_bind_Ret)
    apply (rule fmap_eqI_keys
             [where ks = "[''mode_block'', ''override'', ''protection'', ''report_uri'']"])
    using k w f1 f2 f3 f4 by (simp_all add: keys_ok_simps lookup_simps)
qed

lemma rt_SecurityHeadersConfig:
  assumes "wf_SecurityHeadersConfig m"
  shows "round_trip_go expandResponseHeadersPolicySecurityHeadersConfig
     flattenResponseHeadersPolicySecurityHeadersConfig m"
proof -
  note w = assms [unfolded wf_SecurityHeadersConfig_def]
  from w have k: "keys_ok m
       [''content_security_policy'', ''content_type_options'', ''frame_options'',
        ''referrer_policy'', ''strict_transport_security'', ''xss_protection'']"
    by simp
  from w have o1: "optional m ''content_security_policy'' (block wf_ContentSecurityPolicy)"
    by simp
  have c1: "wf_ContentSecurityPolicy tf \<Longrightarrow>
      round_trip_go (\<lambda>tf. Ret (expandResponseHeadersPolicyContentSecurityPolicy tf))
        flattenResponseHeadersPolicyContentSecurityPolicy tf" for tf
    using rt_ContentSecurityPolicy by (simp add: round_trip_go_Ret)
  have z1: "flattenResponseHeadersPolicyContentSecurityPolicy None = None"
    by (simp add: flattenResponseHeadersPolicyContentSecurityPolicy_def)
  from F_block [where nc = False, OF o1 c1 z1] obtain a1 where
    n1: "nested_block False (tf_index m ''content_security_policy'')
           (\<lambda>tf. Ret (expandResponseHeadersPolicyContentSecurityPolicy tf)) = Ret a1"
    and f1: "map_option erase
           (if map_nonempty (flattenResponseHeadersPolicyContentSecurityPolicy a1)
            then Some (VList [VMap (flattenResponseHeadersPolicyContentSecurityPolicy a1)]) else None) =
         map_option erase (fmlookup m ''content_security_policy'')"
    by blast
  from w have o2: "optional m ''content_type_options'' (block wf_ContentTypeOptions)"
    by simp
  have c2: "wf_ContentTypeOptions tf \<Longrightarrow>
      round_trip_go (\<lambda>tf. Ret (expandResponseHeadersPolicyContentTypeOptions tf))
        flattenResponseHeadersPolicyContentTypeOptions tf" for tf
    using rt_ContentTypeOptions by (simp add: round_trip_go_Ret)
  have z2: "flattenResponseHeadersPolicyContentTypeOptions None = None"
    by (simp add: flattenResponseHeadersPolicyContentTypeOptions_def)
  from F_block [where nc = False, OF o2 c2 z2] obtain a2 where
    n2: "nested_block False (tf_index m ''content_type_options'')
           (\<lambda>tf. Ret (expandResponseHeadersPolicyContentTypeOptions tf)) = Ret a2"
    and f2: "map_option erase
           (if map_nonempty (flattenResponseHeadersPolicyContentTypeOptions a2)
            then Some (VList [VMap (flattenResponseHeadersPolicyContentTypeOptions a2)]) else None) =
         map_option erase (fmlookup m ''content_type_options'')"
    by blast
  from w have o3: "optional m ''frame_options'' (block wf_FrameOptions)"
    by simp
  have c3: "wf_FrameOptions tf \<Longrightarrow>
      round_trip_go (\<lambda>tf. Ret (expandResponseHeadersPolicyFrameOptions tf))
        flattenResponseHeadersPolicyFrameOptions tf" for tf
    using rt_FrameOptions by (simp add: round_trip_go_Ret)
  have z3: "flattenResponseHeadersPolicyFrameOptions None = None"
    by (simp add: flattenResponseHeadersPolicyFrameOptions_def)
  from F_block [where nc = False, OF o3 c3 z3] obtain a3 where
    n3: "nested_block False (tf_index m ''frame_options'')
           (\<lambda>tf. Ret (expandResponseHeadersPolicyFrameOptions tf)) = Ret a3"
    and f3: "map_option erase
           (if map_nonempty (flattenResponseHeadersPolicyFrameOptions a3)
            then Some (VList [VMap (flattenResponseHeadersPolicyFrameOptions a3)]) else None) =
         map_option erase (fmlookup m ''frame_options'')"
    by blast
  from w have o4: "optional m ''referrer_policy'' (block wf_ReferrerPolicy)"
    by simp
  have c4: "wf_ReferrerPolicy tf \<Longrightarrow>
      round_trip_go (\<lambda>tf. Ret (expandResponseHeadersPolicyReferrerPolicy tf))
        flattenResponseHeadersPolicyReferrerPolicy tf" for tf
    using rt_ReferrerPolicy by (simp add: round_trip_go_Ret)
  have z4: "flattenResponseHeadersPolicyReferrerPolicy None = None"
    by (simp add: flattenResponseHeadersPolicyReferrerPolicy_def)
  from F_block [where nc = False, OF o4 c4 z4] obtain a4 where
    n4: "nested_block False (tf_index m ''referrer_policy'')
           (\<lambda>tf. Ret (expandResponseHeadersPolicyReferrerPolicy tf)) = Ret a4"
    and f4: "map_option erase
           (if map_nonempty (flattenResponseHeadersPolicyReferrerPolicy a4)
            then Some (VList [VMap (flattenResponseHeadersPolicyReferrerPolicy a4)]) else None) =
         map_option erase (fmlookup m ''referrer_policy'')"
    by blast
  from w have o5: "optional m ''strict_transport_security'' (block wf_StrictTransportSecurity)"
    by simp
  have c5: "wf_StrictTransportSecurity tf \<Longrightarrow>
      round_trip_go (\<lambda>tf. Ret (expandResponseHeadersPolicyStrictTransportSecurity tf))
        flattenResponseHeadersPolicyStrictTransportSecurity tf" for tf
    using rt_StrictTransportSecurity by (simp add: round_trip_go_Ret)
  have z5: "flattenResponseHeadersPolicyStrictTransportSecurity None = None"
    by (simp add: flattenResponseHeadersPolicyStrictTransportSecurity_def)
  from F_block [where nc = False, OF o5 c5 z5] obtain a5 where
    n5: "nested_block False (tf_index m ''strict_transport_security'')
           (\<lambda>tf. Ret (expandResponseHeadersPolicyStrictTransportSecurity tf)) = Ret a5"
    and f5: "map_option erase
           (if map_nonempty (flattenResponseHeadersPolicyStrictTransportSecurity a5)
            then Some (VList [VMap (flattenResponseHeadersPolicyStrictTransportSecurity a5)]) else None) =
         map_option erase (fmlookup m ''strict_transport_security'')"
    by blast
  from w have o6: "optional m ''xss_protection'' (block wf_XSSProtection)"
    by simp
  have c6: "wf_XSSProtection tf \<Longrightarrow>
      round_trip_go (\<lambda>tf. Ret (expandResponseHeadersPolicyXSSProtection tf))
        flattenResponseHeadersPolicyXSSProtection tf" for tf
    using rt_XSSProtection by (simp add: round_trip_go_Ret)
  have z6: "flattenResponseHeadersPolicyXSSProtection None = None"
    by (simp add: flattenResponseHeadersPolicyXSSProtection_def)
  from F_block [where nc = False, OF o6 c6 z6] obtain a6 where
    n6: "nested_block False (tf_index m ''xss_protection'')
           (\<lambda>tf. Ret (expandResponseHeadersPolicyXSSProtection tf)) = Ret a6"
    and f6: "map_option erase
           (if map_nonempty (flattenResponseHeadersPolicyXSSProtection a6)
            then Some (VList [VMap (flattenResponseHeadersPolicyXSSProtection a6)]) else None) =
         map_option erase (fmlookup m ''xss_protection'')"
    by blast
  show ?thesis
    unfolding round_trip_go_def
    apply (simp add: expandResponseHeadersPolicySecurityHeadersConfig_def
             flattenResponseHeadersPolicySecurityHeadersConfig_def n1 n2 n3 n4 n5 n6
             go_bind_Ret)
    apply (rule fmap_eqI_keys
             [where ks = "[''content_security_policy'', ''content_type_options'',
                            ''frame_options'', ''referrer_policy'',
                            ''strict_transport_security'', ''xss_protection'']"])
    using k w f1 f2 f3 f4 f5 f6 by (simp_all add: keys_ok_simps lookup_simps)
qed

lemma rt_ServerTimingHeadersConfig:
  assumes "wf_ServerTimingHeadersConfig m"
  shows "round_trip expandResponseHeadersPolicyServerTimingHeadersConfig
     flattenResponseHeadersPolicyServerTimingHeadersConfig m"
proof -
  note w = assms [unfolded wf_ServerTimingHeadersConfig_def]
  from w have k: "keys_ok m
       [''enabled'', ''sampling_rate'']"
    by simp
  note f1 = F_boolptr [of m "''enabled''"]
  note f2 = F_float [of m "''sampling_rate''"]
  show ?thesis
    unfolding round_trip_def
    apply (simp add: expandResponseHeadersPolicyServerTimingHeadersConfig_def
             flattenResponseHeadersPolicyServerTimingHeadersConfig_def go_bind_Ret)
    apply (rule fmap_eqI_keys
             [where ks = "[''enabled'', ''sampling_rate'']"])
    using k w f1 f2 by (simp_all add: keys_ok_simps lookup_simps)
qed

text \<open>
  C1, as stated, at the \<^verbatim>\<open>xss_protection\<close> block with no \<^verbatim>\<open>report_uri\<close>. The flattened map
  has no key \<^verbatim>\<open>report_uri\<close>, since the expander drops the empty string, and it holds a
  \<^verbatim>\<open>*bool\<close> where the map held a \<^verbatim>\<open>bool\<close>: it is not the map, and it is not the map even
  when both are read without their Go representation.
\<close>

theorem flatten_of_expand_is_another_map:
  "flattenResponseHeadersPolicyXSSProtection
     (expandResponseHeadersPolicyXSSProtection (Some sample_xss_protection)) =
     Some (fmupd ''protection'' (VBoolPtr (Some True))
          (fmupd ''override'' (VBoolPtr (Some True))
          (fmupd ''mode_block'' (VBoolPtr (Some False)) fmempty))) \<and>
   fmlookup sample_xss_protection ''report_uri'' = Some (VString []) \<and>
   fmlookup sample_xss_protection ''override'' = Some (VBool True) \<and>
   flattenResponseHeadersPolicyXSSProtection
     (expandResponseHeadersPolicyXSSProtection (Some sample_xss_protection)) \<noteq>
     Some sample_xss_protection \<and>
   \<not> round_trip expandResponseHeadersPolicyXSSProtection
       flattenResponseHeadersPolicyXSSProtection sample_xss_protection"
proof -
  have f: "flattenResponseHeadersPolicyXSSProtection
     (expandResponseHeadersPolicyXSSProtection (Some sample_xss_protection)) =
     Some (fmupd ''protection'' (VBoolPtr (Some True))
          (fmupd ''override'' (VBoolPtr (Some True))
          (fmupd ''mode_block'' (VBoolPtr (Some False)) fmempty)))"
    by (simp add: expandResponseHeadersPolicyXSSProtection_def
          flattenResponseHeadersPolicyXSSProtection_def sample_xss_protection_def tf_index_def
          as_bool_def nonempty_string_def as_string_def put_some_def)
  have l: "fmlookup sample_xss_protection ''report_uri'' = Some (VString [])"
    "fmlookup sample_xss_protection ''override'' = Some (VBool True)"
    by (simp_all add: sample_xss_protection_def)
  have n: "fmmap g (fmupd ''protection'' (VBoolPtr (Some True))
          (fmupd ''override'' (VBoolPtr (Some True))
          (fmupd ''mode_block'' (VBoolPtr (Some False)) fmempty))) \<noteq> fmmap h sample_xss_protection"
    for g h :: "tfval \<Rightarrow> tfval"
  proof
    assume "fmmap g (fmupd ''protection'' (VBoolPtr (Some True))
          (fmupd ''override'' (VBoolPtr (Some True))
          (fmupd ''mode_block'' (VBoolPtr (Some False)) fmempty))) = fmmap h sample_xss_protection"
    then have "fmlookup (fmmap g (fmupd ''protection'' (VBoolPtr (Some True))
          (fmupd ''override'' (VBoolPtr (Some True))
          (fmupd ''mode_block'' (VBoolPtr (Some False)) fmempty)))) ''report_uri'' =
        fmlookup (fmmap h sample_xss_protection) ''report_uri''"
      by simp
    then show False by (simp add: l)
  qed
  from n [of id id] have "fmupd ''protection'' (VBoolPtr (Some True))
          (fmupd ''override'' (VBoolPtr (Some True))
          (fmupd ''mode_block'' (VBoolPtr (Some False)) fmempty)) \<noteq> sample_xss_protection"
    by (simp add: fmap.map_id)
  with n [of erase erase] show ?thesis
    by (simp add: f l round_trip_def)
qed

text \<open>
  C1, amended. Let \<^verbatim>\<open>flex.ExpandStringSet\<close> and \<^verbatim>\<open>flex.ExpandStringValueSet\<close> return the
  strings of a set in the order of \<^verbatim>\<open>List()\<close>, and let \<open>m\<close> be well-formed for the block at
  hand: its keys are keys of the block's schema, each with a value that the expander keeps
  (a string that is not empty, an integer that is not 0 and fits an \<^verbatim>\<open>int32\<close>, a \<^verbatim>\<open>bool\<close>, a
  \<^verbatim>\<open>float64\<close>, a set of such strings that is not empty, a nested block that is a list of one
  well-formed map that is not empty), the three enumeration keys that the flatteners write
  unconditionally (\<^verbatim>\<open>frame_option\<close>, \<^verbatim>\<open>referrer_policy\<close>,
  \<^verbatim>\<open>realtime_metrics_subscription_status\<close>) being present. Then for each of the 29 pairs the
  expander does not panic on \<open>m\<close>, and flattening its result gives \<open>m\<close> again once both maps
  are read without their Go representation.
\<close>

theorem flatten_of_expand_up_to_representation:
  assumes "flex_ok e"
  shows
  "(wf_Items m \<longrightarrow>
    round_trip (expandCookieNames e) flattenCookieNames m) \<and>
   (wf_Items m \<longrightarrow>
    round_trip (expandHeaders e) flattenHeaders m) \<and>
   (wf_Items m \<longrightarrow>
    round_trip (expandQueryStringNames e) flattenQueryStringNames m) \<and>
   (wf_CookiesConfig m \<longrightarrow>
    round_trip_go (expandCachePolicyCookiesConfig e) flattenCachePolicyCookiesConfig m) \<and>
   (wf_HeadersConfig m \<longrightarrow>
    round_trip_go (expandCachePolicyHeadersConfig e) flattenCachePolicyHeadersConfig m) \<and>
   (wf_QueryStringsConfig m \<longrightarrow>
    round_trip_go (expandCachePolicyQueryStringsConfig e)
      flattenCachePolicyQueryStringsConfig m) \<and>
   (wf_ParametersInCacheKeyAndForwardedToOrigin m \<longrightarrow>
    round_trip_go (expandParametersInCacheKeyAndForwardedToOrigin e)
      flattenParametersInCacheKeyAndForwardedToOrigin m) \<and>
   (wf_CookiesConfig m \<longrightarrow>
    round_trip_go (expandOriginRequestPolicyCookiesConfig e)
      flattenOriginRequestPolicyCookiesConfig m) \<and>
   (wf_HeadersConfig m \<longrightarrow>
    round_trip_go (expandOriginRequestPolicyHeadersConfig e)
      flattenOriginRequestPolicyHeadersConfig m) \<and>
   (wf_QueryStringsConfig m \<longrightarrow>
    round_trip_go (expandOriginRequestPolicyQueryStringsConfig e)
      flattenOriginRequestPolicyQueryStringsConfig m) \<and>
   (wf_RealtimeMetricsSubscriptionConfig m \<longrightarrow>
    round_trip expandRealtimeMetricsSubscriptionConfig
      flattenRealtimeMetricsSubscriptionConfig m) \<and>
   (wf_MonitoringSubscription m \<longrightarrow>
    round_trip_go expandMonitoringSubscription flattenMonitoringSubscription m) \<and>
   (wf_Items m \<longrightarrow>
    round_trip (expandResponseHeadersPolicyAccessControlAllowHeaders e)
      flattenResponseHeadersPolicyAccessControlAllowHeaders m) \<and>
   (wf_Items m \<longrightarrow>
    round_trip (expandResponseHeadersPolicyAccessControlAllowMethods e)
      flattenResponseHeadersPolicyAccessControlAllowMethods m) \<and>
   (wf_Items m \<longrightarrow>
    round_trip (expandResponseHeadersPolicyAccessControlAllowOrigins e)
      flattenResponseHeadersPolicyAccessControlAllowOrigins m) \<and>
   (wf_Items m \<longrightarrow>
    round_trip (expandResponseHeadersPolicyAccessControlExposeHeaders e)
      flattenResponseHeadersPolicyAccessControlExposeHeaders m) \<and>
   (wf_CorsConfig m \<longrightarrow>
    round_trip_go (expandResponseHeadersPolicyCorsConfig e)
      flattenResponseHeadersPolicyCorsConfig m) \<and>
   (wf_CustomHeader m \<longrightarrow>
    round_trip expandResponseHeadersPolicyCustomHeader
      flattenResponseHeadersPolicyCustomHeader m) \<and>
   (wf_CustomHeadersConfig m \<longrightarrow>
    round_trip expandResponseHeadersPolicyCustomHeadersConfig
      flattenCustomHeadersConfigDeref m) \<and>
   (wf_RemoveHeader m \<longrightarrow>
    round_trip expandResponseHeadersPolicyRemoveHeader
      flattenResponseHeadersPolicyRemoveHeader m) \<and>
   (wf_RemoveHeadersConfig m \<longrightarrow>
    round_trip expandResponseHeadersPolicyRemoveHeadersConfig
      flattenResponseHeadersPolicyRemoveHeadersConfig m) \<and>
   (wf_ContentSecurityPolicy m \<longrightarrow>
    round_trip expandResponseHeadersPolicyContentSecurityPolicy
      flattenResponseHeadersPolicyContentSecurityPolicy m) \<and>
   (wf_ContentTypeOptions m \<longrightarrow>
    round_trip expandResponseHeadersPolicyContentTypeOptions
      flattenResponseHeadersPolicyContentTypeOptions m) \<and>
   (wf_FrameOptions m \<longrightarrow>
    round_trip expandResponseHeadersPolicyFrameOptions
      flattenResponseHeadersPolicyFrameOptions m) \<and>
   (wf_ReferrerPolicy m \<longrightarrow>
    round_trip expandResponseHeadersPolicyReferrerPolicy
      flattenResponseHeadersPolicyReferrerPolicy m) \<and>
   (wf_StrictTransportSecurity m \<longrightarrow>
    round_trip expandResponseHeadersPolicyStrictTransportSecurity
      flattenResponseHeadersPolicyStrictTransportSecurity m) \<and>
   (wf_XSSProtection m \<longrightarrow>
    round_trip expandResponseHeadersPolicyXSSProtection
      flattenResponseHeadersPolicyXSSProtection m) \<and>
   (wf_SecurityHeadersConfig m \<longrightarrow>
    round_trip_go expandResponseHeadersPolicySecurityHeadersConfig
      flattenResponseHeadersPolicySecurityHeadersConfig m) \<and>
   (wf_ServerTimingHeadersConfig m \<longrightarrow>
    round_trip expandResponseHeadersPolicyServerTimingHeadersConfig
      flattenResponseHeadersPolicyServerTimingHeadersConfig m)"
  using assms
  by (simp add: rt_CookieNames rt_Headers rt_QueryStringNames rt_CachePolicyCookiesConfig
        rt_CachePolicyHeadersConfig rt_CachePolicyQueryStringsConfig
        rt_ParametersInCacheKeyAndForwardedToOrigin rt_OriginRequestPolicyCookiesConfig
        rt_OriginRequestPolicyHeadersConfig rt_OriginRequestPolicyQueryStringsConfig
        rt_RealtimeMetricsSubscriptionConfig rt_MonitoringSubscription
        rt_AccessControlAllowHeaders rt_AccessControlAllowMethods
        rt_AccessControlAllowOrigins rt_AccessControlExposeHeaders rt_CorsConfig
        rt_CustomHeader rt_CustomHeadersConfig rt_RemoveHeader rt_RemoveHeadersConfig
        rt_ContentSecurityPolicy rt_ContentTypeOptions rt_FrameOptions rt_ReferrerPolicy
        rt_StrictTransportSecurity rt_XSSProtection rt_SecurityHeadersConfig
        rt_ServerTimingHeadersConfig)

theorem flatten_of_expand_up_to_representation_witness:
  "flex_ok sample_env \<and>
   wf_ParametersInCacheKeyAndForwardedToOrigin sample_parameters \<and>
   round_trip_go (expandParametersInCacheKeyAndForwardedToOrigin sample_env)
     flattenParametersInCacheKeyAndForwardedToOrigin sample_parameters \<and>
   wf_SecurityHeadersConfig sample_security_headers \<and>
   round_trip_go expandResponseHeadersPolicySecurityHeadersConfig
     flattenResponseHeadersPolicySecurityHeadersConfig sample_security_headers \<and>
   wf_CustomHeadersConfig sample_block_items \<and>
   round_trip expandResponseHeadersPolicyCustomHeadersConfig
     flattenCustomHeadersConfigDeref sample_block_items"
proof -
  have e: "flex_ok sample_env"
    by (simp add: flex_ok_def sample_env_def)
  have p: "wf_ParametersInCacheKeyAndForwardedToOrigin sample_parameters"
    by (simp add: wf_ParametersInCacheKeyAndForwardedToOrigin_def wf_CookiesConfig_def
          wf_HeadersConfig_def wf_QueryStringsConfig_def wf_Items_def sample_parameters_def
          sample_string_items_def wf_simps)
  have s: "wf_SecurityHeadersConfig sample_security_headers"
    by (simp add: wf_SecurityHeadersConfig_def wf_FrameOptions_def
          wf_StrictTransportSecurity_def sample_security_headers_def wf_simps)
  have c: "wf_CustomHeadersConfig sample_block_items"
    by (simp add: wf_CustomHeadersConfig_def wf_CustomHeader_def sample_block_items_def
          sample_custom_header_def wf_simps)
  note t = flatten_of_expand_up_to_representation [OF e]
  from t [where m = sample_parameters,
       THEN conjunct2, THEN conjunct2, THEN conjunct2, THEN conjunct2, THEN conjunct2,
       THEN conjunct2, THEN conjunct1]
    t [where m = sample_security_headers,
       THEN conjunct2, THEN conjunct2, THEN conjunct2, THEN conjunct2, THEN conjunct2,
       THEN conjunct2, THEN conjunct2, THEN conjunct2, THEN conjunct2, THEN conjunct2,
       THEN conjunct2, THEN conjunct2, THEN conjunct2, THEN conjunct2, THEN conjunct2,
       THEN conjunct2, THEN conjunct2, THEN conjunct2, THEN conjunct2, THEN conjunct2,
       THEN conjunct2, THEN conjunct2, THEN conjunct2, THEN conjunct2, THEN conjunct2,
       THEN conjunct2, THEN conjunct2, THEN conjunct1]
    t [where m = sample_block_items,
       THEN conjunct2, THEN conjunct2, THEN conjunct2, THEN conjunct2, THEN conjunct2,
       THEN conjunct2, THEN conjunct2, THEN conjunct2, THEN conjunct2, THEN conjunct2,
       THEN conjunct2, THEN conjunct2, THEN conjunct2, THEN conjunct2, THEN conjunct2,
       THEN conjunct2, THEN conjunct2, THEN conjunct2, THEN conjunct1]
  show ?thesis
    by (simp add: e p s c)
qed


end
